theory Spec2Isabelle
  imports Complex_Main "HOL-Library.Sublist"
begin

section \<open>Text and regular expressions\<close>

text \<open>
  A JavaScript string is modelled as a \<^typ>\<open>string\<close> holding its UTF-8 bytes. Every
  pattern of the sources is written in ASCII, so a match on the bytes is a match on the
  text. Only \<^verbatim>\<open>\s\<close> reaches beyond ASCII; its Unicode members are listed below by
  their encodings.
\<close>

definition is_digit :: "char \<Rightarrow> bool" where
  "is_digit c = (c \<in> set ''0123456789'')"

text \<open>The character class \<^verbatim>\<open>[a-fA-F0-9]\<close>.\<close>

definition is_hex :: "char \<Rightarrow> bool" where
  "is_hex c = (c \<in> set ''abcdefABCDEF0123456789'')"

text \<open>ASCII case mapping, as \<^verbatim>\<open>toUpperCase\<close> and \<^verbatim>\<open>toLowerCase\<close> act on ASCII text.\<close>

definition ascii_upper :: "char \<Rightarrow> char" where
  "ascii_upper c =
     (let n = (of_char c :: nat) in if 97 \<le> n \<and> n \<le> 122 then char_of (n - 32) else c)"

definition ascii_lower :: "char \<Rightarrow> char" where
  "ascii_lower c =
     (let n = (of_char c :: nat) in if 65 \<le> n \<and> n \<le> 90 then char_of (n + 32) else c)"

definition toUpperCase :: "string \<Rightarrow> string" where
  "toUpperCase s = map ascii_upper s"

definition toLowerCase :: "string \<Rightarrow> string" where
  "toLowerCase s = map ascii_lower s"

text \<open>\<^verbatim>\<open>Array.prototype.join\<close>, and \<^verbatim>\<open>join("\n")\<close>.\<close>

fun join_with :: "string \<Rightarrow> string list \<Rightarrow> string" where
  "join_with sep [] = []"
| "join_with sep [l] = l"
| "join_with sep (l # m # ls) = l @ sep @ join_with sep (m # ls)"

definition join_nl :: "string list \<Rightarrow> string" where
  "join_nl ls = join_with [CHR 0x0A] ls"

subsection \<open>A backtracking matcher\<close>

text \<open>
  A pattern maps a matcher state (the capture groups set so far, newest first, and the
  input still to read) to every state it can end in, in the order in which a
  backtracking engine tries them: a greedy quantifier offers the longer match first, an
  alternation its left branch first.
\<close>

type_synonym rstate = "(nat \<times> string) list \<times> string"
type_synonym rx = "rstate \<Rightarrow> rstate list"

definition rx_class :: "(char \<Rightarrow> bool) \<Rightarrow> rx" where
  "rx_class P st =
     (case snd st of [] \<Rightarrow> [] | c # cs \<Rightarrow> if P c then [(fst st, cs)] else [])"

definition rx_seq :: "rx \<Rightarrow> rx \<Rightarrow> rx" where
  "rx_seq a b st = concat (map b (a st))"

definition rx_alt :: "rx \<Rightarrow> rx \<Rightarrow> rx" where
  "rx_alt a b st = a st @ b st"

definition rx_opt :: "rx \<Rightarrow> rx" where
  "rx_opt a st = a st @ [st]"

fun rx_lit :: "string \<Rightarrow> rx" where
  "rx_lit [] st = [st]"
| "rx_lit (c # cs) st = concat (map (rx_lit cs) (rx_class (\<lambda>d. d = c) st))"

text \<open>A literal under the \<^verbatim>\<open>i\<close> flag: both sides are canonicalised to upper case.\<close>

fun rx_lit_ci :: "string \<Rightarrow> rx" where
  "rx_lit_ci [] st = [st]"
| "rx_lit_ci (c # cs) st =
     concat (map (rx_lit_ci cs) (rx_class (\<lambda>d. ascii_upper d = ascii_upper c) st))"

text \<open>The bounded repetition \<^verbatim>\<open>a{n}\<close>.\<close>

fun rx_rep :: "nat \<Rightarrow> rx \<Rightarrow> rx" where
  "rx_rep 0 a st = [st]"
| "rx_rep (Suc n) a st = concat (map (rx_rep n a) (a st))"

text \<open>
  The greedy star. An iteration that reads nothing is rejected, as in ECMAScript, so
  there are at most as many iterations as characters left: the counter starts there and
  never cuts a match short.
\<close>

fun rx_star_n :: "nat \<Rightarrow> rx \<Rightarrow> rx" where
  "rx_star_n 0 a st = [st]"
| "rx_star_n (Suc n) a st =
     concat (map (\<lambda>st'. if length (snd st') < length (snd st) then rx_star_n n a st' else [])
                 (a st)) @ [st]"

definition rx_star :: "rx \<Rightarrow> rx" where
  "rx_star a st = rx_star_n (length (snd st)) a st"

definition rx_plus :: "rx \<Rightarrow> rx" where
  "rx_plus a = rx_seq a (rx_star a)"

text \<open>A capture group records the text its body read.\<close>

definition rx_group :: "nat \<Rightarrow> rx \<Rightarrow> rx" where
  "rx_group i a st =
     map (\<lambda>st'. ((i, take (length (snd st) - length (snd st')) (snd st)) # fst st', snd st'))
         (a st)"

text \<open>
  \<^verbatim>\<open>\s\<close>: the ECMAScript white space and line terminator code points (TAB, LF, VT,
  FF, CR, SP, U+00A0, U+1680, U+2000 to U+200A, U+2028, U+2029, U+202F, U+205F, U+3000,
  U+FEFF), as UTF-8.
\<close>

definition white_space :: "string list" where
  "white_space =
     [[CHR 0x09], [CHR 0x0A], [CHR 0x0B], [CHR 0x0C], [CHR 0x0D], [CHR 0x20],
      [CHR 0xC2, CHR 0xA0], [CHR 0xE1, CHR 0x9A, CHR 0x80],
      [CHR 0xE2, CHR 0x80, CHR 0x80], [CHR 0xE2, CHR 0x80, CHR 0x81],
      [CHR 0xE2, CHR 0x80, CHR 0x82], [CHR 0xE2, CHR 0x80, CHR 0x83],
      [CHR 0xE2, CHR 0x80, CHR 0x84], [CHR 0xE2, CHR 0x80, CHR 0x85],
      [CHR 0xE2, CHR 0x80, CHR 0x86], [CHR 0xE2, CHR 0x80, CHR 0x87],
      [CHR 0xE2, CHR 0x80, CHR 0x88], [CHR 0xE2, CHR 0x80, CHR 0x89],
      [CHR 0xE2, CHR 0x80, CHR 0x8A], [CHR 0xE2, CHR 0x80, CHR 0xA8],
      [CHR 0xE2, CHR 0x80, CHR 0xA9], [CHR 0xE2, CHR 0x80, CHR 0xAF],
      [CHR 0xE2, CHR 0x81, CHR 0x9F], [CHR 0xE3, CHR 0x80, CHR 0x80],
      [CHR 0xEF, CHR 0xBB, CHR 0xBF]]"

definition rx_space :: rx where
  "rx_space st = concat (map (\<lambda>w. rx_lit w st) white_space)"

text \<open>
  \<^verbatim>\<open>RegExp.prototype.exec\<close> from index 0: the leftmost position at which the pattern
  matches, with the text matched there and its capture groups.
\<close>

fun rx_exec :: "rx \<Rightarrow> string \<Rightarrow> (string \<times> (nat \<times> string) list) option" where
  "rx_exec r [] = (case r ([], []) of [] \<Rightarrow> None | st # _ \<Rightarrow> Some ([], fst st))"
| "rx_exec r (c # cs) =
     (case r ([], c # cs) of
        [] \<Rightarrow> rx_exec r cs
      | st # _ \<Rightarrow> Some (take (Suc (length cs) - length (snd st)) (c # cs), fst st))"

text \<open>
  \<^verbatim>\<open>String.prototype.match\<close> with a \<^verbatim>\<open>g\<close> pattern: the matched texts, left to
  right, each search resuming where the last match ended (one character further after an
  empty match). The counter is the number of characters the last match still covers.
  The empty list stands for the \<^verbatim>\<open>null\<close> that \<^verbatim>\<open>match\<close> returns when nothing
  matches.
\<close>

fun rx_match_g :: "rx \<Rightarrow> nat \<Rightarrow> string \<Rightarrow> string list" where
  "rx_match_g r k [] = (if k = 0 \<and> r ([], []) \<noteq> [] then [[]] else [])"
| "rx_match_g r (Suc k) (c # cs) = rx_match_g r k cs"
| "rx_match_g r 0 (c # cs) =
     (case r ([], c # cs) of
        [] \<Rightarrow> rx_match_g r 0 cs
      | st # _ \<Rightarrow>
          (let m = take (Suc (length cs) - length (snd st)) (c # cs)
           in m # rx_match_g r (length m - 1) cs))"

subsection \<open>Intent parsing\<close>

text \<open>\<^verbatim>\<open>/0x[a-fA-F0-9]{40}/g\<close>\<close>

definition ethAddressRegex :: rx where
  "ethAddressRegex = rx_seq (rx_lit ''0x'') (rx_rep 40 (rx_class is_hex))"

text \<open>
  \<^verbatim>\<open>extractEthereumWalletAddress\<close>, defined alike in the native transfer, the token
  transfer and the balance action: \<^verbatim>\<open>matches ? matches[0] : null\<close>.
\<close>

definition extractEthereumWalletAddress :: "string \<Rightarrow> string option" where
  "extractEthereumWalletAddress text =
     (case rx_match_g ethAddressRegex 0 text of [] \<Rightarrow> None | m # _ \<Rightarrow> Some m)"

text \<open>\<^verbatim>\<open>/(\d+(\.\d+)?)\s*(MNT|mnt)/i\<close>\<close>

definition amountRegex :: rx where
  "amountRegex =
     rx_seq
       (rx_group 1
          (rx_seq (rx_plus (rx_class is_digit))
             (rx_opt (rx_group 2 (rx_seq (rx_lit ''.'') (rx_plus (rx_class is_digit)))))))
       (rx_seq (rx_star rx_space) (rx_group 3 (rx_alt (rx_lit_ci ''MNT'') (rx_lit_ci ''mnt''))))"

text \<open>\<^verbatim>\<open>extractAmount\<close>: \<^verbatim>\<open>match ? match[1] : null\<close>.\<close>

definition extractAmount :: "string \<Rightarrow> string option" where
  "extractAmount text =
     (case rx_exec amountRegex text of None \<Rightarrow> None | Some (m, caps) \<Rightarrow> map_of caps 1)"

text \<open>\<^verbatim>\<open>/(\d+(\.\d+)?)\s*(AISHOP|aishop)/i\<close>\<close>

definition transferRegex :: rx where
  "transferRegex =
     rx_seq
       (rx_group 1
          (rx_seq (rx_plus (rx_class is_digit))
             (rx_opt (rx_group 2 (rx_seq (rx_lit ''.'') (rx_plus (rx_class is_digit)))))))
       (rx_seq (rx_star rx_space)
          (rx_group 3 (rx_alt (rx_lit_ci ''AISHOP'') (rx_lit_ci ''aishop''))))"

record token_transfer_info =
  amount :: string
  symbol :: string

text \<open>\<^verbatim>\<open>extractTokenTransferInfo\<close>\<close>

definition extractTokenTransferInfo :: "string \<Rightarrow> token_transfer_info option" where
  "extractTokenTransferInfo text =
     (case rx_exec transferRegex text of
        None \<Rightarrow> None
      | Some (m, caps) \<Rightarrow>
          (case (map_of caps 1, map_of caps 3) of
             (Some a, Some s) \<Rightarrow> Some \<lparr>amount = a, symbol = toUpperCase s\<rparr>
           | _ \<Rightarrow> None))"

section \<open>Values, errors and the outside world\<close>

text \<open>
  Values as the cache and \<^verbatim>\<open>JSON.parse\<close> hand them over. TypeScript types are erased
  at run time, so the wallet store reads whatever value the cache holds. Numbers are the
  integers (the store only writes \<^verbatim>\<open>Date.now()\<close>).
\<close>

datatype jsval =
    JUndefined
  | JNull
  | JBool bool
  | JNum int
  | JStr string
  | JArr "jsval list"
  | JObj "(string \<times> jsval) list"

text \<open>A thrown value: an \<^verbatim>\<open>Error\<close> with its message, or anything else.\<close>

datatype thrown = Error string | NonError

text \<open>ToBoolean, as \<^verbatim>\<open>!v\<close> and \<^verbatim>\<open>!!v\<close> use it.\<close>

fun truthy :: "jsval \<Rightarrow> bool" where
  "truthy JUndefined = False"
| "truthy JNull = False"
| "truthy (JBool b) = b"
| "truthy (JNum n) = (n \<noteq> 0)"
| "truthy (JStr s) = (s \<noteq> [])"
| "truthy (JArr vs) = True"
| "truthy (JObj kvs) = True"

text \<open>
  Reading a data property \<^verbatim>\<open>v.k\<close>: a \<^verbatim>\<open>TypeError\<close> on \<^verbatim>\<open>undefined\<close> and
  \<^verbatim>\<open>null\<close>, the field of an object, and \<^verbatim>\<open>undefined\<close> where there is no such field.
\<close>

definition text_cannot_read :: "string \<Rightarrow> string \<Rightarrow> string" where
  "text_cannot_read what k =
     ''Cannot read properties of '' @ what @ '' (reading '' @ [CHR 0x27] @ k @ [CHR 0x27] @ '')''"

fun get_prop :: "jsval \<Rightarrow> string \<Rightarrow> thrown + jsval" where
  "get_prop JUndefined k = Inl (Error (text_cannot_read ''undefined'' k))"
| "get_prop JNull k = Inl (Error (text_cannot_read ''null'' k))"
| "get_prop (JObj kvs) k = Inr (case map_of kvs k of None \<Rightarrow> JUndefined | Some v \<Rightarrow> v)"
| "get_prop v k = Inr JUndefined"

text \<open>Decimal digits of a natural number, and \<^verbatim>\<open>Number.prototype.toString(16)\<close>.\<close>

definition digit_char :: "nat \<Rightarrow> char" where
  "digit_char d = ''0123456789abcdefghijklmnopqrstuvwxyz'' ! d"

fun digits_of :: "nat \<Rightarrow> nat \<Rightarrow> string" where
  "digits_of b n =
     (if b < 2 \<or> n < b then [digit_char n] else digits_of b (n div b) @ [digit_char (n mod b)])"

declare digits_of.simps [simp del]

definition int_toString :: "nat \<Rightarrow> int \<Rightarrow> string" where
  "int_toString b v = (if v < 0 then ''-'' @ digits_of b (nat (- v)) else digits_of b (nat v))"

text \<open>\<^verbatim>\<open>a || b\<close> on optional strings: \<^verbatim>\<open>undefined\<close> and the empty string are falsy.\<close>

definition js_or :: "string option \<Rightarrow> string option \<Rightarrow> string option" where
  "js_or a b = (case a of None \<Rightarrow> b | Some s \<Rightarrow> if s = [] then b else Some s)"

text \<open>A string that passes a guard \<^verbatim>\<open>if (!s) ...\<close>: defined and not empty.\<close>

definition truthy_str :: "string option \<Rightarrow> string option" where
  "truthy_str a = js_or a None"

text \<open>\<^verbatim>\<open>error instanceof Error ? error.message : "Error desconocido"\<close>\<close>

definition error_message :: "thrown \<Rightarrow> string" where
  "error_message e = (case e of Error msg \<Rightarrow> msg | NonError \<Rightarrow> ''Error desconocido'')"

subsection \<open>Token registry\<close>

text \<open>\<^verbatim>\<open>TokenConfig\<close>: symbol, name, decimals, and the contract address of an ERC-20 token.\<close>

datatype token_config =
    NativeToken string string nat
  | ERC20Token string string nat string

fun token_symbol :: "token_config \<Rightarrow> string" where
  "token_symbol (NativeToken s n d) = s"
| "token_symbol (ERC20Token s n d a) = s"

fun token_name :: "token_config \<Rightarrow> string" where
  "token_name (NativeToken s n d) = n"
| "token_name (ERC20Token s n d a) = n"

fun token_decimals :: "token_config \<Rightarrow> nat" where
  "token_decimals (NativeToken s n d) = d"
| "token_decimals (ERC20Token s n d a) = d"

definition TOKENS_MNT :: token_config where
  "TOKENS_MNT = NativeToken ''MNT'' ''Mantle'' 18"

definition TOKENS_AISHOP :: token_config where
  "TOKENS_AISHOP =
     ERC20Token ''AISHOP'' ''AI Shop Agent'' 18 ''0x0E02649Db4d1Aa8c202aA44EA99e3606d12a21b1''"

text \<open>\<^verbatim>\<open>TOKENS\<close>, in definition order.\<close>

definition TOKENS :: "(string \<times> token_config) list" where
  "TOKENS = [(''MNT'', TOKENS_MNT), (''AISHOP'', TOKENS_AISHOP)]"

fun isERC20Token :: "token_config \<Rightarrow> bool" where
  "isERC20Token (NativeToken s n d) = False"
| "isERC20Token (ERC20Token s n d a) = True"

definition getERC20Tokens :: "token_config list" where
  "getERC20Tokens = filter isERC20Token (map snd TOKENS)"

subsection \<open>Libraries and environment\<close>

text \<open>
  The functions of the platform and of the chain client library that the sources call.
  They are parameters of the model: \<^verbatim>\<open>JSON.parse\<close> and \<^verbatim>\<open>JSON.stringify\<close>, the
  exponent notation in which the platform prints large numbers, and viem's
  \<^verbatim>\<open>privateKeyToAccount\<close> (the address of the account), \<^verbatim>\<open>parseUnits\<close> and
  \<^verbatim>\<open>formatUnits\<close>. \<^verbatim>\<open>parseEther\<close> and \<^verbatim>\<open>formatEther\<close> are these at 18 decimals.
\<close>

record lib =
  JSON_parse :: "string \<Rightarrow> thrown + jsval"
  JSON_stringify :: "jsval \<Rightarrow> string"
  Number_exponent_form :: "int \<Rightarrow> string"
  privateKeyToAccount :: "string \<Rightarrow> thrown + string"
  parseUnits :: "string \<Rightarrow> nat \<Rightarrow> thrown + int"
  formatUnits :: "int \<Rightarrow> nat \<Rightarrow> string"

definition parseEther :: "lib \<Rightarrow> string \<Rightarrow> thrown + int" where
  "parseEther L s = parseUnits L s 18"

definition formatEther :: "lib \<Rightarrow> int \<Rightarrow> string" where
  "formatEther L v = formatUnits L v 18"

text \<open>
  ToString, as a template literal \<^verbatim>\<open>${v}\<close> applies it. An integer below \<open>10\<^sup>2\<^sup>1\<close> in
  absolute value is printed with all its decimal digits; from there on JavaScript prints
  the exponent notation (\<^verbatim>\<open>1e+21\<close>), which is the platform's.
\<close>

fun js_to_string :: "lib \<Rightarrow> jsval \<Rightarrow> string" where
  "js_to_string L JUndefined = ''undefined''"
| "js_to_string L JNull = ''null''"
| "js_to_string L (JBool b) = (if b then ''true'' else ''false'')"
| "js_to_string L (JNum n) =
     (if \<bar>n\<bar> < 10 ^ 21 then int_toString 10 n else Number_exponent_form L n)"
| "js_to_string L (JStr s) = s"
| "js_to_string L (JArr vs) =
     join_with '',''
       (map (\<lambda>v. if v = JUndefined \<or> v = JNull then [] else js_to_string L v) vs)"
| "js_to_string L (JObj kvs) = ''[object Object]''"

text \<open>A transaction handed to the wallet client.\<close>

datatype tx_request =
    NativeTransfer (tx_from: string) (tx_to: string) (tx_value: int)
  | TokenTransfer (tx_from: string) (tx_contract: string) (tx_to: string) (tx_value: int)

record receipt =
  rc_status :: string
  rc_blockNumber :: int

text \<open>
  What the outside answers during one invocation: whether a cache or memory operation
  throws, the runtime settings, the clock, the random sources, and the answers of the RPC
  node. \<^verbatim>\<open>Math.random\<close> and \<^verbatim>\<open>generatePrivateKey\<close> are sequences of draws.
\<close>

record env =
  cache_get_fault :: "string \<Rightarrow> thrown option"
  cache_set_fault :: "string \<Rightarrow> thrown option"
  createMemory_fault :: "thrown option"
  getSetting :: "string \<Rightarrow> string option"
  Date_now :: int
  Math_random :: "nat \<Rightarrow> real"
  generatePrivateKey :: "nat \<Rightarrow> string"
  getBalance :: "string \<Rightarrow> thrown + int"
  read_decimals :: "string \<Rightarrow> thrown + nat"
  read_balanceOf :: "string \<Rightarrow> string \<Rightarrow> thrown + int"
  sendTransaction :: "tx_request \<Rightarrow> thrown + string"
  writeContract :: "tx_request \<Rightarrow> thrown + string"
  waitForTransactionReceipt :: "string \<Rightarrow> thrown + receipt"

text \<open>The inbound message (\<^verbatim>\<open>Memory\<close>): \<^verbatim>\<open>memory.content?.text\<close> may be undefined.\<close>

record message =
  msg_userId :: "string option"
  msg_agentId :: string
  msg_roomId :: string
  msg_text :: "string option"

text \<open>
  \<^verbatim>\<open>const userId = memory.userId || state?.userId\<close>, when it passes the guard
  \<^verbatim>\<open>if (!userId)\<close>.
\<close>

definition caller_id :: "message \<Rightarrow> string option \<Rightarrow> string option" where
  "caller_id memory state_userId = truthy_str (js_or (msg_userId memory) state_userId)"

record tx_summary =
  ts_hash :: string
  ts_from :: string
  ts_to :: string
  ts_token :: "(string \<times> string) option"
  ts_amount :: string
  ts_blockNumber :: int
  ts_status :: string

text \<open>The flow-specific part of a persisted memory's content.\<close>

datatype payload =
    WalletCreated string int
  | Transaction tx_summary
  | Balances "(string \<times> string) list" string

record memory_record =
  mr_id :: string
  mr_userId :: "string option"
  mr_agentId :: string
  mr_roomId :: string
  mr_text :: string
  mr_action :: string
  mr_payload :: payload

text \<open>
  The state an invocation changes: the key-value cache, the persisted memories, the
  replies passed to the callback, the transactions the wallet client returned a hash for,
  and how many private keys and random numbers have been drawn.
\<close>

record world =
  cache :: "string \<Rightarrow> jsval option"
  memories :: "memory_record list"
  replies :: "string list"
  broadcasts :: "(tx_request \<times> string) list"
  key_draws :: nat
  rnd_draws :: nat

definition reply :: "string \<Rightarrow> world \<Rightarrow> world" where
  "reply t w = w\<lparr>replies := replies w @ [t]\<rparr>"

definition cacheManager_get :: "env \<Rightarrow> world \<Rightarrow> string \<Rightarrow> thrown + jsval" where
  "cacheManager_get E w k =
     (case cache_get_fault E k of
        Some e \<Rightarrow> Inl e
      | None \<Rightarrow> Inr (case cache w k of None \<Rightarrow> JUndefined | Some v \<Rightarrow> v))"

definition cacheManager_set :: "env \<Rightarrow> string \<Rightarrow> jsval \<Rightarrow> world \<Rightarrow> thrown + world" where
  "cacheManager_set E k v w =
     (case cache_set_fault E k of
        Some e \<Rightarrow> Inl e
      | None \<Rightarrow> Inr (w\<lparr>cache := (cache w)(k \<mapsto> v)\<rparr>))"

definition createMemory :: "env \<Rightarrow> memory_record \<Rightarrow> world \<Rightarrow> thrown + world" where
  "createMemory E r w =
     (case createMemory_fault E of
        Some e \<Rightarrow> Inl e
      | None \<Rightarrow> Inr (w\<lparr>memories := memories w @ [r]\<rparr>))"


subsection \<open>Reply texts\<close>

definition text_no_account :: "string" where
  "text_no_account =
     ''No se pudo identificar tu cuenta. Por favor int'' @ [CHR 0xC3, CHR 0xA9] @
     ''ntalo de nuevo o contacta a soporte.''"

definition text_wallet_unreadable :: "string" where
  "text_wallet_unreadable =
     ''Se detect'' @ [CHR 0xC3, CHR 0xB3] @
     '' una wallet registrada, pero no se pudo recuperar su informaci'' @
     [CHR 0xC3, CHR 0xB3] @ ''n. Por favor contacta a soporte.''"

definition text_wallet_exists :: "string \<Rightarrow> string" where
  "text_wallet_exists address =
     ''Ya tienes una wallet creada. Tu direcci'' @ [CHR 0xC3, CHR 0xB3] @ ''n es:'' @
     [CHR 0x0A, CHR 0x0A, CHR 0x60] @ address @ [CHR 0x60, CHR 0x0A, CHR 0x0A] @
     ''Tu wallet est'' @ [CHR 0xC3, CHR 0xA1] @ '' segura y lista para usar.''"

definition text_wallet_creating :: "string" where
  "text_wallet_creating =
     ''Creando una nueva wallet para ti. Esto tomar'' @ [CHR 0xC3, CHR 0xA1] @
     '' solo un momento...''"

definition text_wallet_not_saved :: "string" where
  "text_wallet_not_saved =
     ''Hubo un problema al guardar tu wallet. Por favor int'' @ [CHR 0xC3, CHR 0xA9] @
     ''ntalo de nuevo m'' @ [CHR 0xC3, CHR 0xA1] @ ''s tarde.''"

definition text_wallet_created :: "string \<Rightarrow> string" where
  "text_wallet_created address =
     join_nl
       [[CHR 0xE2, CHR 0x9C, CHR 0x85] @ '' '' @ [CHR 0xC2, CHR 0xA1] @
        ''Tu wallet ha sido creada con '' @ [CHR 0xC3, CHR 0xA9] @ ''xito!'',
        [],
        ''Tu direcci'' @ [CHR 0xC3, CHR 0xB3] @ ''n p'' @ [CHR 0xC3, CHR 0xBA] @
        ''blica es:'',
        [CHR 0x60] @ address @ [CHR 0x60],
        [],
        ''Esta wallet est'' @ [CHR 0xC3, CHR 0xA1] @
        '' asociada a tu cuenta de usuario y puede ser utilizada para:'',
        ''- Recibir y enviar tokens MNT'',
        ''- Recibir y enviar tokens AISHOP'',
        ''- Interactuar con aplicaciones en la red Mantle'',
        [],
        ''Tu clave privada est'' @ [CHR 0xC3, CHR 0xA1] @
        '' almacenada de forma segura y se utilizar'' @ [CHR 0xC3, CHR 0xA1] @ '' autom'' @
        [CHR 0xC3, CHR 0xA1] @ ''ticamente cuando necesites realizar transacciones.'',
        [],
        ''Puedes consultar tu balance en cualquier momento escribiendo '' @ [CHR 0x22] @
        ''ver mi balance'' @ [CHR 0x22] @ '' o '' @ [CHR 0x22] @ ''check balance'' @
        [CHR 0x22] @ ''.'']"

definition text_wallet_memory :: "string \<Rightarrow> string" where
  "text_wallet_memory address =
     ''Se ha creado una nueva wallet para el usuario: '' @ address"

definition text_wallet_error :: "string \<Rightarrow> string" where
  "text_wallet_error msg =
     ''Error al crear wallet: '' @ msg"

definition text_mnt_need_wallet :: "string" where
  "text_mnt_need_wallet =
     ''Necesitas crear una wallet antes de poder realizar transferencias. Puedes decirme '' @
     [CHR 0x27] @ ''crear wallet'' @ [CHR 0x27] @ '' para configurar una.''"

definition text_no_wallet_access :: "string" where
  "text_no_wallet_access =
     ''No se pudo acceder a tu wallet. Por favor intenta crear una nueva wallet o contacta a soporte.''"

definition text_no_address :: "string" where
  "text_no_address =
     ''No se pudo identificar una direcci'' @ [CHR 0xC3, CHR 0xB3] @ ''n de wallet v'' @
     [CHR 0xC3, CHR 0xA1] @ ''lida en tu mensaje. Por favor, proporciona una direcci'' @
     [CHR 0xC3, CHR 0xB3] @ ''n en formato 0x...''"

definition text_mnt_no_amount :: "string" where
  "text_mnt_no_amount =
     ''No se pudo identificar la cantidad de MNT a transferir. Por favor, especifica una cantidad (por ejemplo, '' @
     [CHR 0x27] @ ''0.1 MNT'' @ [CHR 0x27] @ '').''"

definition text_mnt_insufficient :: "string \<Rightarrow> string \<Rightarrow> string" where
  "text_mnt_insufficient held requested =
     ''Balance insuficiente para realizar la transferencia. Tienes '' @ held @
     '' MNT y est'' @ [CHR 0xC3, CHR 0xA1] @ ''s intentando enviar '' @ requested @
     '' MNT.''"

definition text_mnt_processing :: "string \<Rightarrow> string \<Rightarrow> string \<Rightarrow> string" where
  "text_mnt_processing amountStr fromAddress to =
     ''Procesando transferencia de '' @ amountStr @ '' MNT desde tu wallet personal ('' @
     fromAddress @ '') hacia '' @ to @ ''...''"

definition text_mnt_success :: "string \<Rightarrow> string \<Rightarrow> string \<Rightarrow> string \<Rightarrow> string \<Rightarrow> string" where
  "text_mnt_success amountStr fromAddress to txHash estado =
     join_nl
       [[CHR 0xE2, CHR 0x9C, CHR 0x85] @ '' Transferencia completada con '' @
        [CHR 0xC3, CHR 0xA9] @ ''xito:'',
        [],
        ''Cantidad: '' @ amountStr @ '' MNT'',
        ''De: '' @ fromAddress @ '' (tu wallet)'',
        ''Para: '' @ to,
        ''Hash de Transacci'' @ [CHR 0xC3, CHR 0xB3] @ ''n: '' @ txHash,
        ''Estado: '' @ estado,
        [],
        ''Ver en el explorador: https://sepolia.mantlescan.xyz/tx/'' @ txHash]"

definition text_mnt_error :: "string \<Rightarrow> string" where
  "text_mnt_error msg =
     ''Error al transferir MNT: '' @ msg"

definition text_erc20_need_wallet :: "string" where
  "text_erc20_need_wallet =
     ''Necesitas crear una wallet antes de poder realizar transferencias de tokens. Puedes decirme '' @
     [CHR 0x27] @ ''crear wallet'' @ [CHR 0x27] @ '' para configurar una.''"

definition text_erc20_no_info :: "string" where
  "text_erc20_no_info =
     ''No se pudo identificar la cantidad y el tipo de token a transferir. Por favor, especifica una cantidad y el token (por ejemplo, '' @
     [CHR 0x27] @ ''100 AISHOP'' @ [CHR 0x27] @ '').''"

definition text_erc20_no_config :: "string \<Rightarrow> string" where
  "text_erc20_no_config tsym =
     ''No se encontr'' @ [CHR 0xC3, CHR 0xB3] @ '' configuraci'' @ [CHR 0xC3, CHR 0xB3] @
     ''n para el token '' @ tsym @ '' o no es un token ERC20.''"

definition text_erc20_insufficient :: "string \<Rightarrow> string \<Rightarrow> string \<Rightarrow> string" where
  "text_erc20_insufficient held tsym requested =
     ''Balance insuficiente para realizar la transferencia. Tienes '' @ held @ '' '' @ tsym @
     '' y est'' @ [CHR 0xC3, CHR 0xA1] @ ''s intentando enviar '' @ requested @ '' '' @ tsym @
     ''.''"

definition text_erc20_processing :: "string \<Rightarrow> string \<Rightarrow> string \<Rightarrow> string \<Rightarrow> string" where
  "text_erc20_processing requested tsym fromAddress toAddress =
     ''Procesando transferencia de '' @ requested @ '' '' @ tsym @
     '' desde tu wallet personal ('' @ fromAddress @ '') hacia '' @ toAddress @ ''...''"

definition text_erc20_success :: "string \<Rightarrow> string \<Rightarrow> string \<Rightarrow> string \<Rightarrow> string \<Rightarrow> string \<Rightarrow> string \<Rightarrow> string" where
  "text_erc20_success tsym tname requested fromAddress toAddress txHash estado =
     join_nl
       [[CHR 0xE2, CHR 0x9C, CHR 0x85] @ '' Transferencia de token ERC20 completada con '' @
        [CHR 0xC3, CHR 0xA9] @ ''xito:'',
        [],
        ''Token: '' @ tsym @ '' ('' @ tname @ '')'',
        ''Cantidad: '' @ requested @ '' '' @ tsym,
        ''De: '' @ fromAddress @ '' (tu wallet)'',
        ''Para: '' @ toAddress,
        ''Hash de Transacci'' @ [CHR 0xC3, CHR 0xB3] @ ''n: '' @ txHash,
        ''Estado: '' @ estado,
        [],
        ''Ver en el explorador: https://sepolia.mantlescan.xyz/tx/'' @ txHash]"

definition text_erc20_error :: "string \<Rightarrow> string" where
  "text_erc20_error msg =
     ''Error al transferir token ERC20: '' @ msg"

definition text_balance_no_client :: "string" where
  "text_balance_no_client =
     ''No se pudo inicializar el cliente para consultar balances. Contacta a soporte.''"

definition text_balance_token_error :: "string" where
  "text_balance_token_error =
     ''Error al obtener balance''"

definition text_balance_of_address :: "string \<Rightarrow> string \<Rightarrow> string \<Rightarrow> string" where
  "text_balance_of_address address mnt aishop =
     join_nl
       [''Balances en Mantle Sepolia Testnet para '' @ address @ '':'',
        ''MNT: '' @ mnt,
        ''AISHOP: '' @ aishop,
        [],
        ''Ver en Explorer: https://sepolia.mantlescan.xyz/address/'' @ address]"

definition text_balance_no_wallet :: "string" where
  "text_balance_no_wallet =
     join_nl
       [''No tienes una wallet creada todav'' @ [CHR 0xC3, CHR 0xAD] @
        ''a. Para crear tu wallet personal, simplemente escribe:'',
        [],
        [CHR 0x22] @ ''Crear wallet'' @ [CHR 0x22],
        [],
        ''Una vez creada, podr'' @ [CHR 0xC3, CHR 0xA1] @
        ''s consultar tus balances y realizar transacciones.'']"

definition text_balance_no_access :: "string" where
  "text_balance_no_access =
     ''Hubo un problema al acceder a tu wallet. Por favor intenta crear una nueva wallet o contacta a soporte.''"

definition text_balance_own :: "string \<Rightarrow> string \<Rightarrow> string \<Rightarrow> string" where
  "text_balance_own address mnt aishop =
     join_nl
       [[CHR 0xF0, CHR 0x9F, CHR 0x93, CHR 0x8A] @
        '' Tus Balances en Mantle Sepolia Testnet:'',
        [],
        ''Direcci'' @ [CHR 0xC3, CHR 0xB3] @ ''n: '' @ address,
        ''MNT: '' @ mnt,
        ''AISHOP: '' @ aishop,
        [],
        ''Ver en Explorer: https://sepolia.mantlescan.xyz/address/'' @ address]"

definition text_balance_error :: "string \<Rightarrow> string" where
  "text_balance_error msg =
     ''Error al verificar balances: '' @ msg"

definition text_provider_unavailable :: "string" where
  "text_provider_unavailable =
     ''No disponible''"

definition text_provider_token_error :: "string" where
  "text_provider_token_error =
     ''Error al consultar''"

definition text_provider_address :: "string \<Rightarrow> string \<Rightarrow> string \<Rightarrow> string" where
  "text_provider_address address mnt aishop =
     join_nl
       [''Informaci'' @ [CHR 0xC3, CHR 0xB3] @ ''n de Direcci'' @ [CHR 0xC3, CHR 0xB3] @
        ''n en Mantle Sepolia:'',
        ''Direcci'' @ [CHR 0xC3, CHR 0xB3] @ ''n: '' @ address,
        ''Balance MNT: '' @ mnt @ '' MNT'',
        ''Balance AISHOP: '' @ aishop @ '' AISHOP'',
        [],
        ''Ver en Explorador: https://sepolia.mantlescan.xyz/address/'' @ address]"

definition text_provider_address_error :: "string \<Rightarrow> string \<Rightarrow> string" where
  "text_provider_address_error address msg =
     ''Error al obtener el balance de '' @ address @ '': '' @ msg"

definition text_provider_no_wallet :: "string" where
  "text_provider_no_wallet =
     join_nl
       [''No tienes una wallet creada. Para crear tu wallet personal, simplemente dime:'',
        [],
        [CHR 0x22] @ ''Crear wallet'' @ [CHR 0x22],
        [],
        ''Una vez creada tu wallet, podr'' @ [CHR 0xC3, CHR 0xA1] @
        ''s consultar tu balance y realizar transacciones.'']"

definition text_provider_no_access :: "string" where
  "text_provider_no_access =
     join_nl
       [''Parece que hay un problema al acceder a tu wallet. Por favor, intenta las siguientes soluciones:'',
        [],
        ''1. Escribe '' @ [CHR 0x27] @ ''crear wallet'' @ [CHR 0x27] @
        '' para intentar restablecer tu wallet.'',
        ''2. Contacta a soporte si el problema persiste.'']"

definition text_provider_own :: "string \<Rightarrow> string \<Rightarrow> string \<Rightarrow> string" where
  "text_provider_own address mnt aishop =
     join_nl
       [''Informaci'' @ [CHR 0xC3, CHR 0xB3] @ ''n de Tu Wallet en Mantle Sepolia:'',
        ''Direcci'' @ [CHR 0xC3, CHR 0xB3] @ ''n: '' @ address,
        ''Balance MNT: '' @ mnt @ '' MNT'',
        ''Balance AISHOP: '' @ aishop @ '' AISHOP'',
        [],
        ''Tu wallet est'' @ [CHR 0xC3, CHR 0xA1] @
        '' correctamente configurada y lista para transacciones.'',
        ''Ver en Explorador: https://sepolia.mantlescan.xyz/address/'' @ address]"

definition text_provider_own_error :: "string \<Rightarrow> string" where
  "text_provider_own_error msg =
     ''Error al acceder a la informaci'' @ [CHR 0xC3, CHR 0xB3] @ ''n de la wallet: '' @ msg"


subsection \<open>Identifiers\<close>

text \<open>
  \<^verbatim>\<open>x | 0\<close>: ToInt32 of a finite number, which drops the fraction and wraps to 32 bits.
\<close>

definition to_int32 :: "real \<Rightarrow> int" where
  "to_int32 x =
     (let t = (if x < 0 then - \<lfloor>- x\<rfloor> else \<lfloor>x\<rfloor>); m = t mod 2 ^ 32
      in if 2 ^ 31 \<le> m then m - 2 ^ 32 else m)"

text \<open>
  The callback of \<^verbatim>\<open>generateId\<close>:
  \<^verbatim>\<open>r = (Math.random() * 16) | 0; v = c === "x" ? r : (r & 0x3) | 0x8; v.toString(16)\<close>.
\<close>

definition id_char :: "real \<Rightarrow> char \<Rightarrow> string" where
  "id_char x c =
     (let r = to_int32 (x * 16);
          v = (if c = CHR ''x'' then r else or (and r 3) 8)
      in int_toString 16 v)"

text \<open>
  \<^verbatim>\<open>template.replace(/[xy]/g, f)\<close>: every \<^verbatim>\<open>x\<close> and \<^verbatim>\<open>y\<close>, left to right, is
  replaced by what the callback returns for it, each call taking the next draw.
\<close>

fun replace_xy :: "(nat \<Rightarrow> real) \<Rightarrow> nat \<Rightarrow> string \<Rightarrow> string \<times> nat" where
  "replace_xy rnd i [] = ([], i)"
| "replace_xy rnd i (c # cs) =
     (if c = CHR ''x'' \<or> c = CHR ''y''
      then (let (rest, j) = replace_xy rnd (Suc i) cs in (id_char (rnd i) c @ rest, j))
      else (let (rest, j) = replace_xy rnd i cs in (c # rest, j)))"

definition id_template :: string where
  "id_template = ''xxxxxxxx-xxxx-4xxx-yxxx-xxxxxxxxxxxx''"

text \<open>\<^verbatim>\<open>generateId\<close>, from the draw index on: the identifier and the next draw index.\<close>

definition generateId :: "(nat \<Rightarrow> real) \<Rightarrow> nat \<Rightarrow> string \<times> nat" where
  "generateId rnd i = replace_xy rnd i id_template"

definition fresh_id :: "env \<Rightarrow> world \<Rightarrow> string \<times> world" where
  "fresh_id E w =
     (let (newId, j) = generateId (Math_random E) (rnd_draws w) in (newId, w\<lparr>rnd_draws := j\<rparr>))"

section \<open>Wallet store\<close>

record wallet_data =
  wd_address :: string
  wd_privateKey :: string
  wd_createdAt :: int

text \<open>The object literal \<^verbatim>\<open>{address, privateKey, createdAt}\<close>.\<close>

definition wallet_object :: "wallet_data \<Rightarrow> jsval" where
  "wallet_object d =
     JObj [(''address'', JStr (wd_address d)),
           (''privateKey'', JStr (wd_privateKey d)),
           (''createdAt'', JNum (wd_createdAt d))]"

definition wallet_key :: "string \<Rightarrow> string" where
  "wallet_key userId = ''user_wallet:'' @ userId"

definition address_key :: "string \<Rightarrow> string" where
  "address_key address = ''address_to_user:'' @ address"

text \<open>\<^verbatim>\<open>userHasWallet\<close>: \<^verbatim>\<open>!!userWalletRecord\<close>, and \<^verbatim>\<open>false\<close> when the read throws.\<close>

definition userHasWallet :: "env \<Rightarrow> world \<Rightarrow> string \<Rightarrow> bool" where
  "userHasWallet E w userId =
     (case cacheManager_get E w (wallet_key userId) of
        Inl e \<Rightarrow> False
      | Inr userWalletRecord \<Rightarrow> truthy userWalletRecord)"

text \<open>
  \<^verbatim>\<open>saveUserWallet\<close>: the forward record, then the reverse index; \<^verbatim>\<open>false\<close> as soon
  as a write throws, with the earlier write left in place.
\<close>

definition saveUserWallet ::
  "lib \<Rightarrow> env \<Rightarrow> string \<Rightarrow> wallet_data \<Rightarrow> world \<Rightarrow> bool \<times> world" where
  "saveUserWallet L E userId walletData w =
     (case cacheManager_set E (wallet_key userId)
             (JStr (JSON_stringify L (wallet_object walletData))) w of
        Inl e \<Rightarrow> (False, w)
      | Inr w1 \<Rightarrow>
          (case cacheManager_set E (address_key (wd_address walletData)) (JStr userId) w1 of
             Inl e \<Rightarrow> (False, w1)
           | Inr w2 \<Rightarrow> (True, w2)))"

record user_wallet =
  uw_address :: jsval
  uw_privateKey :: jsval

text \<open>
  \<^verbatim>\<open>getUserWallet\<close>: \<^verbatim>\<open>null\<close> (here \<^const>\<open>None\<close>) for a falsy cache value and whenever
  the read, the parse or a property access throws.
\<close>

definition getUserWallet :: "lib \<Rightarrow> env \<Rightarrow> world \<Rightarrow> string \<Rightarrow> user_wallet option" where
  "getUserWallet L E w userId =
     (case cacheManager_get E w (wallet_key userId) of
        Inl e \<Rightarrow> None
      | Inr walletData \<Rightarrow>
          if \<not> truthy walletData then None
          else
            (case (case walletData of JStr s \<Rightarrow> JSON_parse L s | _ \<Rightarrow> Inr walletData) of
               Inl e \<Rightarrow> None
             | Inr parsedData \<Rightarrow>
                 (case get_prop parsedData ''address'' of
                    Inl e \<Rightarrow> None
                  | Inr a \<Rightarrow>
                      (case get_prop parsedData ''privateKey'' of
                         Inl e \<Rightarrow> None
                       | Inr k \<Rightarrow> Some \<lparr>uw_address = a, uw_privateKey = k\<rparr>))))"

text \<open>\<^verbatim>\<open>getUserIdByAddress\<close>: \<^verbatim>\<open>typeof userId === "string" ? userId : null\<close>.\<close>

definition getUserIdByAddress :: "env \<Rightarrow> world \<Rightarrow> string \<Rightarrow> string option" where
  "getUserIdByAddress E w address =
     (case cacheManager_get E w (address_key address) of
        Inl e \<Rightarrow> None
      | Inr userId \<Rightarrow> (case userId of JStr s \<Rightarrow> Some s | _ \<Rightarrow> None))"

section \<open>Wallet session\<close>

text \<open>
  A \<^verbatim>\<open>WalletProvider\<close>: the account's address, derived from the private key when the
  provider is constructed, and the RPC endpoint of its wallet client.
\<close>

record wallet_provider =
  wp_address :: string
  wp_rpcUrl :: string

definition default_rpc :: string where
  "default_rpc = ''https://rpc.sepolia.mantle.xyz''"

definition new_WalletProvider :: "lib \<Rightarrow> string \<Rightarrow> string \<Rightarrow> thrown + wallet_provider" where
  "new_WalletProvider L privateKey rpcUrl =
     (case privateKeyToAccount L privateKey of
        Inl e \<Rightarrow> Inl e
      | Inr a \<Rightarrow> Inr \<lparr>wp_address = a, wp_rpcUrl = rpcUrl\<rparr>)"

text \<open>\<^verbatim>\<open>key.startsWith("0x") ? key : `0x${key}`\<close>\<close>

definition normalize_key :: "string \<Rightarrow> string" where
  "normalize_key k = (if prefix ''0x'' k then k else ''0x'' @ k)"

text \<open>\<^verbatim>\<open>runtime.getSetting("EVM_RPC_URL") || "https://rpc.sepolia.mantle.xyz"\<close>\<close>

definition rpc_setting :: "env \<Rightarrow> string" where
  "rpc_setting E =
     (case truthy_str (getSetting E ''EVM_RPC_URL'') of
        None \<Rightarrow> default_rpc
      | Some u \<Rightarrow> u)"

text \<open>
  \<^verbatim>\<open>initUserWalletProvider\<close>: \<^verbatim>\<open>null\<close> when the wallet cannot be read, when the stored
  private key is not a string (\<^verbatim>\<open>startsWith\<close> throws) and when the key is rejected.
\<close>

definition initUserWalletProvider ::
  "lib \<Rightarrow> env \<Rightarrow> world \<Rightarrow> string \<Rightarrow> wallet_provider option" where
  "initUserWalletProvider L E w userId =
     (case getUserWallet L E w userId of
        None \<Rightarrow> None
      | Some userWallet \<Rightarrow>
          (case uw_privateKey userWallet of
             JStr k \<Rightarrow>
               (case new_WalletProvider L (normalize_key k) (rpc_setting E) of
                  Inl e \<Rightarrow> None
                | Inr p \<Rightarrow> Some p)
           | _ \<Rightarrow> None))"

text \<open>\<^verbatim>\<open>initWalletProvider\<close>, from the configured \<^verbatim>\<open>EVM_PRIVATE_KEY\<close>.\<close>

definition initWalletProvider :: "lib \<Rightarrow> env \<Rightarrow> wallet_provider option" where
  "initWalletProvider L E =
     (case truthy_str (getSetting E ''EVM_PRIVATE_KEY'') of
        None \<Rightarrow> None
      | Some privateKey \<Rightarrow>
          (case new_WalletProvider L (normalize_key privateKey) (rpc_setting E) of
             Inl e \<Rightarrow> None
           | Inr p \<Rightarrow> Some p))"

text \<open>\<^verbatim>\<open>WalletProvider.getBalance\<close> and \<^verbatim>\<open>WalletProvider.getTokenBalance\<close>.\<close>

definition provider_getBalance :: "lib \<Rightarrow> env \<Rightarrow> wallet_provider \<Rightarrow> thrown + string" where
  "provider_getBalance L E p =
     (case getBalance E (wp_address p) of
        Inl e \<Rightarrow> Inl e
      | Inr balance \<Rightarrow> Inr (formatEther L balance))"

definition provider_getTokenBalance ::
  "lib \<Rightarrow> env \<Rightarrow> wallet_provider \<Rightarrow> string \<Rightarrow> thrown + string" where
  "provider_getTokenBalance L E p tokenAddress =
     (case read_decimals E tokenAddress of
        Inl e \<Rightarrow> Inl e
      | Inr decimals \<Rightarrow>
          (case read_balanceOf E tokenAddress (wp_address p) of
             Inl e \<Rightarrow> Inl e
           | Inr balance \<Rightarrow> Inr (formatUnits L balance decimals)))"

section \<open>Wallet provisioning flow\<close>

definition createWallet_catch :: "thrown \<Rightarrow> world \<Rightarrow> bool \<times> world" where
  "createWallet_catch e w = (False, reply (text_wallet_error (error_message e)) w)"

text \<open>
  \<^verbatim>\<open>createWalletAction.handler\<close>. The wallet client it builds after saving is not used
  and is left out.
\<close>

definition createWallet_handler ::
  "lib \<Rightarrow> env \<Rightarrow> message \<Rightarrow> string option \<Rightarrow> world \<Rightarrow> bool \<times> world" where
  "createWallet_handler L E memory state_userId w =
     (case caller_id memory state_userId of
        None \<Rightarrow> (False, reply text_no_account w)
      | Some userId \<Rightarrow>
          if userHasWallet E w userId then
            (case getUserWallet L E w userId of
               None \<Rightarrow> (False, reply text_wallet_unreadable w)
             | Some wallet \<Rightarrow>
                 (True, reply (text_wallet_exists (js_to_string L (uw_address wallet))) w))
          else
            (let w1 = reply text_wallet_creating w;
                 privateKey = generatePrivateKey E (key_draws w1);
                 w2 = w1\<lparr>key_draws := Suc (key_draws w1)\<rparr>
             in case privateKeyToAccount L privateKey of
                  Inl e \<Rightarrow> createWallet_catch e w2
                | Inr address \<Rightarrow>
                    (let walletData =
                           \<lparr>wd_address = address, wd_privateKey = privateKey,
                            wd_createdAt = Date_now E\<rparr>;
                         (saved, w3) = saveUserWallet L E userId walletData w2
                     in if \<not> saved then (False, reply text_wallet_not_saved w3)
                        else
                          (let (newId, w4) = fresh_id E w3
                           in case createMemory E
                                     \<lparr>mr_id = newId, mr_userId = Some userId,
                                      mr_agentId = msg_agentId memory,
                                      mr_roomId = msg_roomId memory,
                                      mr_text = text_wallet_memory address,
                                      mr_action = ''CREATE_WALLET'',
                                      mr_payload = WalletCreated address (Date_now E)\<rparr> w4 of
                                Inl e \<Rightarrow> createWallet_catch e w4
                              | Inr w5 \<Rightarrow> (True, reply (text_wallet_created address) w5)))))"

section \<open>Transfer flows\<close>

text \<open>\<^verbatim>\<open>receipt.status === "success" ? "Exitoso" : "Pendiente"\<close>\<close>

definition estado :: "receipt \<Rightarrow> string" where
  "estado r = (if rc_status r = ''success'' then ''Exitoso'' else ''Pendiente'')"

text \<open>\<^verbatim>\<open>memory.content?.text || ""\<close>\<close>

definition text_or_empty :: "message \<Rightarrow> string" where
  "text_or_empty memory = (case msg_text memory of None \<Rightarrow> [] | Some t \<Rightarrow> t)"

subsection \<open>Native transfer\<close>

definition transferMNT_catch :: "thrown \<Rightarrow> world \<Rightarrow> bool \<times> world" where
  "transferMNT_catch e w = (False, reply (text_mnt_error (error_message e)) w)"

text \<open>
  \<^verbatim>\<open>transferMNTAction.handler\<close>. The destination is extracted from
  \<^verbatim>\<open>memory.content?.text\<close> as it is, so an undefined text throws there.
\<close>

definition transferMNT_handler ::
  "lib \<Rightarrow> env \<Rightarrow> message \<Rightarrow> string option \<Rightarrow> world \<Rightarrow> bool \<times> world" where
  "transferMNT_handler L E memory state_userId w =
     (case caller_id memory state_userId of
        None \<Rightarrow> (False, reply text_no_account w)
      | Some userId \<Rightarrow>
          if \<not> userHasWallet E w userId then (False, reply text_mnt_need_wallet w)
          else
            (case initUserWalletProvider L E w userId of
               None \<Rightarrow> (False, reply text_no_wallet_access w)
             | Some userWalletProvider \<Rightarrow>
                 (case msg_text memory of
                    None \<Rightarrow>
                      transferMNT_catch (Error (text_cannot_read ''undefined'' ''match'')) w
                  | Some text \<Rightarrow>
                      (case truthy_str (extractEthereumWalletAddress text) of
                         None \<Rightarrow> (False, reply text_no_address w)
                       | Some to \<Rightarrow>
                           (case truthy_str (extractAmount text) of
                              None \<Rightarrow> (False, reply text_mnt_no_amount w)
                            | Some amountStr \<Rightarrow>
                                (case parseEther L amountStr of
                                   Inl e \<Rightarrow> transferMNT_catch e w
                                 | Inr val \<Rightarrow>
        (let fromAddress = wp_address userWalletProvider
         in case getBalance E fromAddress of
              Inl e \<Rightarrow> transferMNT_catch e w
            | Inr currentBalance \<Rightarrow>
                if currentBalance < val then
                  (False,
                   reply (text_mnt_insufficient (formatEther L currentBalance) amountStr) w)
                else
                  (let w1 = reply (text_mnt_processing amountStr fromAddress to) w;
                       tx = NativeTransfer fromAddress to val
                   in case sendTransaction E tx of
                        Inl e \<Rightarrow> transferMNT_catch e w1
                      | Inr txHash \<Rightarrow>
                          (let w2 = w1\<lparr>broadcasts := broadcasts w1 @ [(tx, txHash)]\<rparr>
                           in case waitForTransactionReceipt E txHash of
                                Inl e \<Rightarrow> transferMNT_catch e w2
                              | Inr receipt \<Rightarrow>
                                  (let successText =
                                         text_mnt_success amountStr fromAddress to txHash
                                           (estado receipt);
                                       (newId, w3) = fresh_id E w2
                                   in case createMemory E
                                             \<lparr>mr_id = newId, mr_userId = msg_userId memory,
                                              mr_agentId = msg_agentId memory,
                                              mr_roomId = msg_roomId memory,
                                              mr_text = successText,
                                              mr_action = ''TRANSFER_MNT'',
                                              mr_payload = Transaction
                                                \<lparr>ts_hash = txHash, ts_from = fromAddress,
                                                 ts_to = to, ts_token = None,
                                                 ts_amount = amountStr,
                                                 ts_blockNumber = rc_blockNumber receipt,
                                                 ts_status = rc_status receipt\<rparr>\<rparr> w3 of
                                        Inl e \<Rightarrow> transferMNT_catch e w3
                                      | Inr w4 \<Rightarrow> (True, reply successText w4)))))))))))"

subsection \<open>Token transfer\<close>

definition transferERC20_catch :: "thrown \<Rightarrow> world \<Rightarrow> bool \<times> world" where
  "transferERC20_catch e w = (False, reply (text_erc20_error (error_message e)) w)"

text \<open>
  The balance check of \<^verbatim>\<open>transferERC20Action.handler\<close>, in a \<^verbatim>\<open>try\<close> of its own: the
  balance read when it is below the amount, and nothing when it suffices or when the read
  throws (the \<^verbatim>\<open>catch\<close> logs and goes on).
\<close>

definition erc20_shortfall :: "env \<Rightarrow> string \<Rightarrow> string \<Rightarrow> int \<Rightarrow> int option" where
  "erc20_shortfall E tokenAddress fromAddress amountInSmallestUnit =
     (case read_balanceOf E tokenAddress fromAddress of
        Inl e \<Rightarrow> None
      | Inr tokenBalance \<Rightarrow>
          if tokenBalance < amountInSmallestUnit then Some tokenBalance else None)"

text \<open>\<^verbatim>\<open>transferERC20Action.handler\<close>\<close>

definition transferERC20_handler ::
  "lib \<Rightarrow> env \<Rightarrow> message \<Rightarrow> string option \<Rightarrow> world \<Rightarrow> bool \<times> world" where
  "transferERC20_handler L E memory state_userId w =
     (case caller_id memory state_userId of
        None \<Rightarrow> (False, reply text_no_account w)
      | Some userId \<Rightarrow>
          if \<not> userHasWallet E w userId then (False, reply text_erc20_need_wallet w)
          else
            (case initUserWalletProvider L E w userId of
               None \<Rightarrow> (False, reply text_no_wallet_access w)
             | Some userWalletProvider \<Rightarrow>
                 (case truthy_str (extractEthereumWalletAddress (text_or_empty memory)) of
                    None \<Rightarrow> (False, reply text_no_address w)
                  | Some toAddress \<Rightarrow>
                      (case extractTokenTransferInfo (text_or_empty memory) of
                         None \<Rightarrow> (False, reply text_erc20_no_info w)
                       | Some tokenInfo \<Rightarrow>
                           (case map_of TOKENS (symbol tokenInfo) of
                              None \<Rightarrow>
                                (False, reply (text_erc20_no_config (symbol tokenInfo)) w)
                            | Some (NativeToken s n d) \<Rightarrow>
                                (False, reply (text_erc20_no_config (symbol tokenInfo)) w)
                            | Some (ERC20Token tsym tname decimals tokenAddress) \<Rightarrow>
        (case parseUnits L (amount tokenInfo) decimals of
           Inl e \<Rightarrow> transferERC20_catch e w
         | Inr amountInSmallestUnit \<Rightarrow>
             (let fromAddress = wp_address userWalletProvider
              in case erc20_shortfall E tokenAddress fromAddress amountInSmallestUnit of
                   Some tokenBalance \<Rightarrow>
                     (False,
                      reply (text_erc20_insufficient (formatUnits L tokenBalance decimals) tsym
                               (amount tokenInfo)) w)
                 | None \<Rightarrow>
                     (let w1 = reply (text_erc20_processing (amount tokenInfo) tsym fromAddress
                                        toAddress) w;
                          tx = TokenTransfer fromAddress tokenAddress toAddress
                                 amountInSmallestUnit
                      in case writeContract E tx of
                           Inl e \<Rightarrow> transferERC20_catch e w1
                         | Inr txHash \<Rightarrow>
                             (let w2 = w1\<lparr>broadcasts := broadcasts w1 @ [(tx, txHash)]\<rparr>
                              in case waitForTransactionReceipt E txHash of
                                   Inl e \<Rightarrow> transferERC20_catch e w2
                                 | Inr receipt \<Rightarrow>
                                     (let successText =
                                            text_erc20_success tsym tname (amount tokenInfo)
                                              fromAddress toAddress txHash (estado receipt);
                                          (newId, w3) = fresh_id E w2
                                      in case createMemory E
                                                \<lparr>mr_id = newId, mr_userId = msg_userId memory,
                                                 mr_agentId = msg_agentId memory,
                                                 mr_roomId = msg_roomId memory,
                                                 mr_text = successText,
                                                 mr_action = ''TRANSFER_ERC20'',
                                                 mr_payload = Transaction
                                                   \<lparr>ts_hash = txHash, ts_from = fromAddress,
                                                    ts_to = toAddress,
                                                    ts_token = Some (tsym, tokenAddress),
                                                    ts_amount = amount tokenInfo,
                                                    ts_blockNumber = rc_blockNumber receipt,
                                                    ts_status = rc_status receipt\<rparr>\<rparr> w3 of
                                           Inl e \<Rightarrow> transferERC20_catch e w3
                                         | Inr w4 \<Rightarrow> (True, reply successText w4)))))))))))"

section \<open>Balance query flow\<close>

definition checkBalance_catch :: "thrown \<Rightarrow> world \<Rightarrow> bool \<times> world" where
  "checkBalance_catch e w = (False, reply (text_balance_error (error_message e)) w)"

text \<open>\<^verbatim>\<open>${balances.AISHOP}\<close>: \<^verbatim>\<open>undefined\<close> when the entry was never set.\<close>

definition balance_entry :: "(string \<times> string) list \<Rightarrow> string \<Rightarrow> string" where
  "balance_entry balances k = (case map_of balances k of None \<Rightarrow> ''undefined'' | Some v \<Rightarrow> v)"

text \<open>
  The end of both branches of \<^verbatim>\<open>checkBalanceAction.handler\<close>: persist the report, then
  reply with it.
\<close>

definition checkBalance_finish ::
  "env \<Rightarrow> message \<Rightarrow> string \<Rightarrow> (string \<times> string) list \<Rightarrow> string \<Rightarrow> world \<Rightarrow> bool \<times> world"
  where
  "checkBalance_finish E memory balanceText balances address w =
     (let (newId, w1) = fresh_id E w
      in case createMemory E
                \<lparr>mr_id = newId, mr_userId = msg_userId memory,
                 mr_agentId = msg_agentId memory, mr_roomId = msg_roomId memory,
                 mr_text = balanceText, mr_action = ''CHECK_BALANCE'',
                 mr_payload = Balances balances address\<rparr> w1 of
           Inl e \<Rightarrow> checkBalance_catch e w1
         | Inr w2 \<Rightarrow> (True, reply balanceText w2))"

text \<open>
  The branch for an address named in the message: the balances are read through the
  public client of the provider configured for the process.
\<close>

definition checkBalance_of_address ::
  "lib \<Rightarrow> env \<Rightarrow> message \<Rightarrow> string \<Rightarrow> world \<Rightarrow> bool \<times> world" where
  "checkBalance_of_address L E memory addressFromMessage w =
     (case initWalletProvider L E of
        None \<Rightarrow> (False, reply text_balance_no_client w)
      | Some provider \<Rightarrow>
          (case getBalance E addressFromMessage of
             Inl e \<Rightarrow> checkBalance_catch e w
           | Inr nativeBalance \<Rightarrow>
               (let balances = [(''MNT'', formatEther L nativeBalance)];
                    balances =
                      (case TOKENS_AISHOP of
                         NativeToken s n d \<Rightarrow> balances
                       | ERC20Token s n decimals tokenAddress \<Rightarrow>
                           (case read_balanceOf E tokenAddress addressFromMessage of
                              Inl e \<Rightarrow> balances @ [(''AISHOP'', text_balance_token_error)]
                            | Inr tokenBalance \<Rightarrow>
                                balances @ [(''AISHOP'', formatUnits L tokenBalance decimals)]));
                    balanceText =
                      text_balance_of_address addressFromMessage
                        (balance_entry balances ''MNT'') (balance_entry balances ''AISHOP'')
                in checkBalance_finish E memory balanceText balances addressFromMessage w)))"

text \<open>The branch for the caller's own wallet.\<close>

definition checkBalance_own ::
  "lib \<Rightarrow> env \<Rightarrow> message \<Rightarrow> string \<Rightarrow> world \<Rightarrow> bool \<times> world" where
  "checkBalance_own L E memory userId w =
     (if \<not> userHasWallet E w userId then (False, reply text_balance_no_wallet w)
      else
        (case initUserWalletProvider L E w userId of
           None \<Rightarrow> (False, reply text_balance_no_access w)
         | Some userWalletProvider \<Rightarrow>
             (let userAddress = wp_address userWalletProvider
              in case provider_getBalance L E userWalletProvider of
                   Inl e \<Rightarrow> checkBalance_catch e w
                 | Inr nativeBalance \<Rightarrow>
                     (let balances = [(''MNT'', nativeBalance)];
                          balances =
                            (case TOKENS_AISHOP of
                               NativeToken s n d \<Rightarrow> balances
                             | ERC20Token s n decimals tokenAddress \<Rightarrow>
                                 (case provider_getTokenBalance L E userWalletProvider
                                         tokenAddress of
                                    Inl e \<Rightarrow> balances @ [(''AISHOP'', text_balance_token_error)]
                                  | Inr tokenBalance \<Rightarrow> balances @ [(''AISHOP'', tokenBalance)]));
                          balanceText =
                            text_balance_own userAddress (balance_entry balances ''MNT'')
                              (balance_entry balances ''AISHOP'')
                      in checkBalance_finish E memory balanceText balances userAddress w))))"

text \<open>\<^verbatim>\<open>checkBalanceAction.handler\<close>\<close>

definition checkBalance_handler ::
  "lib \<Rightarrow> env \<Rightarrow> message \<Rightarrow> string option \<Rightarrow> world \<Rightarrow> bool \<times> world" where
  "checkBalance_handler L E memory state_userId w =
     (case caller_id memory state_userId of
        None \<Rightarrow> (False, reply text_no_account w)
      | Some userId \<Rightarrow>
          (case truthy_str (extractEthereumWalletAddress (text_or_empty memory)) of
             Some addressFromMessage \<Rightarrow> checkBalance_of_address L E memory addressFromMessage w
           | None \<Rightarrow> checkBalance_own L E memory userId w))"

subsection \<open>The wallet provider's report\<close>

text \<open>\<^verbatim>\<open>/0x[a-fA-F0-9]{40}/i\<close>\<close>

definition addressMatchRegex :: rx where
  "addressMatchRegex = rx_seq (rx_lit_ci ''0x'') (rx_rep 40 (rx_class is_hex))"

text \<open>
  The AISHOP figure of the provider's report, the same in both branches but for how the
  balance is fetched: \<^verbatim>\<open>"No disponible"\<close> unless the token is an ERC-20 token, and
  \<^verbatim>\<open>"Error al consultar"\<close> when the fetch throws.
\<close>

definition provider_token_line :: "(string \<Rightarrow> thrown + string) \<Rightarrow> string" where
  "provider_token_line fetch =
     (case TOKENS_AISHOP of
        NativeToken s n d \<Rightarrow> text_provider_unavailable
      | ERC20Token s n d tokenAddress \<Rightarrow>
          (case fetch tokenAddress of
             Inl e \<Rightarrow> text_provider_token_error
           | Inr tokenBalance \<Rightarrow> tokenBalance))"

text \<open>
  \<^verbatim>\<open>walletProvider.get\<close>: the report as a text. It only reads; nothing is persisted.
\<close>

definition walletProvider_get ::
  "lib \<Rightarrow> env \<Rightarrow> message \<Rightarrow> string option \<Rightarrow> world \<Rightarrow> string" where
  "walletProvider_get L E memory state_userId w =
     (case caller_id memory state_userId of
        None \<Rightarrow> text_no_account
      | Some userId \<Rightarrow>
          (case (case msg_text memory of
                   None \<Rightarrow> None
                 | Some t \<Rightarrow> rx_exec addressMatchRegex t) of
             Some (m, caps) \<Rightarrow>
               (let address = toLowerCase m
                in case getBalance E address of
                     Inl e \<Rightarrow> text_provider_address_error address (error_message e)
                   | Inr nativeBalance \<Rightarrow>
                       (let aishopBalance =
                              provider_token_line
                                (\<lambda>tokenAddress.
                                   case read_decimals E tokenAddress of
                                     Inl e \<Rightarrow> Inl e
                                   | Inr tokenDecimals \<Rightarrow>
                                       (case read_balanceOf E tokenAddress address of
                                          Inl e \<Rightarrow> Inl e
                                        | Inr tokenBalance \<Rightarrow>
                                            Inr (formatUnits L tokenBalance tokenDecimals)))
                        in text_provider_address address (formatEther L nativeBalance)
                             aishopBalance))
           | None \<Rightarrow>
               if \<not> userHasWallet E w userId then text_provider_no_wallet
               else
                 (case initUserWalletProvider L E w userId of
                    None \<Rightarrow> text_provider_no_access
                  | Some provider \<Rightarrow>
                      (case provider_getBalance L E provider of
                         Inl e \<Rightarrow> text_provider_own_error (error_message e)
                       | Inr mntBalance \<Rightarrow>
                           (let aishopBalance =
                                  provider_token_line (provider_getTokenBalance L E provider)
                            in text_provider_own (wp_address provider) mntBalance
                                 aishopBalance)))))"

section \<open>Sample inputs\<close>

text \<open>
  Concrete inputs at which the theorems below are exercised. The key and the address
  are those of the first account of a local development node; the library functions are
  given at the sample arguments, where they agree with the real ones.
\<close>

definition sample_key :: string where
  "sample_key = ''0xac0974bec39a17e36ba4a6b4d238ff944bacb478cbed5efcae784d7bf4f2ff80''"

definition sample_address :: string where
  "sample_address = ''0xf39Fd6e51aad88F6F4ce6aB8827279cffFb92266''"

definition sample_recipient :: string where
  "sample_recipient = ''0x1111111111111111111111111111111111111111''"

definition sample_wallet :: wallet_data where
  "sample_wallet =
     \<lparr>wd_address = sample_address, wd_privateKey = sample_key,
      wd_createdAt = 1700000000000\<rparr>"

definition sample_json :: string where
  "sample_json =
     ''{'' @ [CHR 0x22] @ ''address'' @ [CHR 0x22] @ '':'' @ [CHR 0x22] @ sample_address @
     [CHR 0x22] @ '','' @ [CHR 0x22] @ ''privateKey'' @ [CHR 0x22] @ '':'' @ [CHR 0x22] @
     sample_key @ [CHR 0x22] @ '','' @ [CHR 0x22] @ ''createdAt'' @ [CHR 0x22] @
     '':1700000000000}''"

text \<open>A second account of the same node.\<close>

definition second_key :: string where
  "second_key = ''0x59c6995e998f97a5a0044966f0945389dc9e86dae88c7a8412f4603b6b78690d''"

definition second_address :: string where
  "second_address = ''0x70997970C51812dc3A010C7d01b50e0d17dc79C8''"

definition second_wallet :: wallet_data where
  "second_wallet =
     \<lparr>wd_address = second_address, wd_privateKey = second_key,
      wd_createdAt = 1700000000000\<rparr>"

definition second_json :: string where
  "second_json =
     ''{'' @ [CHR 0x22] @ ''address'' @ [CHR 0x22] @ '':'' @ [CHR 0x22] @ second_address @
     [CHR 0x22] @ '','' @ [CHR 0x22] @ ''privateKey'' @ [CHR 0x22] @ '':'' @ [CHR 0x22] @
     second_key @ [CHR 0x22] @ '','' @ [CHR 0x22] @ ''createdAt'' @ [CHR 0x22] @
     '':1700000000000}''"

definition sample_lib :: lib where
  "sample_lib =
     \<lparr>JSON_parse =
        (\<lambda>s. if s = sample_json then Inr (wallet_object sample_wallet)
             else if s = second_json then Inr (wallet_object second_wallet)
             else Inl (Error ''Unexpected token'')),
      JSON_stringify =
        (\<lambda>v. if v = wallet_object sample_wallet then sample_json
             else if v = wallet_object second_wallet then second_json
             else ''null''),
      Number_exponent_form = (\<lambda>n. if n = 10 ^ 21 then ''1e+21'' else int_toString 10 n),
      privateKeyToAccount =
        (\<lambda>k. if k = sample_key then Inr sample_address
             else if k = second_key then Inr second_address
             else Inl (Error ''invalid private key'')),
      parseUnits =
        (\<lambda>s d. if s = ''0.5'' \<and> d = 18 then Inr 500000000000000000
               else if s = ''25'' \<and> d = 18 then Inr 25000000000000000000
               else Inl (Error ''invalid decimal number'')),
      formatUnits =
        (\<lambda>v d. if v = 100000000000000000 \<and> d = 18 then ''0.1''
               else if v = 7000000000000000000 \<and> d = 18 then ''7''
               else int_toString 10 v)\<rparr>"

definition sample_hash :: string where
  "sample_hash = ''0x2222222222222222222222222222222222222222222222222222222222222222''"

text \<open>
  A node on which the account holds 0.1 MNT and 7 AISHOP, and where nothing fails.
\<close>

definition sample_env :: env where
  "sample_env =
     \<lparr>cache_get_fault = (\<lambda>k. None),
      cache_set_fault = (\<lambda>k. None),
      createMemory_fault = None,
      getSetting = (\<lambda>k. if k = ''EVM_PRIVATE_KEY'' then Some sample_key else None),
      Date_now = 1700000000000,
      Math_random = (\<lambda>k. 9 / 10),
      generatePrivateKey = (\<lambda>k. sample_key),
      getBalance = (\<lambda>a. Inr 100000000000000000),
      read_decimals = (\<lambda>t. Inr 18),
      read_balanceOf = (\<lambda>t a. Inr 7000000000000000000),
      sendTransaction = (\<lambda>tx. Inr sample_hash),
      writeContract = (\<lambda>tx. Inr sample_hash),
      waitForTransactionReceipt = (\<lambda>h. Inr \<lparr>rc_status = ''success'', rc_blockNumber = 1\<rparr>)\<rparr>"

definition rpc_down :: thrown where
  "rpc_down = Error ''HTTP request failed.''"

text \<open>The same node when the reads of the token contract fail, and when the balance read fails.\<close>

definition sample_env_token_down :: env where
  "sample_env_token_down =
     sample_env\<lparr>read_decimals := (\<lambda>t. Inl rpc_down), read_balanceOf := (\<lambda>t a. Inl rpc_down)\<rparr>"

definition sample_env_native_down :: env where
  "sample_env_native_down = sample_env\<lparr>getBalance := (\<lambda>a. Inl rpc_down)\<rparr>"

text \<open>
  An invocation during which the cache cannot be read, and in which the key source hands
  out the key of the second account.
\<close>

definition cache_down :: thrown where
  "cache_down = Error ''database is locked''"

definition sample_env_cache_down :: env where
  "sample_env_cache_down =
     sample_env\<lparr>cache_get_fault := (\<lambda>k. Some cache_down),
                generatePrivateKey := (\<lambda>k. second_key)\<rparr>"

text \<open>
  The same node with distinct balances per account: the first account holds 1 MNT and
  25 AISHOP, the account at \<open>0x1111...\<close> holds 0.1 MNT and 7 AISHOP, every other one
  nothing.
\<close>

definition sample_env_funded :: env where
  "sample_env_funded =
     sample_env
       \<lparr>getBalance :=
          (\<lambda>a. if a = sample_address then Inr 1000000000000000000
               else if a = sample_recipient then Inr 100000000000000000
               else Inr 0),
        read_balanceOf :=
          (\<lambda>t a. if a = sample_address then Inr 25000000000000000000
                 else if a = sample_recipient then Inr 7000000000000000000
                 else Inr 0)\<rparr>"

text \<open>The contract address of \<^const>\<open>TOKENS_AISHOP\<close>.\<close>

definition aishop_address :: string where
  "aishop_address = ''0x0E02649Db4d1Aa8c202aA44EA99e3606d12a21b1''"

definition empty_world :: world where
  "empty_world =
     \<lparr>cache = (\<lambda>k. None), memories = [], replies = [], broadcasts = [],
      key_draws = 0, rnd_draws = 0\<rparr>"

text \<open>The world after the wallet of \<open>user-1\<close> has been saved.\<close>

definition sample_world :: world where
  "sample_world =
     empty_world
       \<lparr>cache := [wallet_key ''user-1'' \<mapsto> JStr sample_json,
                  address_key sample_address \<mapsto> JStr ''user-1'']\<rparr>"

definition sample_message :: "string \<Rightarrow> message" where
  "sample_message t =
     \<lparr>msg_userId = Some ''user-1'', msg_agentId = ''agent-1'', msg_roomId = ''room-1'',
      msg_text = Some t\<rparr>"

text \<open>A message that names two addresses.\<close>

definition two_addresses :: string where
  "two_addresses =
     ''de 0x1111111111111111111111111111111111111111 a 0x2222222222222222222222222222222222222222''"

text \<open>Transfer requests that name two addresses.\<close>

definition two_addresses_mnt :: string where
  "two_addresses_mnt =
     ''enviar 0.5 MNT a 0x1111111111111111111111111111111111111111 o a 0x2222222222222222222222222222222222222222''"

definition two_addresses_aishop :: string where
  "two_addresses_aishop =
     ''enviar 25 AISHOP a 0x1111111111111111111111111111111111111111 o a 0x2222222222222222222222222222222222222222''"

section \<open>Predicates of the specification\<close>

text \<open>
  What the wallet store relies on in \<^verbatim>\<open>JSON\<close>: the text written for a value is not
  empty and is read back as that value.
\<close>

definition JSON_roundtrip :: "lib \<Rightarrow> jsval \<Rightarrow> bool" where
  "JSON_roundtrip L v =
     (JSON_stringify L v \<noteq> [] \<and> JSON_parse L (JSON_stringify L v) = Inr v)"

text \<open>The text \<open>s\<close> starts with \<^verbatim>\<open>0x\<close> and 40 hexadecimal characters.\<close>

definition addr_prefix :: "string \<Rightarrow> bool" where
  "addr_prefix s =
     (42 \<le> length s \<and> take 2 s = ''0x'' \<and> list_all is_hex (take 40 (drop 2 s)))"

text \<open>
  A well-formed address as a complete token, in the words of the specification:
  \<^verbatim>\<open>0x\<close> followed by exactly 40 hexadecimal characters, so with no further
  hexadecimal character after them.
\<close>

definition exact_address_at :: "string \<Rightarrow> bool" where
  "exact_address_at s =
     (addr_prefix s \<and> (case drop 42 s of [] \<Rightarrow> True | c # cs \<Rightarrow> \<not> is_hex c))"

definition contains_exact_address :: "string \<Rightarrow> bool" where
  "contains_exact_address t = list_ex (\<lambda>i. exact_address_at (drop i t)) [0..<length t]"

text \<open>
  How a character of an identifier relates to the character of the template at its
  place.
\<close>

definition id_rel :: "char \<Rightarrow> char \<Rightarrow> bool" where
  "id_rel c d =
     (if c = CHR ''x'' then d \<in> set ''0123456789abcdef''
      else if c = CHR ''y'' then d \<in> set ''89ab'' else d = c)"

text \<open>
  The balance lines of a report as the specification orders them: the native currency
  first, then every contract-backed token in the order of the registry, each with its
  figure.
\<close>

definition registry_lines :: "(string \<Rightarrow> string \<Rightarrow> string) \<Rightarrow> string list \<Rightarrow> string list" where
  "registry_lines fmt vals =
     map (\<lambda>(s, v). fmt s v)
       (zip (token_symbol TOKENS_MNT # map token_symbol getERC20Tokens) vals)"

text \<open>The line formats of the action's report and of the provider's report.\<close>

definition balance_line :: "string \<Rightarrow> string \<Rightarrow> string" where
  "balance_line s v = s @ '': '' @ v"

definition provider_line :: "string \<Rightarrow> string \<Rightarrow> string" where
  "provider_line s v = ''Balance '' @ s @ '': '' @ v @ '' '' @ s"

section \<open>Address extraction\<close>

lemma rx_rep_class:
  "rx_rep n (rx_class P) (caps, s) =
     (if n \<le> length s \<and> list_all P (take n s) then [(caps, drop n s)] else [])"
proof (induction n arbitrary: s)
  case 0
  then show ?case by simp
next
  case (Suc n)
  show ?case
  proof (cases s)
    case Nil
    then show ?thesis by (simp add: rx_class_def)
  next
    case (Cons c cs)
    then show ?thesis using Suc [of cs] by (simp add: rx_class_def)
  qed
qed

lemma rx_lit_0x:
  "rx_lit ''0x'' (caps, s) = (if take 2 s = ''0x'' then [(caps, drop 2 s)] else [])"
proof (cases s)
  case Nil
  then show ?thesis by (simp add: rx_class_def)
next
  case (Cons c cs)
  then show ?thesis by (cases cs) (auto simp add: rx_class_def)
qed

lemma ethAddressRegex_eq:
  "ethAddressRegex (caps, s) = (if addr_prefix s then [(caps, drop 42 s)] else [])"
proof -
  have "ethAddressRegex (caps, s) =
          concat (map (rx_rep 40 (rx_class is_hex)) (rx_lit ''0x'' (caps, s)))"
    by (simp only: ethAddressRegex_def rx_seq_def)
  also have "\<dots> =
          (if take 2 s = ''0x'' then rx_rep 40 (rx_class is_hex) (caps, drop 2 s) else [])"
    by (simp only: rx_lit_0x) simp
  also have "\<dots> = (if addr_prefix s then [(caps, drop 42 s)] else [])"
    by (auto simp add: rx_rep_class addr_prefix_def)
  finally show ?thesis .
qed

lemma match_g_step:
  "rx_match_g ethAddressRegex 0 (c # cs) =
     (if addr_prefix (c # cs) then take 42 (c # cs) # rx_match_g ethAddressRegex 41 cs
      else rx_match_g ethAddressRegex 0 cs)"
  by (auto simp add: ethAddressRegex_eq Let_def addr_prefix_def min_def)

lemma extract_Nil: "extractEthereumWalletAddress [] = None"
  by (simp add: extractEthereumWalletAddress_def ethAddressRegex_eq addr_prefix_def)

lemma extract_Cons:
  "extractEthereumWalletAddress (c # cs) =
     (if addr_prefix (c # cs) then Some (take 42 (c # cs))
      else extractEthereumWalletAddress cs)"
  by (simp add: extractEthereumWalletAddress_def match_g_step del: rx_match_g.simps)

text \<open>Extraction returns the match at the least position where the pattern matches.\<close>

lemma extract_leftmost:
  "extractEthereumWalletAddress t = Some a \<longleftrightarrow>
     (\<exists>i. addr_prefix (drop i t) \<and> (\<forall>j<i. \<not> addr_prefix (drop j t)) \<and>
          a = take 42 (drop i t))"
proof (induction t)
  case Nil
  then show ?case by (simp add: extract_Nil addr_prefix_def)
next
  case (Cons c cs)
  let ?P = "\<lambda>u i. addr_prefix (drop i u) \<and> (\<forall>j<i. \<not> addr_prefix (drop j u)) \<and>
                  a = take 42 (drop i u)"
  show ?case
  proof (cases "addr_prefix (c # cs)")
    case True
    have "(\<exists>i. ?P (c # cs) i) \<longleftrightarrow> a = take 42 (c # cs)"
    proof
      assume "\<exists>i. ?P (c # cs) i"
      then obtain i where i: "\<forall>j<i. \<not> addr_prefix (drop j (c # cs))"
        "a = take 42 (drop i (c # cs))" by blast
      have "i = 0"
      proof (rule ccontr)
        assume "i \<noteq> 0"
        then have "0 < i" by simp
        with i(1) have "\<not> addr_prefix (drop 0 (c # cs))" by blast
        with True show False by simp
      qed
      with i(2) show "a = take 42 (c # cs)" by simp
    next
      assume "a = take 42 (c # cs)"
      with True have "?P (c # cs) 0" by simp
      then show "\<exists>i. ?P (c # cs) i" by blast
    qed
    with True show ?thesis by (auto simp add: extract_Cons)
  next
    case False
    have "(\<exists>i. ?P (c # cs) i) \<longleftrightarrow> (\<exists>i. ?P cs i)"
    proof
      assume "\<exists>i. ?P (c # cs) i"
      then obtain i where i: "addr_prefix (drop i (c # cs))"
        "\<forall>j<i. \<not> addr_prefix (drop j (c # cs))" "a = take 42 (drop i (c # cs))" by blast
      from i(1) False obtain k where k: "i = Suc k" by (cases i) auto
      have "\<forall>j<k. \<not> addr_prefix (drop j cs)"
      proof (intro allI impI)
        fix j assume "j < k"
        then have "Suc j < i" using k by simp
        with i(2) have "\<not> addr_prefix (drop (Suc j) (c # cs))" by blast
        then show "\<not> addr_prefix (drop j cs)" by simp
      qed
      with i k have "?P cs k" by simp
      then show "\<exists>i. ?P cs i" by blast
    next
      assume "\<exists>i. ?P cs i"
      then obtain k where k: "addr_prefix (drop k cs)"
        "\<forall>j<k. \<not> addr_prefix (drop j cs)" "a = take 42 (drop k cs)" by blast
      have "\<forall>j<Suc k. \<not> addr_prefix (drop j (c # cs))"
      proof (intro allI impI)
        fix j assume j: "j < Suc k"
        show "\<not> addr_prefix (drop j (c # cs))"
        proof (cases j)
          case 0
          with False show ?thesis by simp
        next
          case (Suc j')
          with j k(2) show ?thesis by simp
        qed
      qed
      with k have "?P (c # cs) (Suc k)" by simp
      then show "\<exists>i. ?P (c # cs) i" by blast
    qed
    with False Cons show ?thesis by (simp add: extract_Cons)
  qed
qed

lemma extract_None:
  "extractEthereumWalletAddress t = None \<longleftrightarrow> (\<forall>i. \<not> addr_prefix (drop i t))"
proof (induction t)
  case Nil
  then show ?case by (simp add: extract_Nil addr_prefix_def)
next
  case (Cons c cs)
  have "(\<forall>i. \<not> addr_prefix (drop i (c # cs))) \<longleftrightarrow>
        (\<not> addr_prefix (c # cs) \<and> (\<forall>i. \<not> addr_prefix (drop i cs)))" (is "?L \<longleftrightarrow> ?R")
  proof
    assume l: ?L
    have "\<not> addr_prefix (drop 0 (c # cs))" using l by blast
    moreover have "\<forall>i. \<not> addr_prefix (drop i cs)"
    proof
      fix i
      have "\<not> addr_prefix (drop (Suc i) (c # cs))" using l by blast
      then show "\<not> addr_prefix (drop i cs)" by simp
    qed
    ultimately show ?R by simp
  next
    assume r: ?R
    show ?L
    proof
      fix i show "\<not> addr_prefix (drop i (c # cs))" using r by (cases i) auto
    qed
  qed
  with Cons show ?case by (simp add: extract_Cons)
qed

lemma addr_prefix_take: "addr_prefix s \<Longrightarrow> addr_prefix (take 42 s) \<and> length (take 42 s) = 42"
  by (simp add: addr_prefix_def min_def take_drop)

lemma sublist_take_drop: "sublist (take n (drop i t)) t"
proof -
  have "take n (drop i t) @ drop n (drop i t) = drop i t" by (rule append_take_drop_id)
  then have "t = take i t @ take n (drop i t) @ drop n (drop i t)"
    by (simp only: append_take_drop_id)
  then show ?thesis unfolding sublist_def by blast
qed

lemma extract_Some_shape:
  assumes "extractEthereumWalletAddress t = Some a"
  shows "length a = 42 \<and> addr_prefix a \<and> sublist a t"
proof -
  from assms obtain i where i: "addr_prefix (drop i t)" "a = take 42 (drop i t)"
    unfolding extract_leftmost by blast
  from addr_prefix_take [OF i(1)] i(2) sublist_take_drop [of 42 i t] show ?thesis by simp
qed

lemma addr_prefix_short: "length t < 42 \<Longrightarrow> \<not> addr_prefix (drop i t)"
  by (auto simp add: addr_prefix_def)

text \<open>
  C4, as amended. On the example message address extraction returns the 40-digit address
  and amount extraction returns \<open>0.5\<close>. A text in which \<^verbatim>\<open>0x\<close> followed by 40
  hexadecimal characters occurs nowhere yields no address. An address that is returned
  is \<^verbatim>\<open>0x\<close> followed by exactly 40 hexadecimal characters and stands in the text; the
  pattern sets no boundary, so it can be the head of a longer hexadecimal run.
\<close>

theorem intent_parsing:
  "extractEthereumWalletAddress
     ''enviar 0.5 MNT a 0x1111111111111111111111111111111111111111'' =
     Some ''0x1111111111111111111111111111111111111111'' \<and>
   extractAmount ''enviar 0.5 MNT a 0x1111111111111111111111111111111111111111'' =
     Some ''0.5'' \<and>
   (\<forall>t. (\<forall>i. \<not> addr_prefix (drop i t)) \<longrightarrow> extractEthereumWalletAddress t = None) \<and>
   (\<forall>t a. extractEthereumWalletAddress t = Some a \<longrightarrow>
          length a = 42 \<and> addr_prefix a \<and> sublist a t)"
proof -
  have "extractEthereumWalletAddress
          ''enviar 0.5 MNT a 0x1111111111111111111111111111111111111111'' =
          Some ''0x1111111111111111111111111111111111111111''"
    by code_simp
  moreover have
    "extractAmount ''enviar 0.5 MNT a 0x1111111111111111111111111111111111111111'' =
       Some ''0.5''"
    by code_simp
  moreover have
    "\<forall>t. (\<forall>i. \<not> addr_prefix (drop i t)) \<longrightarrow> extractEthereumWalletAddress t = None"
    by (simp add: extract_None)
  moreover have
    "\<forall>t a. extractEthereumWalletAddress t = Some a \<longrightarrow>
          length a = 42 \<and> addr_prefix a \<and> sublist a t"
    using extract_Some_shape by blast
  ultimately show ?thesis by blast
qed

theorem intent_parsing_witness:
  "extractEthereumWalletAddress ''enviar 0.5 MNT'' = None \<and>
   sublist ''0x1111111111111111111111111111111111111111''
     ''enviar 0.5 MNT a 0x1111111111111111111111111111111111111111''"
proof -
  have "\<forall>i. \<not> addr_prefix (drop i ''enviar 0.5 MNT'')"
    by (simp add: addr_prefix_short)
  then show ?thesis using intent_parsing by blast
qed

text \<open>
  The claim as the specification words it fails: a run of 41 hexadecimal characters
  after \<^verbatim>\<open>0x\<close> holds no address of exactly 40, and its first 42 characters are
  returned all the same.
\<close>

theorem intent_parsing_counterexample:
  "\<not> contains_exact_address ''0x11111111111111111111111111111111111111111'' \<and>
   extractEthereumWalletAddress ''0x11111111111111111111111111111111111111111'' =
     Some ''0x1111111111111111111111111111111111111111''"
  by code_simp

section \<open>Identifiers of persisted records\<close>

lemma to_int32_draw:
  assumes "0 \<le> x" "x < 1"
  shows "0 \<le> to_int32 (x * 16) \<and> to_int32 (x * 16) < 16"
proof -
  have a: "0 \<le> \<lfloor>x * 16\<rfloor>" using assms by simp
  have "x * 16 < 16" using assms by simp
  then have b: "\<lfloor>x * 16\<rfloor> < 16" by (simp add: floor_less_iff)
  have c: "\<lfloor>x * 16\<rfloor> mod 2 ^ 32 = \<lfloor>x * 16\<rfloor>" using a b by simp
  have d: "\<not> x * 16 < 0" using assms by simp
  show ?thesis using a b c d by (simp add: to_int32_def Let_def)
qed

lemma digits_of_16: "n < 16 \<Longrightarrow> digits_of 16 n = [digit_char n]"
  by (simp add: digits_of.simps)

lemma digit_char_hex: "n < 16 \<Longrightarrow> digit_char n \<in> set ''0123456789abcdef''"
proof -
  assume "n < 16"
  then have "n \<in> {0, 1, 2, 3, 4, 5, 6, 7, 8, 9, 10, 11, 12, 13, 14, 15}"
    by (simp; presburger)
  then show ?thesis by (auto simp add: digit_char_def)
qed

lemma id_char_x:
  assumes "0 \<le> x" "x < 1"
  shows "\<exists>h. id_char x (CHR ''x'') = [h] \<and> h \<in> set ''0123456789abcdef''"
proof -
  define r where "r = to_int32 (x * 16)"
  have r: "0 \<le> r" "r < 16" using to_int32_draw [OF assms] by (simp_all add: r_def)
  then have n: "nat r < 16" by simp
  have "id_char x (CHR ''x'') = [digit_char (nat r)]"
    using r n
    by (simp add: id_char_def Let_def r_def [symmetric] int_toString_def digits_of_16)
  with digit_char_hex [OF n] show ?thesis by blast
qed

lemma variant_nibble:
  assumes "0 \<le> (r::int)" "r < 16"
  shows "or (and r 3) 8 \<in> {8, 9, 10, 11}"
proof -
  from assms have "r \<in> {0, 1, 2, 3, 4, 5, 6, 7, 8, 9, 10, 11, 12, 13, 14, 15}"
    by (simp; presburger)
  then show ?thesis by auto
qed

lemma id_char_y:
  assumes "0 \<le> x" "x < 1"
  shows "\<exists>h. id_char x (CHR ''y'') = [h] \<and> h \<in> set ''89ab''"
proof -
  define r where "r = to_int32 (x * 16)"
  have r: "0 \<le> r" "r < 16" using to_int32_draw [OF assms] by (simp_all add: r_def)
  define v where "v = or (and r 3) 8"
  have v: "v \<in> {8, 9, 10, 11}" using variant_nibble [OF r] by (simp add: v_def)
  have "id_char x (CHR ''y'') = int_toString 16 v"
    by (simp add: id_char_def Let_def r_def v_def)
  with v show ?thesis by (auto simp add: int_toString_def digit_char_def digits_of_16)
qed

lemma replace_xy_rel:
  assumes "\<And>k. 0 \<le> rnd k \<and> rnd k < 1"
  shows "list_all2 id_rel t (fst (replace_xy rnd i t)) \<and>
         snd (replace_xy rnd i t) =
           i + length (filter (\<lambda>c. c = CHR ''x'' \<or> c = CHR ''y'') t)"
proof (induction t arbitrary: i)
  case Nil
  then show ?case by simp
next
  case (Cons c cs)
  have rg: "0 \<le> rnd i" "rnd i < 1" using assms [of i] by simp_all
  consider (x) "c = CHR ''x''" | (y) "c = CHR ''y''"
    | (other) "c \<noteq> CHR ''x''" "c \<noteq> CHR ''y''"
    by blast
  then show ?case
  proof cases
    case x
    from id_char_x [OF rg] obtain h where h: "id_char (rnd i) (CHR ''x'') = [h]"
      "h \<in> set ''0123456789abcdef''" by blast
    show ?thesis using x h Cons [of "Suc i"] by (simp add: split_def id_rel_def)
  next
    case y
    from id_char_y [OF rg] obtain h where h: "id_char (rnd i) (CHR ''y'') = [h]"
      "h \<in> set ''89ab''" by blast
    show ?thesis using y h Cons [of "Suc i"] by (simp add: split_def id_rel_def)
  next
    case other
    then show ?thesis using Cons [of i] by (simp add: split_def id_rel_def)
  qed
qed

lemma id_template_nth:
  assumes "k < 36"
  shows "id_template ! k =
           (if k \<in> {8, 13, 18, 23} then CHR ''-''
            else if k = 14 then CHR ''4'' else if k = 19 then CHR ''y'' else CHR ''x'')"
proof -
  from assms have
    "k \<in> {0, 1, 2, 3, 4, 5, 6, 7, 8, 9, 10, 11, 12, 13, 14, 15, 16, 17, 18, 19, 20, 21, 22,
          23, 24, 25, 26, 27, 28, 29, 30, 31, 32, 33, 34, 35}"
    by (simp; presburger)
  then show ?thesis by (auto simp add: id_template_def)
qed

text \<open>
  C9. Whatever \<^verbatim>\<open>Math.random\<close> draws from the unit interval, the identifier has 36
  characters, hyphens at 8, 13, 18 and 23, the version digit \<open>4\<close> at 14, a variant digit
  among \<open>8\<close>, \<open>9\<close>, \<open>a\<close>, \<open>b\<close> at 19, and hexadecimal digits everywhere else; it takes
  31 draws.
\<close>

theorem generateId_shape:
  assumes "\<forall>k. 0 \<le> rnd k \<and> rnd k < 1"
  shows "length (fst (generateId rnd i)) = 36 \<and>
         fst (generateId rnd i) ! 8 = CHR ''-'' \<and> fst (generateId rnd i) ! 13 = CHR ''-'' \<and>
         fst (generateId rnd i) ! 18 = CHR ''-'' \<and> fst (generateId rnd i) ! 23 = CHR ''-'' \<and>
         fst (generateId rnd i) ! 14 = CHR ''4'' \<and>
         fst (generateId rnd i) ! 19 \<in> set ''89ab'' \<and>
         (\<forall>k<36. k \<notin> {8, 13, 18, 23} \<longrightarrow>
                 fst (generateId rnd i) ! k \<in> set ''0123456789abcdef'') \<and>
         snd (generateId rnd i) = i + 31"
proof -
  let ?u = "fst (generateId rnd i)"
  have rel: "list_all2 id_rel id_template ?u"
    and cnt: "snd (generateId rnd i) =
                i + length (filter (\<lambda>c. c = CHR ''x'' \<or> c = CHR ''y'') id_template)"
    using replace_xy_rel [of rnd id_template i] assms by (simp_all add: generateId_def)
  have len: "length ?u = 36"
    using list_all2_lengthD [OF rel] by (simp add: id_template_def)
  have at: "id_rel (id_template ! k) (?u ! k)" if "k < 36" for k :: nat
    using list_all2_nthD [OF rel, of k] that by (simp add: id_template_def)
  have h8: "?u ! 8 = CHR ''-''"
    using at [of 8] id_template_nth [of 8] by (simp add: id_rel_def)
  have h13: "?u ! 13 = CHR ''-''"
    using at [of 13] id_template_nth [of 13] by (simp add: id_rel_def)
  have h18: "?u ! 18 = CHR ''-''"
    using at [of 18] id_template_nth [of 18] by (simp add: id_rel_def)
  have h23: "?u ! 23 = CHR ''-''"
    using at [of 23] id_template_nth [of 23] by (simp add: id_rel_def)
  have h14: "?u ! 14 = CHR ''4''"
    using at [of 14] id_template_nth [of 14] by (simp add: id_rel_def)
  have h19: "?u ! 19 \<in> set ''89ab''"
    using at [of 19] id_template_nth [of 19] by (simp add: id_rel_def)
  have hex: "\<forall>k<36. k \<notin> {8, 13, 18, 23} \<longrightarrow> ?u ! k \<in> set ''0123456789abcdef''"
  proof (intro allI impI)
    fix k :: nat assume k: "k < 36" "k \<notin> {8, 13, 18, 23}"
    show "?u ! k \<in> set ''0123456789abcdef''"
    proof (cases "k = 14")
      case True
      with h14 show ?thesis by simp
    next
      case False
      note n14 = this
      show ?thesis
      proof (cases "k = 19")
        case True
        with h19 show ?thesis by auto
      next
        case False
        with n14 k at [of k] id_template_nth [of k] show ?thesis by (simp add: id_rel_def)
      qed
    qed
  qed
  have n31: "length (filter (\<lambda>c. c = CHR ''x'' \<or> c = CHR ''y'') id_template) = 31"
    by (simp add: id_template_def)
  show ?thesis using len h8 h13 h18 h23 h14 h19 hex cnt n31 by simp
qed

theorem generateId_shape_witness:
  "length (fst (generateId (\<lambda>k. 9 / 10) 0)) = 36 \<and>
   fst (generateId (\<lambda>k. 9 / 10) 0) ! 14 = CHR ''4'' \<and>
   fst (generateId (\<lambda>k. 9 / 10) 0) ! 19 \<in> set ''89ab'' \<and>
   snd (generateId (\<lambda>k. 9 / 10) 0) = 31"
  using generateId_shape [of "\<lambda>k. 9 / 10" 0] by simp

lemma generateId_example:
  "fst (generateId (\<lambda>k. 9 / 10) 0) = ''eeeeeeee-eeee-4eee-aeee-eeeeeeeeeeee''"
  by (simp add: generateId_def id_template_def id_char_def to_int32_def int_toString_def
      digit_char_def digits_of.simps)

section \<open>Wallet store: decoding\<close>

lemma key_prefixes: "wallet_key u \<noteq> address_key a"
  by (simp add: wallet_key_def address_key_def)

lemma address_key_inj: "address_key a = address_key b \<longleftrightarrow> a = b"
  by (simp add: address_key_def)

lemma saveUserWallet_True:
  assumes "saveUserWallet L E userId d w = (True, w')"
  shows "w' = w\<lparr>cache := (cache w)
                 (wallet_key userId \<mapsto> JStr (JSON_stringify L (wallet_object d)),
                  address_key (wd_address d) \<mapsto> JStr userId)\<rparr>"
  using assms
  by (auto simp add: saveUserWallet_def cacheManager_set_def split: option.splits)

lemma sample_caller: "caller_id (sample_message t) None = Some ''user-1''"
  by (simp add: caller_id_def truthy_str_def js_or_def sample_message_def)

lemma sample_hasWallet: "userHasWallet E sample_world ''user-1'' = (cache_get_fault E (wallet_key ''user-1'') = None)"
  by (cases "cache_get_fault E (wallet_key ''user-1'')")
    (simp_all add: userHasWallet_def cacheManager_get_def sample_world_def empty_world_def
      wallet_key_def address_key_def sample_json_def)

lemma sample_getUserWallet:
  "cache_get_fault E (wallet_key ''user-1'') = None \<Longrightarrow>
   getUserWallet sample_lib E sample_world ''user-1'' =
     Some \<lparr>uw_address = JStr sample_address, uw_privateKey = JStr sample_key\<rparr>"
  by (simp add: getUserWallet_def cacheManager_get_def sample_world_def empty_world_def
      wallet_key_def address_key_def sample_lib_def wallet_object_def sample_wallet_def)
    (simp add: sample_json_def)

lemma sample_provider:
  "cache_get_fault E (wallet_key ''user-1'') = None \<Longrightarrow> getSetting E ''EVM_RPC_URL'' = None \<Longrightarrow>
   initUserWalletProvider sample_lib E sample_world ''user-1'' =
     Some \<lparr>wp_address = sample_address, wp_rpcUrl = default_rpc\<rparr>"
  by (simp add: initUserWalletProvider_def sample_getUserWallet new_WalletProvider_def
      normalize_key_def rpc_setting_def truthy_str_def js_or_def)
    (simp add: sample_lib_def sample_key_def)

lemma sample_mnt_text:
  "truthy_str (extractEthereumWalletAddress
     ''enviar 0.5 MNT a 0x1111111111111111111111111111111111111111'') = Some sample_recipient"
  "truthy_str (extractAmount ''enviar 0.5 MNT a 0x1111111111111111111111111111111111111111'') =
     Some ''0.5''"
  by code_simp+

lemma sample_erc20_text:
  "truthy_str (extractEthereumWalletAddress
     ''enviar 25 AISHOP a 0x1111111111111111111111111111111111111111'') = Some sample_recipient"
  "extractTokenTransferInfo ''enviar 25 AISHOP a 0x1111111111111111111111111111111111111111'' =
     Some \<lparr>amount = ''25'', symbol = ''AISHOP''\<rparr>"
  by code_simp+


lemma sample_env_faults:
  "cache_get_fault sample_env k = None" "getSetting sample_env ''EVM_RPC_URL'' = None"
  "cache_get_fault sample_env_token_down k = None"
  "getSetting sample_env_token_down ''EVM_RPC_URL'' = None"
  "cache_get_fault sample_env_native_down k = None"
  "getSetting sample_env_native_down ''EVM_RPC_URL'' = None"
  by (simp_all add: sample_env_def sample_env_token_down_def sample_env_native_down_def)

lemma sample_erc20_path:
  "truthy_str (extractEthereumWalletAddress (text_or_empty
      (sample_message ''enviar 25 AISHOP a 0x1111111111111111111111111111111111111111''))) =
     Some sample_recipient"
  "extractTokenTransferInfo (text_or_empty
      (sample_message ''enviar 25 AISHOP a 0x1111111111111111111111111111111111111111'')) =
     Some \<lparr>amount = ''25'', symbol = ''AISHOP''\<rparr>"
  "map_of TOKENS (symbol \<lparr>amount = ''25'', symbol = ''AISHOP''\<rparr>) =
     Some (ERC20Token ''AISHOP'' ''AI Shop Agent'' 18 aishop_address)"
  "parseUnits sample_lib (amount \<lparr>amount = ''25'', symbol = ''AISHOP''\<rparr>) 18 =
     Inr 25000000000000000000"
proof -
  have t2: "text_or_empty
      (sample_message ''enviar 25 AISHOP a 0x1111111111111111111111111111111111111111'') =
      ''enviar 25 AISHOP a 0x1111111111111111111111111111111111111111''"
    by (simp add: sample_message_def text_or_empty_def)
  show "truthy_str (extractEthereumWalletAddress (text_or_empty
      (sample_message ''enviar 25 AISHOP a 0x1111111111111111111111111111111111111111''))) =
     Some sample_recipient"
    by (simp only: t2 sample_erc20_text)
  show "extractTokenTransferInfo (text_or_empty
      (sample_message ''enviar 25 AISHOP a 0x1111111111111111111111111111111111111111'')) =
     Some \<lparr>amount = ''25'', symbol = ''AISHOP''\<rparr>"
    by (simp only: t2 sample_erc20_text)
  show "map_of TOKENS (symbol \<lparr>amount = ''25'', symbol = ''AISHOP''\<rparr>) =
     Some (ERC20Token ''AISHOP'' ''AI Shop Agent'' 18 aishop_address)"
    by (simp add: TOKENS_def TOKENS_AISHOP_def aishop_address_def)
  show "parseUnits sample_lib (amount \<lparr>amount = ''25'', symbol = ''AISHOP''\<rparr>) 18 =
     Inr 25000000000000000000"
    by (simp add: sample_lib_def)
qed

lemma sample_mnt_path:
  "msg_text (sample_message ''enviar 0.5 MNT a 0x1111111111111111111111111111111111111111'') =
     Some ''enviar 0.5 MNT a 0x1111111111111111111111111111111111111111''"
  "parseEther sample_lib ''0.5'' = Inr 500000000000000000"
  by (simp_all add: sample_message_def parseEther_def sample_lib_def)

text \<open>
  C8. \<^verbatim>\<open>getUserWallet\<close> returns the same \<open>{address, privateKey}\<close> for a record
  held in the cache as its JSON text and for the record held as an object, and \<^verbatim>\<open>null\<close>
  when the cache holds nothing under the key. The read is assumed not to throw, and
  \<^verbatim>\<open>JSON.parse\<close> to read back what \<^verbatim>\<open>JSON.stringify\<close> wrote for the record.
\<close>

theorem getUserWallet_representations:
  assumes "JSON_roundtrip L (wallet_object r)"
    and "cache_get_fault E (wallet_key userId) = None"
  shows "getUserWallet L E
           (w\<lparr>cache := (cache w)(wallet_key userId \<mapsto> JStr (JSON_stringify L (wallet_object r)))\<rparr>)
           userId =
           Some \<lparr>uw_address = JStr (wd_address r), uw_privateKey = JStr (wd_privateKey r)\<rparr> \<and>
         getUserWallet L E
           (w\<lparr>cache := (cache w)(wallet_key userId \<mapsto> wallet_object r)\<rparr>) userId =
           Some \<lparr>uw_address = JStr (wd_address r), uw_privateKey = JStr (wd_privateKey r)\<rparr> \<and>
         getUserWallet L E (w\<lparr>cache := (cache w)(wallet_key userId := None)\<rparr>) userId = None"
proof -
  have obj: "get_prop (wallet_object r) ''address'' = Inr (JStr (wd_address r))"
    "get_prop (wallet_object r) ''privateKey'' = Inr (JStr (wd_privateKey r))"
    by (simp_all add: wallet_object_def)
  have t: "truthy (wallet_object r)" by (simp add: wallet_object_def)
  have ne: "\<And>s. wallet_object r \<noteq> JStr s" by (simp add: wallet_object_def)
  show ?thesis
    using assms obj t
    by (simp add: getUserWallet_def cacheManager_get_def JSON_roundtrip_def wallet_object_def)
qed

theorem getUserWallet_representations_witness:
  "getUserWallet sample_lib sample_env
     (empty_world\<lparr>cache := (cache empty_world)(wallet_key ''user-1'' \<mapsto> JStr sample_json)\<rparr>)
     ''user-1'' =
     Some \<lparr>uw_address = JStr sample_address, uw_privateKey = JStr sample_key\<rparr> \<and>
   getUserWallet sample_lib sample_env
     (empty_world\<lparr>cache := (cache empty_world)(wallet_key ''user-1'' \<mapsto> wallet_object sample_wallet)\<rparr>)
     ''user-1'' =
     Some \<lparr>uw_address = JStr sample_address, uw_privateKey = JStr sample_key\<rparr>"
proof -
  have a: "JSON_roundtrip sample_lib (wallet_object sample_wallet)"
    by (simp add: JSON_roundtrip_def sample_lib_def sample_json_def)
  have b: "cache_get_fault sample_env (wallet_key ''user-1'') = None"
    by (simp add: sample_env_def)
  have c: "JSON_stringify sample_lib (wallet_object sample_wallet) = sample_json"
    by (simp add: sample_lib_def)
  show ?thesis
    using getUserWallet_representations [OF a b, of empty_world] c
    by (simp add: sample_wallet_def)
qed


section \<open>Wallet provisioning and address lookup\<close>

lemma getUserWallet_stored:
  assumes "JSON_roundtrip L (wallet_object r)"
    and "cache_get_fault E (wallet_key u) = None"
    and "cache w (wallet_key u) = Some (JStr (JSON_stringify L (wallet_object r)))"
  shows "userHasWallet E w u"
    and "getUserWallet L E w u =
           Some \<lparr>uw_address = JStr (wd_address r), uw_privateKey = JStr (wd_privateKey r)\<rparr>"
  using assms
  by (simp_all add: userHasWallet_def getUserWallet_def cacheManager_get_def JSON_roundtrip_def
      wallet_object_def)

lemma createWallet_existing:
  assumes "caller_id m st = Some u"
    and "JSON_roundtrip L (wallet_object r)"
    and "cache_get_fault E (wallet_key u) = None"
    and "cache w (wallet_key u) = Some (JStr (JSON_stringify L (wallet_object r)))"
  shows "createWallet_handler L E m st w = (True, reply (text_wallet_exists (wd_address r)) w)"
  using assms(1) getUserWallet_stored [OF assms(2,3,4)]
  by (simp add: createWallet_handler_def)

lemma getUserWallet_stored_raw:
  assumes "cache_get_fault E (wallet_key u) = None"
    and "cache w (wallet_key u) = Some (wallet_object r)"
  shows "userHasWallet E w u"
    and "getUserWallet L E w u =
           Some \<lparr>uw_address = JStr (wd_address r), uw_privateKey = JStr (wd_privateKey r)\<rparr>"
  using assms
  by (simp_all add: userHasWallet_def getUserWallet_def cacheManager_get_def wallet_object_def)

lemma createWallet_existing_raw:
  assumes "caller_id m st = Some u"
    and "cache_get_fault E (wallet_key u) = None"
    and "cache w (wallet_key u) = Some (wallet_object r)"
  shows "createWallet_handler L E m st w = (True, reply (text_wallet_exists (wd_address r)) w)"
  using assms(1) getUserWallet_stored_raw [OF assms(2,3)]
  by (simp add: createWallet_handler_def)

lemma createWallet_fresh:
  assumes "caller_id m st = Some u"
    and "\<not> userHasWallet E w u"
    and "createWallet_handler L E m st w = (True, w1)"
  shows "\<exists>a.
           privateKeyToAccount L (generatePrivateKey E (key_draws w)) = Inr a \<and>
           w1 = w\<lparr>cache := (cache w)
                     (wallet_key u \<mapsto>
                        JStr (JSON_stringify L
                               (wallet_object
                                  \<lparr>wd_address = a,
                                   wd_privateKey = generatePrivateKey E (key_draws w),
                                   wd_createdAt = Date_now E\<rparr>)),
                      address_key a \<mapsto> JStr u),
                   key_draws := Suc (key_draws w),
                   rnd_draws := snd (generateId (Math_random E) (rnd_draws w)),
                   memories := memories w @
                     [\<lparr>mr_id = fst (generateId (Math_random E) (rnd_draws w)),
                       mr_userId = Some u, mr_agentId = msg_agentId m,
                       mr_roomId = msg_roomId m, mr_text = text_wallet_memory a,
                       mr_action = ''CREATE_WALLET'',
                       mr_payload = WalletCreated a (Date_now E)\<rparr>],
                   replies := replies w @ [text_wallet_creating, text_wallet_created a]\<rparr>"
proof -
  let ?k = "generatePrivateKey E (key_draws w)"
  obtain a where a: "privateKeyToAccount L ?k = Inr a"
    using assms
    by (cases "privateKeyToAccount L ?k")
      (simp_all add: createWallet_handler_def Let_def createWallet_catch_def reply_def)
  let ?d = "\<lparr>wd_address = a, wd_privateKey = ?k, wd_createdAt = Date_now E\<rparr>"
  let ?w2 = "(reply text_wallet_creating w)\<lparr>key_draws := Suc (key_draws w)\<rparr>"
  obtain saved w3 where s: "saveUserWallet L E u ?d ?w2 = (saved, w3)"
    by (cases "saveUserWallet L E u ?d ?w2") blast
  have saved: "saved"
    using assms a s
    by (cases saved) (simp_all add: createWallet_handler_def Let_def reply_def)
  note w3 = saveUserWallet_True [OF s [unfolded saved [THEN eqTrueI]]]
  show ?thesis
    using assms a s saved w3
    by (auto simp add: createWallet_handler_def Let_def reply_def fresh_id_def split_def
        createMemory_def createWallet_catch_def split: option.splits)
qed


lemma sample_create_fst:
  "fst (createWallet_handler sample_lib sample_env (sample_message ''crear wallet'') None
          empty_world)"
  by (simp add: createWallet_handler_def sample_caller userHasWallet_def cacheManager_get_def
      sample_env_def empty_world_def Let_def reply_def sample_lib_def saveUserWallet_def
      cacheManager_set_def fresh_id_def createMemory_def split_def)

lemma sample_create_run:
  "createWallet_handler sample_lib sample_env (sample_message ''crear wallet'') None empty_world =
     (True, snd (createWallet_handler sample_lib sample_env (sample_message ''crear wallet'')
                   None empty_world))"
  using sample_create_fst by (simp add: prod_eq_iff)

lemma sample_no_wallet: "\<not> userHasWallet sample_env empty_world ''user-1''"
  by (simp add: userHasWallet_def cacheManager_get_def sample_env_def empty_world_def)

lemma sample_derived:
  "privateKeyToAccount sample_lib (generatePrivateKey sample_env (key_draws empty_world)) =
     Inr sample_address"
  by (simp add: sample_env_def sample_lib_def)

text \<open>
  C3, as amended. \<^verbatim>\<open>getUserIdByAddress\<close> looks the address up as it is spelled,
  with no case normalisation: after \<^verbatim>\<open>saveUserWallet\<close> has succeeded for \<open>userId\<close>, a
  lookup returns \<open>userId\<close> for the address exactly as it was derived, and for every other
  spelling what the cache held before. So after the provisioning flow has created the
  wallet of a user, the derived address resolves to that user. The lookup's cache read
  is assumed not to throw.
\<close>

theorem resolve_user_by_address:
  "(saveUserWallet L E userId d w = (True, w') \<and>
    cache_get_fault E' (address_key a) = None \<longrightarrow>
    getUserIdByAddress E' w' a =
      (if a = wd_address d then Some userId else getUserIdByAddress E' w a)) \<and>
   (caller_id m st = Some userId \<and> \<not> userHasWallet E w userId \<and>
    createWallet_handler L E m st w = (True, w1) \<and>
    privateKeyToAccount L (generatePrivateKey E (key_draws w)) = Inr derived \<and>
    cache_get_fault E' (address_key derived) = None \<longrightarrow>
    getUserIdByAddress E' w1 derived = Some userId)"
proof (intro conjI impI)
  assume h: "saveUserWallet L E userId d w = (True, w') \<and>
    cache_get_fault E' (address_key a) = None"
  then have s: "saveUserWallet L E userId d w = (True, w')" by simp
  from h key_prefixes [of userId a]
  show "getUserIdByAddress E' w' a =
      (if a = wd_address d then Some userId else getUserIdByAddress E' w a)"
    by (simp add: saveUserWallet_True [OF s] getUserIdByAddress_def cacheManager_get_def
        address_key_inj)
next
  assume h: "caller_id m st = Some userId \<and> \<not> userHasWallet E w userId \<and>
    createWallet_handler L E m st w = (True, w1) \<and>
    privateKeyToAccount L (generatePrivateKey E (key_draws w)) = Inr derived \<and>
    cache_get_fault E' (address_key derived) = None"
  then have 1: "caller_id m st = Some userId" and 2: "\<not> userHasWallet E w userId"
    and 3: "createWallet_handler L E m st w = (True, w1)" by simp_all
  from createWallet_fresh [OF 1 2 3] h
  have "cache w1 (address_key derived) = Some (JStr userId)" by auto
  with h show "getUserIdByAddress E' w1 derived = Some userId"
    by (simp add: getUserIdByAddress_def cacheManager_get_def)
qed

lemma save_sample:
  "saveUserWallet sample_lib sample_env ''user-1'' sample_wallet empty_world = (True, sample_world)"
  by (simp add: saveUserWallet_def cacheManager_set_def sample_env_def sample_world_def
      sample_lib_def empty_world_def sample_wallet_def)

theorem resolve_user_by_address_witness:
  "getUserIdByAddress sample_env sample_world sample_address = Some ''user-1'' \<and>
   getUserIdByAddress sample_env
     (snd (createWallet_handler sample_lib sample_env (sample_message ''crear wallet'') None
             empty_world)) sample_address = Some ''user-1''"
proof -
  note T = resolve_user_by_address [where L = sample_lib and E = sample_env
      and E' = sample_env and userId = "''user-1''"]
  have f: "cache_get_fault sample_env (address_key sample_address) = None"
    by (rule sample_env_faults)
  have "getUserIdByAddress sample_env sample_world sample_address =
      (if sample_address = wd_address sample_wallet then Some ''user-1''
       else getUserIdByAddress sample_env empty_world sample_address)"
    by (rule T [where d = sample_wallet and w = empty_world and w' = sample_world
          and a = sample_address, THEN conjunct1, THEN mp])
      (intro conjI save_sample f)
  then have a: "getUserIdByAddress sample_env sample_world sample_address = Some ''user-1''"
    by (simp add: sample_wallet_def)
  have b: "getUserIdByAddress sample_env
     (snd (createWallet_handler sample_lib sample_env (sample_message ''crear wallet'') None
             empty_world)) sample_address = Some ''user-1''"
    by (rule T [where m = "sample_message ''crear wallet''" and st = None and w = empty_world
          and derived = sample_address, THEN conjunct2, THEN mp])
      (intro conjI sample_caller sample_no_wallet sample_create_run sample_derived f)
  from a b show ?thesis by (intro conjI)
qed

text \<open>
  The claim as stated fails: the reverse index is keyed by the checksummed address that
  the account derivation returns, and the lower-case spelling of that address is not
  found.
\<close>

theorem resolve_user_by_address_counterexample:
  "fst (saveUserWallet sample_lib sample_env ''user-1'' sample_wallet empty_world) = True \<and>
   toLowerCase (wd_address sample_wallet) = ''0xf39fd6e51aad88f6f4ce6ab8827279cfffb92266'' \<and>
   getUserIdByAddress sample_env
     (snd (saveUserWallet sample_lib sample_env ''user-1'' sample_wallet empty_world))
     ''0xf39fd6e51aad88f6f4ce6ab8827279cfffb92266'' = None"
proof -
  have "toLowerCase (wd_address sample_wallet) = ''0xf39fd6e51aad88f6f4ce6ab8827279cfffb92266''"
    by code_simp
  moreover have "getUserIdByAddress sample_env sample_world
     ''0xf39fd6e51aad88f6f4ce6ab8827279cfffb92266'' = None"
    by (simp add: sample_world_def empty_world_def getUserIdByAddress_def
      cacheManager_get_def sample_env_def sample_address_def address_key_def wallet_key_def)
  ultimately show ?thesis by (simp add: save_sample)
qed

lemma createWallet_read_fault:
  assumes "caller_id m st = Some u"
    and "cache_get_fault E (wallet_key u) = Some e"
  shows "\<not> userHasWallet E w u"
    and "createWallet_handler L E m st w = (True, w') \<Longrightarrow>
         key_draws w' = Suc (key_draws w) \<and>
         (\<exists>a. privateKeyToAccount L (generatePrivateKey E (key_draws w)) = Inr a \<and>
              cache w' (wallet_key u) =
                Some (JStr (JSON_stringify L
                        (wallet_object
                           \<lparr>wd_address = a,
                            wd_privateKey = generatePrivateKey E (key_draws w),
                            wd_createdAt = Date_now E\<rparr>))))"
proof -
  show n: "\<not> userHasWallet E w u"
    using assms(2) by (simp add: userHasWallet_def cacheManager_get_def)
  assume "createWallet_handler L E m st w = (True, w')"
  from createWallet_fresh [OF assms(1) n this] key_prefixes [of u]
  show "key_draws w' = Suc (key_draws w) \<and>
         (\<exists>a. privateKeyToAccount L (generatePrivateKey E (key_draws w)) = Inr a \<and>
              cache w' (wallet_key u) =
                Some (JStr (JSON_stringify L
                        (wallet_object
                           \<lparr>wd_address = a,
                            wd_privateKey = generatePrivateKey E (key_draws w),
                            wd_createdAt = Date_now E\<rparr>))))"
    by auto
qed


text \<open>
  C5, as amended. Provisioning is idempotent as long as the cache can be read. A first
  invocation that creates the wallet of a user is followed by a second one for the same
  user whose read of the record does not throw: the second replies with the address the
  first one reported, and changes neither the cache nor the count of generated keys nor
  the persisted memories; the cache holds the one record written by the first. Whenever
  the cache holds a wallet record for the user, as JSON text or as an object, and the
  read does not throw, the flow answers with its address and only adds that reply. When
  the read of the record throws, the flow takes the user to have no wallet: an
  invocation that succeeds has drawn a new key and has written a new record over the
  old one. \<^verbatim>\<open>JSON.parse\<close> is assumed to read back what \<^verbatim>\<open>JSON.stringify\<close> wrote.
\<close>

theorem provisioning_idempotent:
  assumes "caller_id m1 st1 = Some u"
    and "caller_id m2 st2 = Some u"
    and "\<not> userHasWallet E1 w0 u"
    and "createWallet_handler L E1 m1 st1 w0 = (True, w1)"
    and "\<forall>a. privateKeyToAccount L (generatePrivateKey E1 (key_draws w0)) = Inr a \<longrightarrow>
             JSON_roundtrip L
               (wallet_object \<lparr>wd_address = a,
                               wd_privateKey = generatePrivateKey E1 (key_draws w0),
                               wd_createdAt = Date_now E1\<rparr>)"
    and "cache_get_fault E2 (wallet_key u) = None"
  shows "(\<exists>a. privateKeyToAccount L (generatePrivateKey E1 (key_draws w0)) = Inr a \<and>
             last (replies w1) = text_wallet_created a \<and>
             last (replies w1) =
               join_nl
                 [[CHR 0xE2, CHR 0x9C, CHR 0x85] @ '' '' @ [CHR 0xC2, CHR 0xA1] @
                  ''Tu wallet ha sido creada con '' @ [CHR 0xC3, CHR 0xA9] @ ''xito!'',
                  [],
                  ''Tu direcci'' @ [CHR 0xC3, CHR 0xB3] @ ''n p'' @ [CHR 0xC3, CHR 0xBA] @
                  ''blica es:'',
                  [CHR 0x60] @ a @ [CHR 0x60],
                  [],
                  ''Esta wallet est'' @ [CHR 0xC3, CHR 0xA1] @
                  '' asociada a tu cuenta de usuario y puede ser utilizada para:'',
                  ''- Recibir y enviar tokens MNT'',
                  ''- Recibir y enviar tokens AISHOP'',
                  ''- Interactuar con aplicaciones en la red Mantle'',
                  [],
                  ''Tu clave privada est'' @ [CHR 0xC3, CHR 0xA1] @
                  '' almacenada de forma segura y se utilizar'' @ [CHR 0xC3, CHR 0xA1] @
                  '' autom'' @ [CHR 0xC3, CHR 0xA1] @
                  ''ticamente cuando necesites realizar transacciones.'',
                  [],
                  ''Puedes consultar tu balance en cualquier momento escribiendo '' @
                  [CHR 0x22] @ ''ver mi balance'' @ [CHR 0x22] @ '' o '' @ [CHR 0x22] @
                  ''check balance'' @ [CHR 0x22] @ ''.''] \<and>
             cache w1 (wallet_key u) =
               Some (JStr (JSON_stringify L
                             (wallet_object
                                \<lparr>wd_address = a,
                                 wd_privateKey = generatePrivateKey E1 (key_draws w0),
                                 wd_createdAt = Date_now E1\<rparr>))) \<and>
             createWallet_handler L E2 m2 st2 w1 = (True, reply (text_wallet_exists a) w1) \<and>
             snd (createWallet_handler L E2 m2 st2 w1) =
               w1\<lparr>replies := replies w1 @
                  [''Ya tienes una wallet creada. Tu direcci'' @ [CHR 0xC3, CHR 0xB3] @
                   ''n es:'' @ [CHR 0x0A, CHR 0x0A, CHR 0x60] @ a @
                   [CHR 0x60, CHR 0x0A, CHR 0x0A] @ ''Tu wallet est'' @ [CHR 0xC3, CHR 0xA1] @
                   '' segura y lista para usar.'']\<rparr> \<and>
             cache (reply (text_wallet_exists a) w1) = cache w1 \<and>
             key_draws (reply (text_wallet_exists a) w1) = key_draws w1 \<and>
             memories (reply (text_wallet_exists a) w1) = memories w1) \<and>
         (\<forall>w r. (JSON_roundtrip L (wallet_object r) \<and>
                 cache w (wallet_key u) = Some (JStr (JSON_stringify L (wallet_object r)))) \<or>
                cache w (wallet_key u) = Some (wallet_object r) \<longrightarrow>
                createWallet_handler L E2 m2 st2 w =
                  (True, reply (text_wallet_exists (wd_address r)) w) \<and>
                snd (createWallet_handler L E2 m2 st2 w) =
                  w\<lparr>replies := replies w @
                     [''Ya tienes una wallet creada. Tu direcci'' @ [CHR 0xC3, CHR 0xB3] @
                      ''n es:'' @ [CHR 0x0A, CHR 0x0A, CHR 0x60] @ wd_address r @
                      [CHR 0x60, CHR 0x0A, CHR 0x0A] @ ''Tu wallet est'' @
                      [CHR 0xC3, CHR 0xA1] @ '' segura y lista para usar.'']\<rparr>) \<and>
         (\<forall>E3 w w' e. cache_get_fault E3 (wallet_key u) = Some e \<and>
                createWallet_handler L E3 m2 st2 w = (True, w') \<longrightarrow>
                key_draws w' = Suc (key_draws w) \<and>
                (\<exists>a. privateKeyToAccount L (generatePrivateKey E3 (key_draws w)) = Inr a \<and>
                     cache w' (wallet_key u) =
                       Some (JStr (JSON_stringify L
                               (wallet_object
                                  \<lparr>wd_address = a,
                                   wd_privateKey = generatePrivateKey E3 (key_draws w),
                                   wd_createdAt = Date_now E3\<rparr>)))))"
proof -
  let ?k = "generatePrivateKey E1 (key_draws w0)"
  let ?ex = "\<lambda>a. ''Ya tienes una wallet creada. Tu direcci'' @ [CHR 0xC3, CHR 0xB3] @
                   ''n es:'' @ [CHR 0x0A, CHR 0x0A, CHR 0x60] @ a @
                   [CHR 0x60, CHR 0x0A, CHR 0x0A] @ ''Tu wallet est'' @ [CHR 0xC3, CHR 0xA1] @
                   '' segura y lista para usar.''"
  have sp: "\<And>a (w :: world).
      snd (True, reply (text_wallet_exists a) w) = w\<lparr>replies := replies w @ [?ex a]\<rparr>"
    by (simp only: snd_conv reply_def text_wallet_exists_def)
  from createWallet_fresh [OF assms(1,3,4)] obtain a where
    a: "privateKeyToAccount L ?k = Inr a" and
    c: "cache w1 (wallet_key u) =
          Some (JStr (JSON_stringify L
                  (wallet_object \<lparr>wd_address = a, wd_privateKey = ?k, wd_createdAt = Date_now E1\<rparr>)))" and
    r: "replies w1 = replies w0 @ [text_wallet_creating, text_wallet_created a]"
    using key_prefixes [of u] by auto
  from assms(5) a have rt: "JSON_roundtrip L
      (wallet_object \<lparr>wd_address = a, wd_privateKey = ?k, wd_createdAt = Date_now E1\<rparr>)"
    by blast
  from createWallet_existing [OF assms(2) rt assms(6) c]
  have s: "createWallet_handler L E2 m2 st2 w1 = (True, reply (text_wallet_exists a) w1)"
    by simp
  have l: "last (replies w1) = text_wallet_created a"
    by (simp add: r)
  note l2 = l [unfolded text_wallet_created_def]
  have s2: "snd (createWallet_handler L E2 m2 st2 w1) = w1\<lparr>replies := replies w1 @ [?ex a]\<rparr>"
    by (simp only: s sp)
  have f: "cache (reply (text_wallet_exists a) w1) = cache w1"
    "key_draws (reply (text_wallet_exists a) w1) = key_draws w1"
    "memories (reply (text_wallet_exists a) w1) = memories w1"
    by (simp_all add: reply_def)
  have first: "\<exists>a. privateKeyToAccount L ?k = Inr a \<and>
             last (replies w1) = text_wallet_created a \<and>
             last (replies w1) =
               join_nl
                 [[CHR 0xE2, CHR 0x9C, CHR 0x85] @ '' '' @ [CHR 0xC2, CHR 0xA1] @
                  ''Tu wallet ha sido creada con '' @ [CHR 0xC3, CHR 0xA9] @ ''xito!'',
                  [],
                  ''Tu direcci'' @ [CHR 0xC3, CHR 0xB3] @ ''n p'' @ [CHR 0xC3, CHR 0xBA] @
                  ''blica es:'',
                  [CHR 0x60] @ a @ [CHR 0x60],
                  [],
                  ''Esta wallet est'' @ [CHR 0xC3, CHR 0xA1] @
                  '' asociada a tu cuenta de usuario y puede ser utilizada para:'',
                  ''- Recibir y enviar tokens MNT'',
                  ''- Recibir y enviar tokens AISHOP'',
                  ''- Interactuar con aplicaciones en la red Mantle'',
                  [],
                  ''Tu clave privada est'' @ [CHR 0xC3, CHR 0xA1] @
                  '' almacenada de forma segura y se utilizar'' @ [CHR 0xC3, CHR 0xA1] @
                  '' autom'' @ [CHR 0xC3, CHR 0xA1] @
                  ''ticamente cuando necesites realizar transacciones.'',
                  [],
                  ''Puedes consultar tu balance en cualquier momento escribiendo '' @
                  [CHR 0x22] @ ''ver mi balance'' @ [CHR 0x22] @ '' o '' @ [CHR 0x22] @
                  ''check balance'' @ [CHR 0x22] @ ''.''] \<and>
             cache w1 (wallet_key u) =
               Some (JStr (JSON_stringify L
                             (wallet_object
                                \<lparr>wd_address = a, wd_privateKey = ?k,
                                 wd_createdAt = Date_now E1\<rparr>))) \<and>
             createWallet_handler L E2 m2 st2 w1 = (True, reply (text_wallet_exists a) w1) \<and>
             snd (createWallet_handler L E2 m2 st2 w1) =
               w1\<lparr>replies := replies w1 @ [?ex a]\<rparr> \<and>
             cache (reply (text_wallet_exists a) w1) = cache w1 \<and>
             key_draws (reply (text_wallet_exists a) w1) = key_draws w1 \<and>
             memories (reply (text_wallet_exists a) w1) = memories w1"
    by (rule exI [of _ a]) (intro conjI a l l2 c s s2 f)
  have second: "\<forall>w r. (JSON_roundtrip L (wallet_object r) \<and>
                 cache w (wallet_key u) = Some (JStr (JSON_stringify L (wallet_object r)))) \<or>
                cache w (wallet_key u) = Some (wallet_object r) \<longrightarrow>
                createWallet_handler L E2 m2 st2 w =
                  (True, reply (text_wallet_exists (wd_address r)) w) \<and>
                snd (createWallet_handler L E2 m2 st2 w) =
                  w\<lparr>replies := replies w @ [?ex (wd_address r)]\<rparr>"
  proof (intro allI impI)
    fix w :: world and r :: wallet_data
    assume h: "(JSON_roundtrip L (wallet_object r) \<and>
                 cache w (wallet_key u) = Some (JStr (JSON_stringify L (wallet_object r)))) \<or>
                cache w (wallet_key u) = Some (wallet_object r)"
    then have e: "createWallet_handler L E2 m2 st2 w =
                  (True, reply (text_wallet_exists (wd_address r)) w)"
      using createWallet_existing [OF assms(2) _ assms(6)]
        createWallet_existing_raw [OF assms(2) assms(6)] by blast
    have "snd (createWallet_handler L E2 m2 st2 w) =
                  w\<lparr>replies := replies w @ [?ex (wd_address r)]\<rparr>"
      by (simp only: e sp)
    with e show "createWallet_handler L E2 m2 st2 w =
                  (True, reply (text_wallet_exists (wd_address r)) w) \<and>
                snd (createWallet_handler L E2 m2 st2 w) =
                  w\<lparr>replies := replies w @ [?ex (wd_address r)]\<rparr>"
      by (rule conjI [rotated, rotated])
  qed
  have third: "\<forall>E3 w w' e. cache_get_fault E3 (wallet_key u) = Some e \<and>
                createWallet_handler L E3 m2 st2 w = (True, w') \<longrightarrow>
                key_draws w' = Suc (key_draws w) \<and>
                (\<exists>a. privateKeyToAccount L (generatePrivateKey E3 (key_draws w)) = Inr a \<and>
                     cache w' (wallet_key u) =
                       Some (JStr (JSON_stringify L
                               (wallet_object
                                  \<lparr>wd_address = a,
                                   wd_privateKey = generatePrivateKey E3 (key_draws w),
                                   wd_createdAt = Date_now E3\<rparr>))))"
    using createWallet_read_fault(2) [OF assms(2)] by blast
  from first second third show ?thesis by (intro conjI)
qed


theorem provisioning_idempotent_witness:
  "createWallet_handler sample_lib sample_env (sample_message ''crear wallet'') None
     (snd (createWallet_handler sample_lib sample_env (sample_message ''crear wallet'') None
             empty_world)) =
     (True,
      reply (text_wallet_exists sample_address)
        (snd (createWallet_handler sample_lib sample_env (sample_message ''crear wallet'') None
                empty_world))) \<and>
   last (replies (snd (createWallet_handler sample_lib sample_env
                         (sample_message ''crear wallet'') None empty_world))) =
     text_wallet_created sample_address \<and>
   last (replies (snd (createWallet_handler sample_lib sample_env
                         (sample_message ''crear wallet'') None empty_world))) =
     join_nl
       [[CHR 0xE2, CHR 0x9C, CHR 0x85] @ '' '' @ [CHR 0xC2, CHR 0xA1] @
        ''Tu wallet ha sido creada con '' @ [CHR 0xC3, CHR 0xA9] @ ''xito!'',
        [],
        ''Tu direcci'' @ [CHR 0xC3, CHR 0xB3] @ ''n p'' @ [CHR 0xC3, CHR 0xBA] @
        ''blica es:'',
        [CHR 0x60] @ ''0xf39Fd6e51aad88F6F4ce6aB8827279cffFb92266'' @ [CHR 0x60],
        [],
        ''Esta wallet est'' @ [CHR 0xC3, CHR 0xA1] @
        '' asociada a tu cuenta de usuario y puede ser utilizada para:'',
        ''- Recibir y enviar tokens MNT'',
        ''- Recibir y enviar tokens AISHOP'',
        ''- Interactuar con aplicaciones en la red Mantle'',
        [],
        ''Tu clave privada est'' @ [CHR 0xC3, CHR 0xA1] @
        '' almacenada de forma segura y se utilizar'' @ [CHR 0xC3, CHR 0xA1] @ '' autom'' @
        [CHR 0xC3, CHR 0xA1] @ ''ticamente cuando necesites realizar transacciones.'',
        [],
        ''Puedes consultar tu balance en cualquier momento escribiendo '' @ [CHR 0x22] @
        ''ver mi balance'' @ [CHR 0x22] @ '' o '' @ [CHR 0x22] @ ''check balance'' @
        [CHR 0x22] @ ''.''] \<and>
   last (replies (snd (createWallet_handler sample_lib sample_env
     (sample_message ''crear wallet'') None
     (snd (createWallet_handler sample_lib sample_env (sample_message ''crear wallet'') None
             empty_world))))) =
     ''Ya tienes una wallet creada. Tu direcci'' @ [CHR 0xC3, CHR 0xB3] @ ''n es:'' @
     [CHR 0x0A, CHR 0x0A, CHR 0x60] @ ''0xf39Fd6e51aad88F6F4ce6aB8827279cffFb92266'' @
     [CHR 0x60, CHR 0x0A, CHR 0x0A] @ ''Tu wallet est'' @ [CHR 0xC3, CHR 0xA1] @
     '' segura y lista para usar.'' \<and>
   snd (createWallet_handler sample_lib sample_env (sample_message ''crear wallet'') None
          sample_world) =
     sample_world
       \<lparr>replies :=
          [''Ya tienes una wallet creada. Tu direcci'' @ [CHR 0xC3, CHR 0xB3] @ ''n es:'' @
           [CHR 0x0A, CHR 0x0A, CHR 0x60] @ ''0xf39Fd6e51aad88F6F4ce6aB8827279cffFb92266'' @
           [CHR 0x60, CHR 0x0A, CHR 0x0A] @ ''Tu wallet est'' @ [CHR 0xC3, CHR 0xA1] @
           '' segura y lista para usar.'']\<rparr> \<and>
   key_draws (snd (createWallet_handler sample_lib sample_env_cache_down
                     (sample_message ''crear wallet'') None sample_world)) = 1 \<and>
   cache (snd (createWallet_handler sample_lib sample_env_cache_down
                 (sample_message ''crear wallet'') None sample_world)) (wallet_key ''user-1'') =
     Some (JStr second_json)"
proof -
  let ?m = "sample_message ''crear wallet''"
  let ?w1 = "snd (createWallet_handler sample_lib sample_env ?m None empty_world)"
  let ?w3 = "snd (createWallet_handler sample_lib sample_env_cache_down ?m None sample_world)"
  have h1: "caller_id ?m None = Some ''user-1''" by (rule sample_caller)
  have h3: "\<not> userHasWallet sample_env empty_world ''user-1''"
    by (rule sample_no_wallet)
  have h4: "createWallet_handler sample_lib sample_env ?m None empty_world = (True, ?w1)"
    by (rule sample_create_run)
  have k: "generatePrivateKey sample_env (key_draws empty_world) = sample_key"
    by (simp add: sample_env_def)
  have dn: "Date_now sample_env = 1700000000000"
    by (simp add: sample_env_def)
  have rt: "JSON_roundtrip sample_lib (wallet_object sample_wallet)"
    by (simp add: sample_lib_def JSON_roundtrip_def sample_json_def)
  have h5: "\<forall>a. privateKeyToAccount sample_lib
                  (generatePrivateKey sample_env (key_draws empty_world)) = Inr a \<longrightarrow>
             JSON_roundtrip sample_lib
               (wallet_object \<lparr>wd_address = a,
                               wd_privateKey = generatePrivateKey sample_env (key_draws empty_world),
                               wd_createdAt = Date_now sample_env\<rparr>)"
    using rt by (simp add: k dn) (simp add: sample_lib_def sample_wallet_def)
  have h6: "cache_get_fault sample_env (wallet_key ''user-1'') = None"
    by (simp add: sample_env_def)
  have pk: "privateKeyToAccount sample_lib sample_key = Inr sample_address"
    by (simp add: sample_lib_def)
  note T = provisioning_idempotent [OF h1 h1 h3 h4 h5 h6]
  from T [THEN conjunct1] obtain a where
    a: "privateKeyToAccount sample_lib
          (generatePrivateKey sample_env (key_draws empty_world)) = Inr a"
    and r1: "last (replies ?w1) = text_wallet_created a"
    and r2: "createWallet_handler sample_lib sample_env ?m None ?w1 =
               (True, reply (text_wallet_exists a) ?w1)"
    by blast
  from a have a_eq: "a = sample_address" by (simp add: k pk)
  have c1: "createWallet_handler sample_lib sample_env ?m None ?w1 =
              (True, reply (text_wallet_exists sample_address) ?w1)"
    using r2 by (simp only: a_eq)
  have c2: "last (replies ?w1) = text_wallet_created sample_address"
    using r1 by (simp only: a_eq)
  have c3: "last (replies ?w1) =
     join_nl
       [[CHR 0xE2, CHR 0x9C, CHR 0x85] @ '' '' @ [CHR 0xC2, CHR 0xA1] @
        ''Tu wallet ha sido creada con '' @ [CHR 0xC3, CHR 0xA9] @ ''xito!'',
        [],
        ''Tu direcci'' @ [CHR 0xC3, CHR 0xB3] @ ''n p'' @ [CHR 0xC3, CHR 0xBA] @
        ''blica es:'',
        [CHR 0x60] @ ''0xf39Fd6e51aad88F6F4ce6aB8827279cffFb92266'' @ [CHR 0x60],
        [],
        ''Esta wallet est'' @ [CHR 0xC3, CHR 0xA1] @
        '' asociada a tu cuenta de usuario y puede ser utilizada para:'',
        ''- Recibir y enviar tokens MNT'',
        ''- Recibir y enviar tokens AISHOP'',
        ''- Interactuar con aplicaciones en la red Mantle'',
        [],
        ''Tu clave privada est'' @ [CHR 0xC3, CHR 0xA1] @
        '' almacenada de forma segura y se utilizar'' @ [CHR 0xC3, CHR 0xA1] @ '' autom'' @
        [CHR 0xC3, CHR 0xA1] @ ''ticamente cuando necesites realizar transacciones.'',
        [],
        ''Puedes consultar tu balance en cualquier momento escribiendo '' @ [CHR 0x22] @
        ''ver mi balance'' @ [CHR 0x22] @ '' o '' @ [CHR 0x22] @ ''check balance'' @
        [CHR 0x22] @ ''.'']"
    by (simp only: c2 text_wallet_created_def sample_address_def)
  have c4: "last (replies (snd (createWallet_handler sample_lib sample_env ?m None ?w1))) =
     ''Ya tienes una wallet creada. Tu direcci'' @ [CHR 0xC3, CHR 0xB3] @ ''n es:'' @
     [CHR 0x0A, CHR 0x0A, CHR 0x60] @ ''0xf39Fd6e51aad88F6F4ce6aB8827279cffFb92266'' @
     [CHR 0x60, CHR 0x0A, CHR 0x0A] @ ''Tu wallet est'' @ [CHR 0xC3, CHR 0xA1] @
     '' segura y lista para usar.''"
    by (simp only: c1 snd_conv reply_def text_wallet_exists_def sample_address_def)
      (simp del: append_assoc)
  have sw: "cache sample_world (wallet_key ''user-1'') =
      Some (JStr (JSON_stringify sample_lib (wallet_object sample_wallet)))"
    by (simp add: sample_world_def empty_world_def wallet_key_def address_key_def)
      (simp add: sample_lib_def)
  have wr: "replies sample_world = []"
    by (simp add: sample_world_def empty_world_def)
  have c5: "snd (createWallet_handler sample_lib sample_env ?m None sample_world) =
     sample_world
       \<lparr>replies :=
          [''Ya tienes una wallet creada. Tu direcci'' @ [CHR 0xC3, CHR 0xB3] @ ''n es:'' @
           [CHR 0x0A, CHR 0x0A, CHR 0x60] @ ''0xf39Fd6e51aad88F6F4ce6aB8827279cffFb92266'' @
           [CHR 0x60, CHR 0x0A, CHR 0x0A] @ ''Tu wallet est'' @ [CHR 0xC3, CHR 0xA1] @
           '' segura y lista para usar.'']\<rparr>"
    using T [THEN conjunct2, THEN conjunct1, rule_format, of sample_wallet sample_world,
        THEN conjunct2, OF disjI1, OF conjI, OF rt sw]
    by (simp only: wr append_Nil sample_wallet_def wallet_data.simps sample_address_def)
  have f3: "cache_get_fault sample_env_cache_down (wallet_key ''user-1'') = Some cache_down"
    by (simp add: sample_env_cache_down_def)
  have run3: "createWallet_handler sample_lib sample_env_cache_down ?m None sample_world =
      (True, ?w3)"
    by (simp add: prod_eq_iff createWallet_handler_def sample_caller userHasWallet_def
        cacheManager_get_def sample_env_cache_down_def sample_env_def Let_def reply_def
        sample_lib_def saveUserWallet_def cacheManager_set_def fresh_id_def createMemory_def
        split_def second_key_def sample_key_def)
  have kd: "key_draws sample_world = 0"
    by (simp add: sample_world_def empty_world_def)
  have g3: "\<And>n. generatePrivateKey sample_env_cache_down n = second_key"
    "Date_now sample_env_cache_down = 1700000000000"
    by (simp_all add: sample_env_cache_down_def sample_env_def)
  have pk2: "privateKeyToAccount sample_lib second_key = Inr second_address"
    by (simp add: sample_lib_def second_key_def sample_key_def)
  have js2: "JSON_stringify sample_lib
      (wallet_object \<lparr>wd_address = second_address, wd_privateKey = second_key,
                       wd_createdAt = 1700000000000\<rparr>) = second_json"
    by (simp add: sample_lib_def second_wallet_def sample_wallet_def wallet_object_def
        second_key_def sample_key_def)
  from T [THEN conjunct2, THEN conjunct2, rule_format, OF conjI, OF f3 run3]
  have c6: "key_draws ?w3 = 1" and
    c7': "\<exists>a. privateKeyToAccount sample_lib second_key = Inr a \<and>
        cache ?w3 (wallet_key ''user-1'') =
          Some (JStr (JSON_stringify sample_lib
                  (wallet_object \<lparr>wd_address = a, wd_privateKey = second_key,
                                   wd_createdAt = 1700000000000\<rparr>)))"
    by (simp_all only: g3 kd One_nat_def)
  from c7' have c7: "cache ?w3 (wallet_key ''user-1'') = Some (JStr second_json)"
    by (auto simp only: pk2 js2 sum.inject)
  from c1 c2 c3 c4 c5 c6 c7 show ?thesis by (intro conjI)
qed


text \<open>
  The claim as stated fails when the read of an existing record throws: the user has a
  wallet record, the handler runs with a cache that cannot be read, and it draws a key,
  writes the record of a new wallet over the old one, persists a memory and reports the
  new address.
\<close>

theorem provisioning_idempotent_counterexample:
  "userHasWallet sample_env sample_world ''user-1'' \<and>
   cache sample_world (wallet_key ''user-1'') = Some (JStr sample_json) \<and>
   fst (createWallet_handler sample_lib sample_env_cache_down
          (sample_message ''crear wallet'') None sample_world) = True \<and>
   key_draws (snd (createWallet_handler sample_lib sample_env_cache_down
          (sample_message ''crear wallet'') None sample_world)) = Suc (key_draws sample_world) \<and>
   cache (snd (createWallet_handler sample_lib sample_env_cache_down
          (sample_message ''crear wallet'') None sample_world)) (wallet_key ''user-1'') =
     Some (JStr second_json) \<and>
   length (memories (snd (createWallet_handler sample_lib sample_env_cache_down
          (sample_message ''crear wallet'') None sample_world))) =
     Suc (length (memories sample_world)) \<and>
   last (replies (snd (createWallet_handler sample_lib sample_env_cache_down
          (sample_message ''crear wallet'') None sample_world))) =
     text_wallet_created second_address"
proof -
  have hw: "userHasWallet sample_env sample_world ''user-1''"
    by (simp add: sample_hasWallet sample_env_faults)
  have c: "cache sample_world (wallet_key ''user-1'') = Some (JStr sample_json)"
    by (simp add: sample_world_def empty_world_def wallet_key_def address_key_def)
  have js2: "JSON_stringify sample_lib
      (wallet_object \<lparr>wd_address = second_address, wd_privateKey = second_key,
                       wd_createdAt = 1700000000000\<rparr>) = second_json"
    by (simp add: sample_lib_def second_wallet_def sample_wallet_def wallet_object_def
        second_key_def sample_key_def)
  have pk2: "privateKeyToAccount sample_lib second_key = Inr second_address"
    by (simp add: sample_lib_def second_key_def sample_key_def)
  have nw: "\<not> userHasWallet sample_env_cache_down sample_world ''user-1''"
    by (simp add: userHasWallet_def cacheManager_get_def sample_env_cache_down_def)
  have e: "generatePrivateKey sample_env_cache_down = (\<lambda>k. second_key)"
    "Date_now sample_env_cache_down = 1700000000000"
    "cache_set_fault sample_env_cache_down = (\<lambda>k. None)"
    "createMemory_fault sample_env_cache_down = None"
    by (simp_all add: sample_env_cache_down_def sample_env_def)
  have r: "createWallet_handler sample_lib sample_env_cache_down
          (sample_message ''crear wallet'') None sample_world =
     (True,
      sample_world
        \<lparr>cache := (cache sample_world)
                  (wallet_key ''user-1'' \<mapsto> JStr second_json,
                   address_key second_address \<mapsto> JStr ''user-1''),
         key_draws := Suc (key_draws sample_world),
         rnd_draws := snd (generateId (Math_random sample_env_cache_down)
                             (rnd_draws sample_world)),
         memories := memories sample_world @
           [\<lparr>mr_id = fst (generateId (Math_random sample_env_cache_down)
                             (rnd_draws sample_world)),
             mr_userId = Some ''user-1'',
             mr_agentId = msg_agentId (sample_message ''crear wallet''),
             mr_roomId = msg_roomId (sample_message ''crear wallet''),
             mr_text = text_wallet_memory second_address,
             mr_action = ''CREATE_WALLET'',
             mr_payload = WalletCreated second_address 1700000000000\<rparr>],
         replies := replies sample_world @
           [text_wallet_creating, text_wallet_created second_address]\<rparr>)"
    by (simp add: createWallet_handler_def sample_caller nw e pk2 js2 Let_def reply_def
        saveUserWallet_def cacheManager_set_def fresh_id_def createMemory_def split_def)
  have k: "wallet_key ''user-1'' \<noteq> address_key second_address"
    by (rule key_prefixes)
  from hw c show ?thesis
    by (simp add: r k)
qed

section \<open>Transfers: the balance check\<close>

text \<open>
  C1. A native or a token transfer that reaches the balance check and reads a balance
  below the requested amount returns \<^verbatim>\<open>false\<close> after one reply, whose text states the
  balance held (as \<^verbatim>\<open>formatEther\<close> or \<^verbatim>\<open>formatUnits\<close> prints it) and the amount
  requested (as the message gave it); no transaction is submitted and no memory is
  persisted.
\<close>

theorem insufficient_balance_terminal:
  "(caller_id m st = Some u \<and> userHasWallet E w u \<and>
    initUserWalletProvider L E w u = Some p \<and> msg_text m = Some t \<and>
    truthy_str (extractEthereumWalletAddress t) = Some dest \<and>
    truthy_str (extractAmount t) = Some amountStr \<and>
    parseEther L amountStr = Inr requested \<and>
    getBalance E (wp_address p) = Inr held \<and> held < requested \<longrightarrow>
    transferMNT_handler L E m st w =
      (False, reply (text_mnt_insufficient (formatEther L held) amountStr) w) \<and>
    replies (snd (transferMNT_handler L E m st w)) =
      replies w @
        [''Balance insuficiente para realizar la transferencia. Tienes '' @
         formatEther L held @ '' MNT y est'' @ [CHR 0xC3, CHR 0xA1] @
         ''s intentando enviar '' @ amountStr @ '' MNT.''] \<and>
    broadcasts (snd (transferMNT_handler L E m st w)) = broadcasts w \<and>
    memories (snd (transferMNT_handler L E m st w)) = memories w) \<and>
   (caller_id m st = Some u \<and> userHasWallet E w u \<and>
    initUserWalletProvider L E w u = Some p \<and>
    truthy_str (extractEthereumWalletAddress (text_or_empty m)) = Some dest \<and>
    extractTokenTransferInfo (text_or_empty m) = Some info \<and>
    map_of TOKENS (symbol info) = Some (ERC20Token tsym tname decimals tokenAddress) \<and>
    parseUnits L (amount info) decimals = Inr requested \<and>
    read_balanceOf E tokenAddress (wp_address p) = Inr held \<and> held < requested \<longrightarrow>
    transferERC20_handler L E m st w =
      (False,
       reply (text_erc20_insufficient (formatUnits L held decimals) tsym (amount info)) w) \<and>
    replies (snd (transferERC20_handler L E m st w)) =
      replies w @
        [''Balance insuficiente para realizar la transferencia. Tienes '' @
         formatUnits L held decimals @ '' '' @ tsym @ '' y est'' @ [CHR 0xC3, CHR 0xA1] @
         ''s intentando enviar '' @ amount info @ '' '' @ tsym @ ''.''] \<and>
    broadcasts (snd (transferERC20_handler L E m st w)) = broadcasts w \<and>
    memories (snd (transferERC20_handler L E m st w)) = memories w)"
proof (intro conjI impI)
  assume h: "caller_id m st = Some u \<and> userHasWallet E w u \<and>
    initUserWalletProvider L E w u = Some p \<and> msg_text m = Some t \<and>
    truthy_str (extractEthereumWalletAddress t) = Some dest \<and>
    truthy_str (extractAmount t) = Some amountStr \<and>
    parseEther L amountStr = Inr requested \<and>
    getBalance E (wp_address p) = Inr held \<and> held < requested"
  then show r: "transferMNT_handler L E m st w =
      (False, reply (text_mnt_insufficient (formatEther L held) amountStr) w)"
    by (simp add: transferMNT_handler_def)
  show "replies (snd (transferMNT_handler L E m st w)) =
      replies w @
        [''Balance insuficiente para realizar la transferencia. Tienes '' @
         formatEther L held @ '' MNT y est'' @ [CHR 0xC3, CHR 0xA1] @
         ''s intentando enviar '' @ amountStr @ '' MNT.'']"
    by (simp only: r snd_conv reply_def text_mnt_insufficient_def) simp
  show "broadcasts (snd (transferMNT_handler L E m st w)) = broadcasts w"
    by (simp add: r reply_def)
  show "memories (snd (transferMNT_handler L E m st w)) = memories w"
    by (simp add: r reply_def)
next
  assume h: "caller_id m st = Some u \<and> userHasWallet E w u \<and>
    initUserWalletProvider L E w u = Some p \<and>
    truthy_str (extractEthereumWalletAddress (text_or_empty m)) = Some dest \<and>
    extractTokenTransferInfo (text_or_empty m) = Some info \<and>
    map_of TOKENS (symbol info) = Some (ERC20Token tsym tname decimals tokenAddress) \<and>
    parseUnits L (amount info) decimals = Inr requested \<and>
    read_balanceOf E tokenAddress (wp_address p) = Inr held \<and> held < requested"
  then show r: "transferERC20_handler L E m st w =
      (False,
       reply (text_erc20_insufficient (formatUnits L held decimals) tsym (amount info)) w)"
    by (simp add: transferERC20_handler_def erc20_shortfall_def)
  show "replies (snd (transferERC20_handler L E m st w)) =
      replies w @
        [''Balance insuficiente para realizar la transferencia. Tienes '' @
         formatUnits L held decimals @ '' '' @ tsym @ '' y est'' @ [CHR 0xC3, CHR 0xA1] @
         ''s intentando enviar '' @ amount info @ '' '' @ tsym @ ''.'']"
    by (simp only: r snd_conv reply_def text_erc20_insufficient_def) simp
  show "broadcasts (snd (transferERC20_handler L E m st w)) = broadcasts w"
    by (simp add: r reply_def)
  show "memories (snd (transferERC20_handler L E m st w)) = memories w"
    by (simp add: r reply_def)
qed

theorem insufficient_balance_terminal_witness:
  "fst (transferMNT_handler sample_lib sample_env
     (sample_message ''enviar 0.5 MNT a 0x1111111111111111111111111111111111111111'') None
     sample_world) = False \<and>
   replies (snd (transferMNT_handler sample_lib sample_env
     (sample_message ''enviar 0.5 MNT a 0x1111111111111111111111111111111111111111'') None
     sample_world)) =
     [''Balance insuficiente para realizar la transferencia. Tienes 0.1 MNT y est'' @
      [CHR 0xC3, CHR 0xA1] @ ''s intentando enviar 0.5 MNT.''] \<and>
   broadcasts (snd (transferMNT_handler sample_lib sample_env
     (sample_message ''enviar 0.5 MNT a 0x1111111111111111111111111111111111111111'') None
     sample_world)) = [] \<and>
   memories (snd (transferMNT_handler sample_lib sample_env
     (sample_message ''enviar 0.5 MNT a 0x1111111111111111111111111111111111111111'') None
     sample_world)) = [] \<and>
   fst (transferERC20_handler sample_lib sample_env
     (sample_message ''enviar 25 AISHOP a 0x1111111111111111111111111111111111111111'') None
     sample_world) = False \<and>
   replies (snd (transferERC20_handler sample_lib sample_env
     (sample_message ''enviar 25 AISHOP a 0x1111111111111111111111111111111111111111'') None
     sample_world)) =
     [''Balance insuficiente para realizar la transferencia. Tienes 7 AISHOP y est'' @
      [CHR 0xC3, CHR 0xA1] @ ''s intentando enviar 25 AISHOP.''] \<and>
   broadcasts (snd (transferERC20_handler sample_lib sample_env
     (sample_message ''enviar 25 AISHOP a 0x1111111111111111111111111111111111111111'') None
     sample_world)) = [] \<and>
   memories (snd (transferERC20_handler sample_lib sample_env
     (sample_message ''enviar 25 AISHOP a 0x1111111111111111111111111111111111111111'') None
     sample_world)) = []"
proof -
  let ?p = "\<lparr>wp_address = sample_address, wp_rpcUrl = default_rpc\<rparr>"
  let ?t1 = "''enviar 0.5 MNT a 0x1111111111111111111111111111111111111111''"
  let ?t2 = "''enviar 25 AISHOP a 0x1111111111111111111111111111111111111111''"
  let ?i = "\<lparr>amount = ''25'', symbol = ''AISHOP''\<rparr>"
  let ?H1 = "transferMNT_handler sample_lib sample_env (sample_message ?t1) None sample_world"
  let ?H2 = "transferERC20_handler sample_lib sample_env (sample_message ?t2) None sample_world"
  have hw: "userHasWallet sample_env sample_world ''user-1''"
    by (simp add: sample_hasWallet sample_env_faults)
  have pr: "initUserWalletProvider sample_lib sample_env sample_world ''user-1'' = Some ?p"
    by (rule sample_provider [OF sample_env_faults(1,2)])
  have gb: "getBalance sample_env (wp_address ?p) = Inr 100000000000000000"
    by (simp add: sample_env_def)
  have lt1: "(100000000000000000 :: int) < 500000000000000000" by simp
  have rb: "read_balanceOf sample_env aishop_address (wp_address ?p) = Inr 7000000000000000000"
    by (simp add: sample_env_def)
  have lt2: "(7000000000000000000 :: int) < 25000000000000000000" by simp
  have fm: "formatEther sample_lib 100000000000000000 = ''0.1''"
    "formatUnits sample_lib 7000000000000000000 18 = ''7''"
    by (simp_all add: formatEther_def sample_lib_def)
  have w0: "replies sample_world = []" "broadcasts sample_world = []"
    "memories sample_world = []"
    by (simp_all add: sample_world_def empty_world_def)
  note A = insufficient_balance_terminal
        [where m = "sample_message ?t1" and st = None and u = "''user-1''" and E = sample_env
          and w = sample_world and L = sample_lib and p = ?p and t = ?t1
          and dest = sample_recipient and amountStr = "''0.5''"
          and requested = 500000000000000000 and held = 100000000000000000,
          THEN conjunct1, THEN mp]
  have a: "?H1 = (False, reply (text_mnt_insufficient
                (formatEther sample_lib 100000000000000000) ''0.5'') sample_world) \<and>
    replies (snd ?H1) =
      replies sample_world @
        [''Balance insuficiente para realizar la transferencia. Tienes '' @
         formatEther sample_lib 100000000000000000 @ '' MNT y est'' @ [CHR 0xC3, CHR 0xA1] @
         ''s intentando enviar '' @ ''0.5'' @ '' MNT.''] \<and>
    broadcasts (snd ?H1) = broadcasts sample_world \<and>
    memories (snd ?H1) = memories sample_world"
    by (rule A) (intro conjI sample_caller hw pr sample_mnt_path sample_mnt_text gb lt1)
  note B = insufficient_balance_terminal
        [where m = "sample_message ?t2" and st = None and u = "''user-1''" and E = sample_env
          and w = sample_world and L = sample_lib and p = ?p and dest = sample_recipient
          and info = ?i and tsym = "''AISHOP''" and tname = "''AI Shop Agent''"
          and decimals = 18 and tokenAddress = aishop_address
          and requested = 25000000000000000000 and held = 7000000000000000000,
          THEN conjunct2, THEN mp]
  have b: "?H2 = (False, reply (text_erc20_insufficient
                (formatUnits sample_lib 7000000000000000000 18) ''AISHOP'' (amount ?i))
                sample_world) \<and>
    replies (snd ?H2) =
      replies sample_world @
        [''Balance insuficiente para realizar la transferencia. Tienes '' @
         formatUnits sample_lib 7000000000000000000 18 @ '' '' @ ''AISHOP'' @ '' y est'' @
         [CHR 0xC3, CHR 0xA1] @ ''s intentando enviar '' @ amount ?i @ '' '' @ ''AISHOP'' @
         ''.''] \<and>
    broadcasts (snd ?H2) = broadcasts sample_world \<and>
    memories (snd ?H2) = memories sample_world"
    by (rule B) (intro conjI sample_caller hw pr sample_erc20_path rb lt2)
  have a1: "fst ?H1 = False" by (simp only: a [THEN conjunct1] fst_conv)
  have a2: "replies (snd ?H1) =
     [''Balance insuficiente para realizar la transferencia. Tienes 0.1 MNT y est'' @
      [CHR 0xC3, CHR 0xA1] @ ''s intentando enviar 0.5 MNT.'']"
    using a [THEN conjunct2, THEN conjunct1] by (simp only: fm w0) simp
  have a3: "broadcasts (snd ?H1) = []"
    using a [THEN conjunct2, THEN conjunct2, THEN conjunct1] by (simp only: w0)
  have a4: "memories (snd ?H1) = []"
    using a [THEN conjunct2, THEN conjunct2, THEN conjunct2] by (simp only: w0)
  have b1: "fst ?H2 = False" by (simp only: b [THEN conjunct1] fst_conv)
  have b2: "replies (snd ?H2) =
     [''Balance insuficiente para realizar la transferencia. Tienes 7 AISHOP y est'' @
      [CHR 0xC3, CHR 0xA1] @ ''s intentando enviar 25 AISHOP.'']"
    using b [THEN conjunct2, THEN conjunct1] by (simp only: fm w0) simp
  have b3: "broadcasts (snd ?H2) = []"
    using b [THEN conjunct2, THEN conjunct2, THEN conjunct1] by (simp only: w0)
  have b4: "memories (snd ?H2) = []"
    using b [THEN conjunct2, THEN conjunct2, THEN conjunct2] by (simp only: w0)
  from a1 a2 a3 a4 b1 b2 b3 b4 show ?thesis by (intro conjI)
qed

lemma transferMNT_fetch_failure:
  assumes "caller_id m st = Some u" "userHasWallet E w u"
    "initUserWalletProvider L E w u = Some p" "msg_text m = Some t"
    "truthy_str (extractEthereumWalletAddress t) = Some dest"
    "truthy_str (extractAmount t) = Some amountStr"
    "parseEther L amountStr = Inr requested"
    "getBalance E (wp_address p) = Inl e"
  shows "transferMNT_handler L E m st w = (False, reply (text_mnt_error (error_message e)) w)"
  using assms by (simp add: transferMNT_handler_def transferMNT_catch_def)

lemma transferERC20_fetch_failure:
  assumes "caller_id m st = Some u" "userHasWallet E w u"
    "initUserWalletProvider L E w u = Some p"
    "truthy_str (extractEthereumWalletAddress (text_or_empty m)) = Some dest"
    "extractTokenTransferInfo (text_or_empty m) = Some info"
    "map_of TOKENS (symbol info) = Some (ERC20Token tsym tname decimals tokenAddress)"
    "parseUnits L (amount info) decimals = Inr requested"
    "read_balanceOf E tokenAddress (wp_address p) = Inl e"
    "writeContract E (TokenTransfer (wp_address p) tokenAddress dest requested) = Inr txHash"
  shows "broadcasts (snd (transferERC20_handler L E m st w)) =
           broadcasts w @ [(TokenTransfer (wp_address p) tokenAddress dest requested, txHash)]"
    and "take (Suc (length (replies w))) (replies (snd (transferERC20_handler L E m st w))) =
           replies w @ [text_erc20_processing (amount info) tsym (wp_address p) dest]"
  using assms
  by (auto simp add: transferERC20_handler_def erc20_shortfall_def Let_def reply_def
      transferERC20_catch_def fresh_id_def createMemory_def split_def
      split: sum.splits option.splits)

text \<open>
  C2, as amended. When the balance read of a native transfer throws, the flow ends with
  the error reply and submits nothing. When the balance read of a token transfer throws,
  the error is dropped and the flow goes on: it announces the transfer and submits it.
\<close>

theorem balance_fetch_failure:
  "(caller_id m st = Some u \<and> userHasWallet E w u \<and>
    initUserWalletProvider L E w u = Some p \<and> msg_text m = Some t \<and>
    truthy_str (extractEthereumWalletAddress t) = Some dest \<and>
    truthy_str (extractAmount t) = Some amountStr \<and>
    parseEther L amountStr = Inr requested \<and>
    getBalance E (wp_address p) = Inl e \<longrightarrow>
    transferMNT_handler L E m st w = (False, reply (text_mnt_error (error_message e)) w) \<and>
    broadcasts (snd (transferMNT_handler L E m st w)) = broadcasts w \<and>
    memories (snd (transferMNT_handler L E m st w)) = memories w) \<and>
   (caller_id m st = Some u \<and> userHasWallet E w u \<and>
    initUserWalletProvider L E w u = Some p \<and>
    truthy_str (extractEthereumWalletAddress (text_or_empty m)) = Some dest \<and>
    extractTokenTransferInfo (text_or_empty m) = Some info \<and>
    map_of TOKENS (symbol info) = Some (ERC20Token tsym tname decimals tokenAddress) \<and>
    parseUnits L (amount info) decimals = Inr requested \<and>
    read_balanceOf E tokenAddress (wp_address p) = Inl e \<and>
    writeContract E (TokenTransfer (wp_address p) tokenAddress dest requested) = Inr txHash \<longrightarrow>
    broadcasts (snd (transferERC20_handler L E m st w)) =
      broadcasts w @ [(TokenTransfer (wp_address p) tokenAddress dest requested, txHash)] \<and>
    take (Suc (length (replies w))) (replies (snd (transferERC20_handler L E m st w))) =
      replies w @ [text_erc20_processing (amount info) tsym (wp_address p) dest])"
proof (intro conjI impI)
  assume h: "caller_id m st = Some u \<and> userHasWallet E w u \<and>
    initUserWalletProvider L E w u = Some p \<and> msg_text m = Some t \<and>
    truthy_str (extractEthereumWalletAddress t) = Some dest \<and>
    truthy_str (extractAmount t) = Some amountStr \<and>
    parseEther L amountStr = Inr requested \<and>
    getBalance E (wp_address p) = Inl e"
  then show r: "transferMNT_handler L E m st w =
      (False, reply (text_mnt_error (error_message e)) w)"
    using transferMNT_fetch_failure by blast
  show "broadcasts (snd (transferMNT_handler L E m st w)) = broadcasts w"
    by (simp add: r reply_def)
  show "memories (snd (transferMNT_handler L E m st w)) = memories w"
    by (simp add: r reply_def)
next
  assume h: "caller_id m st = Some u \<and> userHasWallet E w u \<and>
    initUserWalletProvider L E w u = Some p \<and>
    truthy_str (extractEthereumWalletAddress (text_or_empty m)) = Some dest \<and>
    extractTokenTransferInfo (text_or_empty m) = Some info \<and>
    map_of TOKENS (symbol info) = Some (ERC20Token tsym tname decimals tokenAddress) \<and>
    parseUnits L (amount info) decimals = Inr requested \<and>
    read_balanceOf E tokenAddress (wp_address p) = Inl e \<and>
    writeContract E (TokenTransfer (wp_address p) tokenAddress dest requested) = Inr txHash"
  then show "broadcasts (snd (transferERC20_handler L E m st w)) =
      broadcasts w @ [(TokenTransfer (wp_address p) tokenAddress dest requested, txHash)]"
    using transferERC20_fetch_failure(1) by blast
  from h show "take (Suc (length (replies w))) (replies (snd (transferERC20_handler L E m st w))) =
      replies w @ [text_erc20_processing (amount info) tsym (wp_address p) dest]"
    using transferERC20_fetch_failure(2) by blast
qed


theorem balance_fetch_failure_witness:
  "transferMNT_handler sample_lib sample_env_native_down
     (sample_message ''enviar 0.5 MNT a 0x1111111111111111111111111111111111111111'') None
     sample_world =
     (False, reply (text_mnt_error ''HTTP request failed.'') sample_world) \<and>
   broadcasts (snd (transferERC20_handler sample_lib sample_env_token_down
     (sample_message ''enviar 25 AISHOP a 0x1111111111111111111111111111111111111111'') None
     sample_world)) =
     [(TokenTransfer sample_address aishop_address sample_recipient 25000000000000000000,
       sample_hash)]"
proof -
  let ?t1 = "''enviar 0.5 MNT a 0x1111111111111111111111111111111111111111''"
  let ?t2 = "''enviar 25 AISHOP a 0x1111111111111111111111111111111111111111''"
  let ?i = "\<lparr>amount = ''25'', symbol = ''AISHOP''\<rparr>"
  let ?p = "\<lparr>wp_address = sample_address, wp_rpcUrl = default_rpc\<rparr>"
  let ?tx = "TokenTransfer (wp_address ?p) aishop_address sample_recipient 25000000000000000000"
  have hw1: "userHasWallet sample_env_native_down sample_world ''user-1''"
    and hw2: "userHasWallet sample_env_token_down sample_world ''user-1''"
    by (simp_all add: sample_hasWallet sample_env_faults)
  have pr1: "initUserWalletProvider sample_lib sample_env_native_down sample_world ''user-1'' =
      Some ?p"
    and pr2: "initUserWalletProvider sample_lib sample_env_token_down sample_world ''user-1'' =
      Some ?p"
    by (rule sample_provider [OF sample_env_faults(5,6)])
      (rule sample_provider [OF sample_env_faults(3,4)])
  have gb: "getBalance sample_env_native_down (wp_address ?p) = Inl rpc_down"
    by (simp add: sample_env_native_down_def)
  have rb: "read_balanceOf sample_env_token_down aishop_address (wp_address ?p) = Inl rpc_down"
    by (simp add: sample_env_token_down_def)
  have wc: "writeContract sample_env_token_down ?tx = Inr sample_hash"
    by (simp add: sample_env_token_down_def sample_env_def)
  have a: "transferMNT_handler sample_lib sample_env_native_down (sample_message ?t1) None
             sample_world =
     (False, reply (text_mnt_error (error_message rpc_down)) sample_world)"
    by (rule balance_fetch_failure
        [where m = "sample_message ?t1" and st = None and u = "''user-1''"
          and E = sample_env_native_down and w = sample_world and L = sample_lib and p = ?p
          and t = ?t1 and dest = sample_recipient and amountStr = "''0.5''"
          and requested = 500000000000000000 and e = rpc_down,
          THEN conjunct1, THEN mp, THEN conjunct1])
      (intro conjI sample_caller hw1 pr1 sample_mnt_path sample_mnt_text gb)
  have b: "broadcasts (snd (transferERC20_handler sample_lib sample_env_token_down
             (sample_message ?t2) None sample_world)) =
           broadcasts sample_world @ [(?tx, sample_hash)]"
    by (rule balance_fetch_failure
        [where m = "sample_message ?t2" and st = None and u = "''user-1''"
          and E = sample_env_token_down and w = sample_world and L = sample_lib and p = ?p
          and dest = sample_recipient and info = ?i and tsym = "''AISHOP''"
          and tname = "''AI Shop Agent''" and decimals = 18 and tokenAddress = aishop_address
          and requested = 25000000000000000000 and e = rpc_down and txHash = sample_hash,
          THEN conjunct2, THEN mp, THEN conjunct1])
      (intro conjI sample_caller hw2 pr2 sample_erc20_path rb wc)
  have bw: "broadcasts sample_world = []"
    by (simp add: sample_world_def empty_world_def)
  have er: "error_message rpc_down = ''HTTP request failed.''"
    by (simp add: error_message_def rpc_down_def)
  from a b show ?thesis by (simp only: bw er) simp
qed

text \<open>
  The claim as stated fails for the token transfer: with the balance read failing, the
  flow completes and the transfer is submitted.
\<close>

theorem balance_fetch_failure_counterexample:
  "read_balanceOf sample_env_token_down aishop_address sample_address = Inl rpc_down \<and>
   fst (transferERC20_handler sample_lib sample_env_token_down
     (sample_message ''enviar 25 AISHOP a 0x1111111111111111111111111111111111111111'') None
     sample_world) = True \<and>
   broadcasts (snd (transferERC20_handler sample_lib sample_env_token_down
     (sample_message ''enviar 25 AISHOP a 0x1111111111111111111111111111111111111111'') None
     sample_world)) =
     [(TokenTransfer sample_address aishop_address sample_recipient 25000000000000000000,
       sample_hash)]"
proof -
  let ?t2 = "''enviar 25 AISHOP a 0x1111111111111111111111111111111111111111''"
  let ?p = "\<lparr>wp_address = sample_address, wp_rpcUrl = default_rpc\<rparr>"
  have hw2: "userHasWallet sample_env_token_down sample_world ''user-1''"
    by (simp add: sample_hasWallet sample_env_faults)
  have pr2: "initUserWalletProvider sample_lib sample_env_token_down sample_world ''user-1'' =
      Some ?p"
    by (rule sample_provider [OF sample_env_faults(3,4)])
  have env: "read_balanceOf sample_env_token_down = (\<lambda>t a. Inl rpc_down)"
    "writeContract sample_env_token_down = (\<lambda>tx. Inr sample_hash)"
    "waitForTransactionReceipt sample_env_token_down =
       (\<lambda>h. Inr \<lparr>rc_status = ''success'', rc_blockNumber = 1\<rparr>)"
    "createMemory_fault sample_env_token_down = None"
    by (simp_all add: sample_env_token_down_def sample_env_def)
  have bw: "broadcasts sample_world = []"
    by (simp add: sample_world_def empty_world_def)
  have tk: "map_of TOKENS ''AISHOP'' =
      Some (ERC20Token ''AISHOP'' ''AI Shop Agent'' 18 aishop_address)"
    by (simp add: TOKENS_def TOKENS_AISHOP_def aishop_address_def)
  have pu: "parseUnits sample_lib ''25'' 18 = Inr 25000000000000000000"
    by (simp add: sample_lib_def)
  show ?thesis
    by (simp add: transferERC20_handler_def sample_caller hw2 pr2 sample_erc20_path tk pu
        erc20_shortfall_def env Let_def reply_def fresh_id_def createMemory_def split_def bw)
qed

section \<open>Balance reports\<close>

lemma checkBalance_finish_ok:
  "createMemory_fault E = None \<Longrightarrow>
   fst (checkBalance_finish E m txt bs a w) \<and>
   replies (snd (checkBalance_finish E m txt bs a w)) = replies w @ [txt] \<and>
   map mr_text (memories (snd (checkBalance_finish E m txt bs a w))) =
     map mr_text (memories w) @ [txt]"
  by (simp add: checkBalance_finish_def fresh_id_def createMemory_def split_def reply_def Let_def)

lemma checkBalance_own_token_failure:
  assumes "userHasWallet E w u" "initUserWalletProvider L E w u = Some p"
    "provider_getBalance L E p = Inr mnt"
    "provider_getTokenBalance L E p aishop_address = Inl e"
  shows "checkBalance_own L E m u w =
           checkBalance_finish E m (text_balance_own (wp_address p) mnt text_balance_token_error)
             [(''MNT'', mnt), (''AISHOP'', text_balance_token_error)] (wp_address p) w"
  using assms
  by (simp add: checkBalance_own_def TOKENS_AISHOP_def aishop_address_def balance_entry_def
      Let_def)

lemma checkBalance_own_native_failure:
  assumes "userHasWallet E w u" "initUserWalletProvider L E w u = Some p"
    "provider_getBalance L E p = Inl e"
  shows "checkBalance_own L E m u w = (False, reply (text_balance_error (error_message e)) w)"
  using assms by (simp add: checkBalance_own_def checkBalance_catch_def Let_def)

lemma checkBalance_address_token_failure:
  assumes "initWalletProvider L E = Some q" "getBalance E a = Inr b"
    "read_balanceOf E aishop_address a = Inl e"
  shows "checkBalance_of_address L E m a w =
           checkBalance_finish E m
             (text_balance_of_address a (formatEther L b) text_balance_token_error)
             [(''MNT'', formatEther L b), (''AISHOP'', text_balance_token_error)] a w"
  using assms
  by (simp add: checkBalance_of_address_def TOKENS_AISHOP_def aishop_address_def
      balance_entry_def Let_def)

lemma checkBalance_address_native_failure:
  assumes "initWalletProvider L E = Some q" "getBalance E a = Inl e"
  shows "checkBalance_of_address L E m a w =
           (False, reply (text_balance_error (error_message e)) w)"
  using assms by (simp add: checkBalance_of_address_def checkBalance_catch_def Let_def)

lemma checkBalance_handler_own:
  "caller_id m st = Some u \<Longrightarrow> truthy_str (extractEthereumWalletAddress (text_or_empty m)) = None \<Longrightarrow>
   checkBalance_handler L E m st w = checkBalance_own L E m u w"
  by (simp add: checkBalance_handler_def)

lemma checkBalance_handler_address:
  "caller_id m st = Some u \<Longrightarrow> truthy_str (extractEthereumWalletAddress (text_or_empty m)) = Some a \<Longrightarrow>
   checkBalance_handler L E m st w = checkBalance_of_address L E m a w"
  by (simp add: checkBalance_handler_def)

lemma provider_own_token_failure:
  assumes "caller_id m st = Some u" "msg_text m = None \<or> (\<exists>t. msg_text m = Some t \<and> rx_exec addressMatchRegex t = None)"
    "userHasWallet E w u" "initUserWalletProvider L E w u = Some p"
    "provider_getBalance L E p = Inr mnt"
    "provider_getTokenBalance L E p aishop_address = Inl e"
  shows "walletProvider_get L E m st w =
           text_provider_own (wp_address p) mnt text_provider_token_error"
  using assms
  by (auto simp add: walletProvider_get_def provider_token_line_def TOKENS_AISHOP_def
      aishop_address_def Let_def)

lemma provider_own_native_failure:
  assumes "caller_id m st = Some u" "msg_text m = None \<or> (\<exists>t. msg_text m = Some t \<and> rx_exec addressMatchRegex t = None)"
    "userHasWallet E w u" "initUserWalletProvider L E w u = Some p"
    "provider_getBalance L E p = Inl e"
  shows "walletProvider_get L E m st w = text_provider_own_error (error_message e)"
  using assms by (auto simp add: walletProvider_get_def Let_def)


text \<open>
  C6. In the balance action, for the caller's own wallet and for an address named in the
  message, and in the provider's report for the caller's wallet: when the AISHOP balance
  cannot be fetched, the report is still produced, with the error marker in place of the
  AISHOP figure; when the native balance cannot be fetched, the flow ends with the
  failure reply.
\<close>

theorem balance_failure_asymmetry:
  "(caller_id m st = Some u \<and>
    truthy_str (extractEthereumWalletAddress (text_or_empty m)) = None \<and>
    userHasWallet E w u \<and> initUserWalletProvider L E w u = Some p \<and>
    provider_getBalance L E p = Inr mnt \<and>
    provider_getTokenBalance L E p aishop_address = Inl e \<and>
    createMemory_fault E = None \<longrightarrow>
    fst (checkBalance_handler L E m st w) \<and>
    replies (snd (checkBalance_handler L E m st w)) =
      replies w @ [text_balance_own (wp_address p) mnt text_balance_token_error]) \<and>
   (caller_id m st = Some u \<and>
    truthy_str (extractEthereumWalletAddress (text_or_empty m)) = None \<and>
    userHasWallet E w u \<and> initUserWalletProvider L E w u = Some p \<and>
    provider_getBalance L E p = Inl e \<longrightarrow>
    checkBalance_handler L E m st w =
      (False, reply (text_balance_error (error_message e)) w)) \<and>
   (caller_id m st = Some u \<and>
    truthy_str (extractEthereumWalletAddress (text_or_empty m)) = Some a \<and>
    initWalletProvider L E = Some q \<and> getBalance E a = Inr b \<and>
    read_balanceOf E aishop_address a = Inl e \<and> createMemory_fault E = None \<longrightarrow>
    fst (checkBalance_handler L E m st w) \<and>
    replies (snd (checkBalance_handler L E m st w)) =
      replies w @ [text_balance_of_address a (formatEther L b) text_balance_token_error]) \<and>
   (caller_id m st = Some u \<and>
    truthy_str (extractEthereumWalletAddress (text_or_empty m)) = Some a \<and>
    initWalletProvider L E = Some q \<and> getBalance E a = Inl e \<longrightarrow>
    checkBalance_handler L E m st w =
      (False, reply (text_balance_error (error_message e)) w)) \<and>
   (caller_id m st = Some u \<and>
    (msg_text m = None \<or> (\<exists>t. msg_text m = Some t \<and> rx_exec addressMatchRegex t = None)) \<and>
    userHasWallet E w u \<and> initUserWalletProvider L E w u = Some p \<and>
    provider_getBalance L E p = Inr mnt \<and>
    provider_getTokenBalance L E p aishop_address = Inl e \<longrightarrow>
    walletProvider_get L E m st w =
      text_provider_own (wp_address p) mnt text_provider_token_error) \<and>
   (caller_id m st = Some u \<and>
    (msg_text m = None \<or> (\<exists>t. msg_text m = Some t \<and> rx_exec addressMatchRegex t = None)) \<and>
    userHasWallet E w u \<and> initUserWalletProvider L E w u = Some p \<and>
    provider_getBalance L E p = Inl e \<longrightarrow>
    walletProvider_get L E m st w = text_provider_own_error (error_message e))"
proof (intro conjI impI)
  assume h: "caller_id m st = Some u \<and>
    truthy_str (extractEthereumWalletAddress (text_or_empty m)) = None \<and>
    userHasWallet E w u \<and> initUserWalletProvider L E w u = Some p \<and>
    provider_getBalance L E p = Inr mnt \<and>
    provider_getTokenBalance L E p aishop_address = Inl e \<and>
    createMemory_fault E = None"
  then have eq: "checkBalance_handler L E m st w =
      checkBalance_finish E m (text_balance_own (wp_address p) mnt text_balance_token_error)
        [(''MNT'', mnt), (''AISHOP'', text_balance_token_error)] (wp_address p) w"
    by (simp add: checkBalance_handler_own checkBalance_own_token_failure)
  from h have f: "createMemory_fault E = None" by simp
  show "fst (checkBalance_handler L E m st w)"
    using checkBalance_finish_ok [OF f] by (simp add: eq)
  show "replies (snd (checkBalance_handler L E m st w)) =
      replies w @ [text_balance_own (wp_address p) mnt text_balance_token_error]"
    using checkBalance_finish_ok [OF f] by (simp add: eq)
next
  assume "caller_id m st = Some u \<and>
    truthy_str (extractEthereumWalletAddress (text_or_empty m)) = None \<and>
    userHasWallet E w u \<and> initUserWalletProvider L E w u = Some p \<and>
    provider_getBalance L E p = Inl e"
  then show "checkBalance_handler L E m st w =
      (False, reply (text_balance_error (error_message e)) w)"
    by (simp add: checkBalance_handler_own checkBalance_own_native_failure)
next
  assume h: "caller_id m st = Some u \<and>
    truthy_str (extractEthereumWalletAddress (text_or_empty m)) = Some a \<and>
    initWalletProvider L E = Some q \<and> getBalance E a = Inr b \<and>
    read_balanceOf E aishop_address a = Inl e \<and> createMemory_fault E = None"
  then have eq: "checkBalance_handler L E m st w =
      checkBalance_finish E m
        (text_balance_of_address a (formatEther L b) text_balance_token_error)
        [(''MNT'', formatEther L b), (''AISHOP'', text_balance_token_error)] a w"
    by (simp add: checkBalance_handler_address checkBalance_address_token_failure)
  from h have f: "createMemory_fault E = None" by simp
  show "fst (checkBalance_handler L E m st w)"
    using checkBalance_finish_ok [OF f] by (simp add: eq)
  show "replies (snd (checkBalance_handler L E m st w)) =
      replies w @ [text_balance_of_address a (formatEther L b) text_balance_token_error]"
    using checkBalance_finish_ok [OF f] by (simp add: eq)
next
  assume "caller_id m st = Some u \<and>
    truthy_str (extractEthereumWalletAddress (text_or_empty m)) = Some a \<and>
    initWalletProvider L E = Some q \<and> getBalance E a = Inl e"
  then show "checkBalance_handler L E m st w =
      (False, reply (text_balance_error (error_message e)) w)"
    by (simp add: checkBalance_handler_address checkBalance_address_native_failure)
next
  assume "caller_id m st = Some u \<and>
    (msg_text m = None \<or> (\<exists>t. msg_text m = Some t \<and> rx_exec addressMatchRegex t = None)) \<and>
    userHasWallet E w u \<and> initUserWalletProvider L E w u = Some p \<and>
    provider_getBalance L E p = Inr mnt \<and>
    provider_getTokenBalance L E p aishop_address = Inl e"
  then show "walletProvider_get L E m st w =
      text_provider_own (wp_address p) mnt text_provider_token_error"
    using provider_own_token_failure by blast
next
  assume "caller_id m st = Some u \<and>
    (msg_text m = None \<or> (\<exists>t. msg_text m = Some t \<and> rx_exec addressMatchRegex t = None)) \<and>
    userHasWallet E w u \<and> initUserWalletProvider L E w u = Some p \<and>
    provider_getBalance L E p = Inl e"
  then show "walletProvider_get L E m st w = text_provider_own_error (error_message e)"
    using provider_own_native_failure by blast
qed

lemma sample_balance_text:
  "truthy_str (extractEthereumWalletAddress (text_or_empty (sample_message ''ver mi balance''))) =
     None"
  "truthy_str (extractEthereumWalletAddress (text_or_empty
     (sample_message ''balance de 0x1111111111111111111111111111111111111111''))) =
     Some sample_recipient"
  "msg_text (sample_message ''ver mi balance'') = None \<or>
   (\<exists>t. msg_text (sample_message ''ver mi balance'') = Some t \<and>
        rx_exec addressMatchRegex t = None)"
proof -
  have t1: "text_or_empty (sample_message ''ver mi balance'') = ''ver mi balance''"
    and t2: "text_or_empty
        (sample_message ''balance de 0x1111111111111111111111111111111111111111'') =
        ''balance de 0x1111111111111111111111111111111111111111''"
    and t3: "msg_text (sample_message ''ver mi balance'') = Some ''ver mi balance''"
    by (simp_all add: sample_message_def text_or_empty_def)
  have a: "truthy_str (extractEthereumWalletAddress ''ver mi balance'') = None"
    and b: "truthy_str (extractEthereumWalletAddress
              ''balance de 0x1111111111111111111111111111111111111111'') =
              Some sample_recipient"
    and c: "rx_exec addressMatchRegex ''ver mi balance'' = None"
    by code_simp+
  show "truthy_str (extractEthereumWalletAddress
          (text_or_empty (sample_message ''ver mi balance''))) = None"
    by (simp only: t1 a)
  show "truthy_str (extractEthereumWalletAddress (text_or_empty
     (sample_message ''balance de 0x1111111111111111111111111111111111111111''))) =
     Some sample_recipient"
    by (simp only: t2 b)
  show "msg_text (sample_message ''ver mi balance'') = None \<or>
   (\<exists>t. msg_text (sample_message ''ver mi balance'') = Some t \<and>
        rx_exec addressMatchRegex t = None)"
    using t3 c by blast
qed

lemma sample_initWalletProvider:
  "getSetting E ''EVM_PRIVATE_KEY'' = Some sample_key \<Longrightarrow> getSetting E ''EVM_RPC_URL'' = None \<Longrightarrow>
   initWalletProvider sample_lib E = Some \<lparr>wp_address = sample_address, wp_rpcUrl = default_rpc\<rparr>"
  by (simp add: initWalletProvider_def new_WalletProvider_def normalize_key_def rpc_setting_def
      truthy_str_def js_or_def)
    (simp add: sample_lib_def sample_key_def)

lemma sample_env_settings:
  "getSetting sample_env ''EVM_PRIVATE_KEY'' = Some sample_key"
  "getSetting sample_env_token_down ''EVM_PRIVATE_KEY'' = Some sample_key"
  "getSetting sample_env_native_down ''EVM_PRIVATE_KEY'' = Some sample_key"
  "createMemory_fault sample_env = None"
  "createMemory_fault sample_env_token_down = None"
  by (simp_all add: sample_env_def sample_env_token_down_def sample_env_native_down_def)

lemma sample_reads:
  "provider_getBalance sample_lib sample_env_token_down
     \<lparr>wp_address = sample_address, wp_rpcUrl = default_rpc\<rparr> = Inr ''0.1''"
  "provider_getTokenBalance sample_lib sample_env_token_down
     \<lparr>wp_address = sample_address, wp_rpcUrl = default_rpc\<rparr> aishop_address = Inl rpc_down"
  "provider_getBalance sample_lib sample_env_native_down
     \<lparr>wp_address = sample_address, wp_rpcUrl = default_rpc\<rparr> = Inl rpc_down"
  "getBalance sample_env_token_down sample_recipient = Inr 100000000000000000"
  "read_balanceOf sample_env_token_down aishop_address sample_recipient = Inl rpc_down"
  "getBalance sample_env_native_down sample_recipient = Inl rpc_down"
  by (simp_all add: provider_getBalance_def provider_getTokenBalance_def
      sample_env_token_down_def sample_env_native_down_def sample_env_def formatEther_def
      sample_lib_def)

theorem balance_failure_asymmetry_witness:
  "replies (snd (checkBalance_handler sample_lib sample_env_token_down
      (sample_message ''ver mi balance'') None sample_world)) =
     [text_balance_own sample_address ''0.1'' ''Error al obtener balance''] \<and>
   checkBalance_handler sample_lib sample_env_native_down
      (sample_message ''ver mi balance'') None sample_world =
     (False, reply (text_balance_error ''HTTP request failed.'') sample_world) \<and>
   replies (snd (checkBalance_handler sample_lib sample_env_token_down
      (sample_message ''balance de 0x1111111111111111111111111111111111111111'') None
      sample_world)) =
     [text_balance_of_address sample_recipient ''0.1'' ''Error al obtener balance''] \<and>
   checkBalance_handler sample_lib sample_env_native_down
      (sample_message ''balance de 0x1111111111111111111111111111111111111111'') None
      sample_world =
     (False, reply (text_balance_error ''HTTP request failed.'') sample_world) \<and>
   walletProvider_get sample_lib sample_env_token_down (sample_message ''ver mi balance'') None
      sample_world =
     text_provider_own sample_address ''0.1'' ''Error al consultar'' \<and>
   walletProvider_get sample_lib sample_env_native_down (sample_message ''ver mi balance'') None
      sample_world =
     text_provider_own_error ''HTTP request failed.''"
proof -
  let ?m1 = "sample_message ''ver mi balance''"
  let ?m2 = "sample_message ''balance de 0x1111111111111111111111111111111111111111''"
  let ?p = "\<lparr>wp_address = sample_address, wp_rpcUrl = default_rpc\<rparr>"
  note T = balance_failure_asymmetry
    [where st = None and u = "''user-1''" and w = sample_world and L = sample_lib and p = ?p
      and q = ?p and a = sample_recipient and e = rpc_down and mnt = "''0.1''"
      and b = 100000000000000000]
  have hwT: "userHasWallet sample_env_token_down sample_world ''user-1''"
    and hwN: "userHasWallet sample_env_native_down sample_world ''user-1''"
    by (simp_all add: sample_hasWallet sample_env_faults)
  have prT: "initUserWalletProvider sample_lib sample_env_token_down sample_world ''user-1'' =
      Some ?p"
    and prN: "initUserWalletProvider sample_lib sample_env_native_down sample_world ''user-1'' =
      Some ?p"
    by (rule sample_provider [OF sample_env_faults(3,4)])
      (rule sample_provider [OF sample_env_faults(5,6)])
  have iwT: "initWalletProvider sample_lib sample_env_token_down = Some ?p"
    and iwN: "initWalletProvider sample_lib sample_env_native_down = Some ?p"
    by (rule sample_initWalletProvider [OF sample_env_settings(2) sample_env_faults(4)])
      (rule sample_initWalletProvider [OF sample_env_settings(3) sample_env_faults(6)])
  have c1: "replies (snd (checkBalance_handler sample_lib sample_env_token_down ?m1 None
                sample_world)) =
      replies sample_world @ [text_balance_own (wp_address ?p) ''0.1'' text_balance_token_error]"
    by (rule T [where m = ?m1 and E = sample_env_token_down,
          THEN conjunct1, THEN mp, THEN conjunct2])
      (intro conjI sample_caller sample_balance_text hwT prT sample_reads sample_env_settings)
  have c2: "checkBalance_handler sample_lib sample_env_native_down ?m1 None sample_world =
      (False, reply (text_balance_error (error_message rpc_down)) sample_world)"
    by (rule T [where m = ?m1 and E = sample_env_native_down,
          THEN conjunct2, THEN conjunct1, THEN mp])
      (intro conjI sample_caller sample_balance_text hwN prN sample_reads)
  have c3: "replies (snd (checkBalance_handler sample_lib sample_env_token_down ?m2 None
                sample_world)) =
      replies sample_world @
      [text_balance_of_address sample_recipient (formatEther sample_lib 100000000000000000)
         text_balance_token_error]"
    by (rule T [where m = ?m2 and E = sample_env_token_down,
          THEN conjunct2, THEN conjunct2, THEN conjunct1, THEN mp, THEN conjunct2])
      (intro conjI sample_caller sample_balance_text iwT sample_reads sample_env_settings)
  have c4: "checkBalance_handler sample_lib sample_env_native_down ?m2 None sample_world =
      (False, reply (text_balance_error (error_message rpc_down)) sample_world)"
    by (rule T [where m = ?m2 and E = sample_env_native_down,
          THEN conjunct2, THEN conjunct2, THEN conjunct2, THEN conjunct1, THEN mp])
      (intro conjI sample_caller sample_balance_text iwN sample_reads)
  have c5: "walletProvider_get sample_lib sample_env_token_down ?m1 None sample_world =
      text_provider_own (wp_address ?p) ''0.1'' text_provider_token_error"
    by (rule T [where m = ?m1 and E = sample_env_token_down,
          THEN conjunct2, THEN conjunct2, THEN conjunct2, THEN conjunct2, THEN conjunct1,
          THEN mp])
      (intro conjI sample_caller sample_balance_text hwT prT sample_reads)
  have c6: "walletProvider_get sample_lib sample_env_native_down ?m1 None sample_world =
      text_provider_own_error (error_message rpc_down)"
    by (rule T [where m = ?m1 and E = sample_env_native_down,
          THEN conjunct2, THEN conjunct2, THEN conjunct2, THEN conjunct2, THEN conjunct2,
          THEN mp])
      (intro conjI sample_caller sample_balance_text hwN prN sample_reads)
  have v: "replies sample_world = []" "error_message rpc_down = ''HTTP request failed.''"
    "formatEther sample_lib 100000000000000000 = ''0.1''"
    "text_balance_token_error = ''Error al obtener balance''"
    "text_provider_token_error = ''Error al consultar''"
    "wp_address ?p = sample_address"
    by (simp_all add: sample_world_def empty_world_def error_message_def rpc_down_def
        formatEther_def sample_lib_def text_balance_token_error_def
        text_provider_token_error_def)
  from c1 c2 c3 c4 c5 c6 show ?thesis by (simp only: v append_Nil)
qed

lemma registry_lines_two:
  "registry_lines fmt [mnt, tok] = [fmt ''MNT'' mnt, fmt ''AISHOP'' tok]"
  by (simp add: registry_lines_def getERC20Tokens_def TOKENS_def TOKENS_MNT_def
      TOKENS_AISHOP_def)

lemma checkBalance_finish_True:
  "checkBalance_finish E m txt bs a w = (True, w') \<Longrightarrow> last (replies w') = txt"
  by (auto simp add: checkBalance_finish_def fresh_id_def createMemory_def split_def reply_def
      Let_def checkBalance_catch_def split: option.splits)

lemma checkBalance_own_True:
  assumes "checkBalance_own L E m u w = (True, w')"
  shows "\<exists>a mnt tok. last (replies w') = text_balance_own a mnt tok"
proof -
  from assms have hw: "userHasWallet E w u"
    by (auto simp add: checkBalance_own_def split: if_splits)
  from assms hw obtain p where p: "initUserWalletProvider L E w u = Some p"
    by (cases "initUserWalletProvider L E w u") (auto simp add: checkBalance_own_def)
  from assms hw p obtain mnt where mnt: "provider_getBalance L E p = Inr mnt"
    by (cases "provider_getBalance L E p")
      (auto simp add: checkBalance_own_def Let_def checkBalance_catch_def)
  show ?thesis
  proof (cases "provider_getTokenBalance L E p ''0x0E02649Db4d1Aa8c202aA44EA99e3606d12a21b1''")
    case (Inl e)
    with assms hw p mnt have "checkBalance_finish E m
        (text_balance_own (wp_address p) mnt text_balance_token_error)
        [(''MNT'', mnt), (''AISHOP'', text_balance_token_error)] (wp_address p) w = (True, w')"
      by (simp add: checkBalance_own_def Let_def TOKENS_AISHOP_def balance_entry_def)
    from checkBalance_finish_True [OF this] show ?thesis by blast
  next
    case (Inr tok)
    with assms hw p mnt have "checkBalance_finish E m
        (text_balance_own (wp_address p) mnt tok)
        [(''MNT'', mnt), (''AISHOP'', tok)] (wp_address p) w = (True, w')"
      by (simp add: checkBalance_own_def Let_def TOKENS_AISHOP_def balance_entry_def)
    from checkBalance_finish_True [OF this] show ?thesis by blast
  qed
qed

lemma checkBalance_of_address_True:
  assumes "checkBalance_of_address L E m a w = (True, w')"
  shows "\<exists>mnt tok. last (replies w') = text_balance_of_address a mnt tok"
proof -
  from assms obtain q where q: "initWalletProvider L E = Some q"
    by (cases "initWalletProvider L E") (auto simp add: checkBalance_of_address_def)
  from assms q obtain b where b: "getBalance E a = Inr b"
    by (cases "getBalance E a")
      (auto simp add: checkBalance_of_address_def Let_def checkBalance_catch_def)
  show ?thesis
  proof (cases "read_balanceOf E ''0x0E02649Db4d1Aa8c202aA44EA99e3606d12a21b1'' a")
    case (Inl e)
    with assms q b have "checkBalance_finish E m
        (text_balance_of_address a (formatEther L b) text_balance_token_error)
        [(''MNT'', formatEther L b), (''AISHOP'', text_balance_token_error)] a w = (True, w')"
      by (simp add: checkBalance_of_address_def Let_def TOKENS_AISHOP_def balance_entry_def)
    from checkBalance_finish_True [OF this] show ?thesis by blast
  next
    case (Inr tb)
    with assms q b have "checkBalance_finish E m
        (text_balance_of_address a (formatEther L b) (formatUnits L tb 18))
        [(''MNT'', formatEther L b), (''AISHOP'', formatUnits L tb 18)] a w = (True, w')"
      by (simp add: checkBalance_of_address_def Let_def TOKENS_AISHOP_def balance_entry_def)
    from checkBalance_finish_True [OF this] show ?thesis by blast
  qed
qed

lemma checkBalance_handler_True:
  assumes "checkBalance_handler L E m st w = (True, w')"
  shows "\<exists>a mnt tok. last (replies w') = text_balance_of_address a mnt tok \<or>
                      last (replies w') = text_balance_own a mnt tok"
proof -
  from assms obtain u where u: "caller_id m st = Some u"
    by (cases "caller_id m st") (auto simp add: checkBalance_handler_def)
  show ?thesis
  proof (cases "truthy_str (extractEthereumWalletAddress (text_or_empty m))")
    case None
    with assms u have "checkBalance_own L E m u w = (True, w')"
      by (simp add: checkBalance_handler_def)
    from checkBalance_own_True [OF this] show ?thesis by blast
  next
    case (Some a)
    with assms u have "checkBalance_of_address L E m a w = (True, w')"
      by (simp add: checkBalance_handler_def)
    from checkBalance_of_address_True [OF this] show ?thesis by blast
  qed
qed

lemma walletProvider_get_cases:
  "walletProvider_get L E m st w = text_no_account \<or>
   walletProvider_get L E m st w = text_provider_no_wallet \<or>
   walletProvider_get L E m st w = text_provider_no_access \<or>
   (\<exists>msg. walletProvider_get L E m st w = text_provider_own_error msg) \<or>
   (\<exists>a msg. walletProvider_get L E m st w = text_provider_address_error a msg) \<or>
   (\<exists>a mnt tok. walletProvider_get L E m st w = text_provider_own a mnt tok) \<or>
   (\<exists>a mnt tok. walletProvider_get L E m st w = text_provider_address a mnt tok)"
  by (simp add: walletProvider_get_def Let_def split: option.splits sum.splits prod.splits)
    blast

lemma report_texts:
  "text_balance_of_address a mnt tok =
     join_nl ([''Balances en Mantle Sepolia Testnet para '' @ a @ '':''] @
              registry_lines balance_line [mnt, tok] @
              [[], ''Ver en Explorer: https://sepolia.mantlescan.xyz/address/'' @ a])"
  "text_balance_own a mnt tok =
     join_nl ([[CHR 0xF0, CHR 0x9F, CHR 0x93, CHR 0x8A] @
                 '' Tus Balances en Mantle Sepolia Testnet:'',
               [], ''Direcci'' @ [CHR 0xC3, CHR 0xB3] @ ''n: '' @ a] @
              registry_lines balance_line [mnt, tok] @
              [[], ''Ver en Explorer: https://sepolia.mantlescan.xyz/address/'' @ a])"
  "text_provider_address a mnt tok =
     join_nl ([''Informaci'' @ [CHR 0xC3, CHR 0xB3] @ ''n de Direcci'' @ [CHR 0xC3, CHR 0xB3] @
                 ''n en Mantle Sepolia:'',
               ''Direcci'' @ [CHR 0xC3, CHR 0xB3] @ ''n: '' @ a] @
              registry_lines provider_line [mnt, tok] @
              [[], ''Ver en Explorador: https://sepolia.mantlescan.xyz/address/'' @ a])"
  "text_provider_own a mnt tok =
     join_nl ([''Informaci'' @ [CHR 0xC3, CHR 0xB3] @ ''n de Tu Wallet en Mantle Sepolia:'',
               ''Direcci'' @ [CHR 0xC3, CHR 0xB3] @ ''n: '' @ a] @
              registry_lines provider_line [mnt, tok] @
              [[],
               ''Tu wallet est'' @ [CHR 0xC3, CHR 0xA1] @
                 '' correctamente configurada y lista para transacciones.'',
               ''Ver en Explorador: https://sepolia.mantlescan.xyz/address/'' @ a])"
  by (simp_all add: registry_lines_two balance_line_def provider_line_def
      text_balance_of_address_def text_balance_own_def text_provider_address_def
      text_provider_own_def)


text \<open>
  C7. A balance action that succeeds replies with one of its two reports, and whatever
  the provider returns is a failure text or one of its two reports. In each report the
  balance lines are the lines of the registry order: the MNT line, then the AISHOP line.
  The reports are functions of their inputs, so the order is the same at every
  invocation.
\<close>

theorem balance_report_order:
  "(checkBalance_handler L E m st w = (True, w') \<longrightarrow>
      (\<exists>a mnt tok. last (replies w') = text_balance_of_address a mnt tok \<or>
                   last (replies w') = text_balance_own a mnt tok)) \<and>
   (walletProvider_get L E m st w = text_no_account \<or>
    walletProvider_get L E m st w = text_provider_no_wallet \<or>
    walletProvider_get L E m st w = text_provider_no_access \<or>
    (\<exists>msg. walletProvider_get L E m st w = text_provider_own_error msg) \<or>
    (\<exists>a msg. walletProvider_get L E m st w = text_provider_address_error a msg) \<or>
    (\<exists>a mnt tok. walletProvider_get L E m st w = text_provider_own a mnt tok) \<or>
    (\<exists>a mnt tok. walletProvider_get L E m st w = text_provider_address a mnt tok)) \<and>
   text_balance_of_address a mnt tok =
     join_nl ([''Balances en Mantle Sepolia Testnet para '' @ a @ '':''] @
              registry_lines balance_line [mnt, tok] @
              [[], ''Ver en Explorer: https://sepolia.mantlescan.xyz/address/'' @ a]) \<and>
   text_balance_own a mnt tok =
     join_nl ([[CHR 0xF0, CHR 0x9F, CHR 0x93, CHR 0x8A] @
                 '' Tus Balances en Mantle Sepolia Testnet:'',
               [], ''Direcci'' @ [CHR 0xC3, CHR 0xB3] @ ''n: '' @ a] @
              registry_lines balance_line [mnt, tok] @
              [[], ''Ver en Explorer: https://sepolia.mantlescan.xyz/address/'' @ a]) \<and>
   text_provider_address a mnt tok =
     join_nl ([''Informaci'' @ [CHR 0xC3, CHR 0xB3] @ ''n de Direcci'' @ [CHR 0xC3, CHR 0xB3] @
                 ''n en Mantle Sepolia:'',
               ''Direcci'' @ [CHR 0xC3, CHR 0xB3] @ ''n: '' @ a] @
              registry_lines provider_line [mnt, tok] @
              [[], ''Ver en Explorador: https://sepolia.mantlescan.xyz/address/'' @ a]) \<and>
   text_provider_own a mnt tok =
     join_nl ([''Informaci'' @ [CHR 0xC3, CHR 0xB3] @ ''n de Tu Wallet en Mantle Sepolia:'',
               ''Direcci'' @ [CHR 0xC3, CHR 0xB3] @ ''n: '' @ a] @
              registry_lines provider_line [mnt, tok] @
              [[],
               ''Tu wallet est'' @ [CHR 0xC3, CHR 0xA1] @
                 '' correctamente configurada y lista para transacciones.'',
               ''Ver en Explorador: https://sepolia.mantlescan.xyz/address/'' @ a]) \<and>
   registry_lines fmt [mnt, tok] = [fmt ''MNT'' mnt, fmt ''AISHOP'' tok]"
proof -
  have 1: "checkBalance_handler L E m st w = (True, w') \<longrightarrow>
      (\<exists>a mnt tok. last (replies w') = text_balance_of_address a mnt tok \<or>
                   last (replies w') = text_balance_own a mnt tok)"
    using checkBalance_handler_True by blast
  show ?thesis
    by (intro conjI 1 walletProvider_get_cases report_texts registry_lines_two)
qed

lemma checkBalance_own_success:
  assumes "userHasWallet E w u" "initUserWalletProvider L E w u = Some p"
    "provider_getBalance L E p = Inr mnt"
    "provider_getTokenBalance L E p aishop_address = Inr tok"
  shows "checkBalance_own L E m u w =
           checkBalance_finish E m (text_balance_own (wp_address p) mnt tok)
             [(''MNT'', mnt), (''AISHOP'', tok)] (wp_address p) w"
  using assms
  by (simp add: checkBalance_own_def TOKENS_AISHOP_def aishop_address_def balance_entry_def
      Let_def)

lemma sample_balance_success:
  "fst (checkBalance_handler sample_lib sample_env (sample_message ''ver mi balance'') None
          sample_world)"
  "replies (snd (checkBalance_handler sample_lib sample_env (sample_message ''ver mi balance'')
                   None sample_world)) =
     [text_balance_own sample_address ''0.1'' ''7'']"
proof -
  let ?p = "\<lparr>wp_address = sample_address, wp_rpcUrl = default_rpc\<rparr>"
  have hw: "userHasWallet sample_env sample_world ''user-1''"
    by (simp add: sample_hasWallet sample_env_faults)
  have pr: "initUserWalletProvider sample_lib sample_env sample_world ''user-1'' = Some ?p"
    by (rule sample_provider [OF sample_env_faults(1,2)])
  have gb: "provider_getBalance sample_lib sample_env ?p = Inr ''0.1''"
    and tb: "provider_getTokenBalance sample_lib sample_env ?p aishop_address = Inr ''7''"
    by (simp_all add: provider_getBalance_def provider_getTokenBalance_def sample_env_def
        formatEther_def sample_lib_def)
  have f: "createMemory_fault sample_env = None" by (simp add: sample_env_def)
  have eq: "checkBalance_handler sample_lib sample_env (sample_message ''ver mi balance'') None
              sample_world =
            checkBalance_finish sample_env (sample_message ''ver mi balance'')
              (text_balance_own (wp_address ?p) ''0.1'' ''7'')
              [(''MNT'', ''0.1''), (''AISHOP'', ''7'')] (wp_address ?p) sample_world"
    by (simp only: checkBalance_handler_own [OF sample_caller sample_balance_text(1)]
        checkBalance_own_success [OF hw pr gb tb])
  have r: "replies sample_world = []" by (simp add: sample_world_def empty_world_def)
  show "fst (checkBalance_handler sample_lib sample_env (sample_message ''ver mi balance'') None
          sample_world)"
    using checkBalance_finish_ok [OF f] by (simp only: eq)
  show "replies (snd (checkBalance_handler sample_lib sample_env
                   (sample_message ''ver mi balance'') None sample_world)) =
     [text_balance_own sample_address ''0.1'' ''7'']"
    using checkBalance_finish_ok [OF f, of "sample_message ''ver mi balance''"
        "text_balance_own (wp_address ?p) ''0.1'' ''7''" _ _ sample_world]
    by (simp only: eq r append_Nil) simp
qed

theorem balance_report_order_witness:
  "(\<exists>a mnt tok.
      last (replies (snd (checkBalance_handler sample_lib sample_env
                            (sample_message ''ver mi balance'') None sample_world))) =
        text_balance_of_address a mnt tok \<or>
      last (replies (snd (checkBalance_handler sample_lib sample_env
                            (sample_message ''ver mi balance'') None sample_world))) =
        text_balance_own a mnt tok) \<and>
   last (replies (snd (checkBalance_handler sample_lib sample_env
                         (sample_message ''ver mi balance'') None sample_world))) =
     text_balance_own sample_address ''0.1'' ''7''"
proof -
  let ?r = "checkBalance_handler sample_lib sample_env (sample_message ''ver mi balance'') None
              sample_world"
  have "?r = (True, snd ?r)"
    using sample_balance_success(1) by (simp add: prod_eq_iff)
  from balance_report_order [THEN conjunct1, THEN mp, OF this]
  have a: "\<exists>a mnt tok. last (replies (snd ?r)) = text_balance_of_address a mnt tok \<or>
                        last (replies (snd ?r)) = text_balance_own a mnt tok" .
  have b: "last (replies (snd ?r)) = text_balance_own sample_address ''0.1'' ''7''"
    by (simp only: sample_balance_success(2)) simp
  from a b show ?thesis by (intro conjI)
qed

section \<open>The first address of a message\<close>

lemma truthy_str_Some: "truthy_str x = Some a \<Longrightarrow> x = Some a"
  by (auto simp add: truthy_str_def js_or_def split: option.splits if_splits)

lemma truthy_str_extract:
  "truthy_str (extractEthereumWalletAddress t) = extractEthereumWalletAddress t"
proof (cases "extractEthereumWalletAddress t")
  case None
  then show ?thesis by (simp add: truthy_str_def js_or_def)
next
  case (Some a)
  from extract_Some_shape [OF this] have "a \<noteq> []" by auto
  with Some show ?thesis by (simp add: truthy_str_def js_or_def)
qed

lemma leftmost_general:
  assumes "addr_prefix (drop i t)"
  shows "\<exists>j\<le>i. addr_prefix (drop j t) \<and> (\<forall>k<j. \<not> addr_prefix (drop k t)) \<and>
               extractEthereumWalletAddress t = Some (take 42 (drop j t))"
proof -
  from assms have "extractEthereumWalletAddress t \<noteq> None"
    unfolding extract_None by blast
  then obtain a where a: "extractEthereumWalletAddress t = Some a" by blast
  then obtain j where j: "addr_prefix (drop j t)" "\<forall>k<j. \<not> addr_prefix (drop k t)"
    "a = take 42 (drop j t)"
    unfolding extract_leftmost by blast
  have "j \<le> i"
  proof (rule ccontr)
    assume "\<not> j \<le> i"
    then have "i < j" by simp
    with j(2) assms show False by blast
  qed
  with a j show ?thesis by blast
qed

lemma transferMNT_target:
  "broadcasts (snd (transferMNT_handler L E m st w)) = broadcasts w \<or>
   (\<exists>t a sender v h. msg_text m = Some t \<and> extractEthereumWalletAddress t = Some a \<and>
      broadcasts (snd (transferMNT_handler L E m st w)) =
        broadcasts w @ [(NativeTransfer sender a v, h)])"
  by (auto simp add: transferMNT_handler_def Let_def reply_def transferMNT_catch_def
      fresh_id_def createMemory_def split_def truthy_str_extract
      split: option.splits sum.splits)

lemma transferERC20_target:
  "broadcasts (snd (transferERC20_handler L E m st w)) = broadcasts w \<or>
   (\<exists>a sender c v h. extractEthereumWalletAddress (text_or_empty m) = Some a \<and>
      broadcasts (snd (transferERC20_handler L E m st w)) =
        broadcasts w @ [(TokenTransfer sender c a v, h)])"
  by (auto simp add: transferERC20_handler_def Let_def reply_def transferERC20_catch_def
      fresh_id_def createMemory_def split_def truthy_str_extract
      split: option.splits sum.splits token_config.splits)

lemma checkBalance_target:
  "caller_id m st = Some u \<Longrightarrow> extractEthereumWalletAddress (text_or_empty m) = Some a \<Longrightarrow>
   checkBalance_handler L E m st w = checkBalance_of_address L E m a w"
  using truthy_str_extract [of "text_or_empty m"] by (simp add: checkBalance_handler_def)


lemma extract_least:
  "addr_prefix (drop j t) \<Longrightarrow> \<forall>k<j. \<not> addr_prefix (drop k t) \<Longrightarrow>
   extractEthereumWalletAddress t = Some (take 42 (drop j t))"
  unfolding extract_leftmost by blast

lemma transferMNT_directed:
  assumes "caller_id m st = Some u" "userHasWallet E w u"
    "initUserWalletProvider L E w u = Some p" "msg_text m = Some t"
    "extractEthereumWalletAddress t = Some a"
    "truthy_str (extractAmount t) = Some amountStr"
    "parseEther L amountStr = Inr val"
    "getBalance E (wp_address p) = Inr held" "val \<le> held"
    "sendTransaction E (NativeTransfer (wp_address p) a val) = Inr h"
  shows "broadcasts (snd (transferMNT_handler L E m st w)) =
           broadcasts w @ [(NativeTransfer (wp_address p) a val, h)]"
    and "take (Suc (length (replies w))) (replies (snd (transferMNT_handler L E m st w))) =
           replies w @ [text_mnt_processing amountStr (wp_address p) a]"
proof -
  have ts: "truthy_str (extractEthereumWalletAddress t) = Some a"
    using truthy_str_extract [of t] assms(5) by simp
  show "broadcasts (snd (transferMNT_handler L E m st w)) =
           broadcasts w @ [(NativeTransfer (wp_address p) a val, h)]"
    and "take (Suc (length (replies w))) (replies (snd (transferMNT_handler L E m st w))) =
           replies w @ [text_mnt_processing amountStr (wp_address p) a]"
    using assms(1-4,6-10) ts
    by (auto simp add: transferMNT_handler_def Let_def reply_def
        transferMNT_catch_def fresh_id_def createMemory_def split_def
        split: sum.splits option.splits)
qed

lemma transferERC20_directed:
  assumes "caller_id m st = Some u" "userHasWallet E w u"
    "initUserWalletProvider L E w u = Some p"
    "extractEthereumWalletAddress (text_or_empty m) = Some a"
    "extractTokenTransferInfo (text_or_empty m) = Some info"
    "map_of TOKENS (symbol info) = Some (ERC20Token tsym tname decimals tokenAddress)"
    "parseUnits L (amount info) decimals = Inr val"
    "read_balanceOf E tokenAddress (wp_address p) = Inr held" "val \<le> held"
    "writeContract E (TokenTransfer (wp_address p) tokenAddress a val) = Inr h"
  shows "broadcasts (snd (transferERC20_handler L E m st w)) =
           broadcasts w @ [(TokenTransfer (wp_address p) tokenAddress a val, h)]"
    and "take (Suc (length (replies w))) (replies (snd (transferERC20_handler L E m st w))) =
           replies w @ [text_erc20_processing (amount info) tsym (wp_address p) a]"
proof -
  have ts: "truthy_str (extractEthereumWalletAddress (text_or_empty m)) = Some a"
    using truthy_str_extract [of "text_or_empty m"] assms(4) by simp
  show "broadcasts (snd (transferERC20_handler L E m st w)) =
           broadcasts w @ [(TokenTransfer (wp_address p) tokenAddress a val, h)]"
    and "take (Suc (length (replies w))) (replies (snd (transferERC20_handler L E m st w))) =
           replies w @ [text_erc20_processing (amount info) tsym (wp_address p) a]"
    using assms(1-3,5-10) ts
    by (auto simp add: transferERC20_handler_def erc20_shortfall_def Let_def
        reply_def transferERC20_catch_def fresh_id_def createMemory_def split_def
        split: sum.splits option.splits)
qed

lemma checkBalance_targeted:
  assumes "caller_id m st = Some u"
    "extractEthereumWalletAddress (text_or_empty m) = Some a"
    "initWalletProvider L E = Some q"
    "getBalance E a = Inr nb"
    "read_balanceOf E aishop_address a = Inr tb"
    "createMemory_fault E = None"
  shows "fst (checkBalance_handler L E m st w)"
    and "replies (snd (checkBalance_handler L E m st w)) =
           replies w @ [text_balance_of_address a (formatEther L nb) (formatUnits L tb 18)]"
    and "map mr_payload (memories (snd (checkBalance_handler L E m st w))) =
           map mr_payload (memories w) @
             [Balances [(''MNT'', formatEther L nb), (''AISHOP'', formatUnits L tb 18)] a]"
proof -
  have "truthy_str (extractEthereumWalletAddress (text_or_empty m)) = Some a"
    using truthy_str_extract [of "text_or_empty m"] assms(2) by simp
  from checkBalance_handler_address [OF assms(1) this]
  have H: "checkBalance_handler L E m st w = checkBalance_of_address L E m a w" .
  show "fst (checkBalance_handler L E m st w)"
    and "replies (snd (checkBalance_handler L E m st w)) =
           replies w @ [text_balance_of_address a (formatEther L nb) (formatUnits L tb 18)]"
    and "map mr_payload (memories (snd (checkBalance_handler L E m st w))) =
           map mr_payload (memories w) @
             [Balances [(''MNT'', formatEther L nb), (''AISHOP'', formatUnits L tb 18)] a]"
    using assms(3-6)
    by (simp_all add: H checkBalance_of_address_def
      TOKENS_AISHOP_def aishop_address_def Let_def balance_entry_def checkBalance_finish_def
      fresh_id_def createMemory_def split_def reply_def)
qed

lemma checkBalance_frame:
  assumes "caller_id m st = Some u"
    "extractEthereumWalletAddress (text_or_empty m) = Some a"
    "g a = getBalance E a" "\<forall>c. rb c a = read_balanceOf E c a"
  shows "checkBalance_handler L (E\<lparr>getBalance := g, read_balanceOf := rb\<rparr>) m st w =
         checkBalance_handler L E m st w"
proof -
  have "truthy_str (extractEthereumWalletAddress (text_or_empty m)) = Some a"
    using truthy_str_extract [of "text_or_empty m"] assms(2) by simp
  note H = checkBalance_handler_address [OF assms(1) this]
  show ?thesis
    using assms(3,4)
    by (simp add: H checkBalance_of_address_def
      initWalletProvider_def rpc_setting_def TOKENS_AISHOP_def Let_def checkBalance_finish_def
      fresh_id_def createMemory_def split_def checkBalance_catch_def
      split: option.split sum.split)
qed


text \<open>
  C10. When the pattern matches somewhere in the text, extraction returns the match at
  the least position. Whatever a native or token transfer submits goes to the address
  extracted from the message; and a transfer that passes its checks submits exactly the
  request whose recipient is the first address of the text, after announcing it. The
  balance action on a text with an address reports the balances read for the first
  address, persists them under that address, and its outcome does not depend on what the
  node answers for any other address.
\<close>

theorem leftmost_address:
  "(addr_prefix (drop i t) \<longrightarrow>
      (\<exists>j\<le>i. addr_prefix (drop j t) \<and> (\<forall>k<j. \<not> addr_prefix (drop k t)) \<and>
              extractEthereumWalletAddress t = Some (take 42 (drop j t)))) \<and>
   (broadcasts (snd (transferMNT_handler L E m st w)) = broadcasts w \<or>
    (\<exists>t a sender v h. msg_text m = Some t \<and> extractEthereumWalletAddress t = Some a \<and>
       broadcasts (snd (transferMNT_handler L E m st w)) =
         broadcasts w @ [(NativeTransfer sender a v, h)])) \<and>
   (broadcasts (snd (transferERC20_handler L E m st w)) = broadcasts w \<or>
    (\<exists>a sender c v h. extractEthereumWalletAddress (text_or_empty m) = Some a \<and>
       broadcasts (snd (transferERC20_handler L E m st w)) =
         broadcasts w @ [(TokenTransfer sender c a v, h)])) \<and>
   (caller_id m st = Some u \<and> extractEthereumWalletAddress (text_or_empty m) = Some a \<longrightarrow>
      checkBalance_handler L E m st w = checkBalance_of_address L E m a w) \<and>
   (caller_id m st = Some u \<and> userHasWallet E w u \<and>
    initUserWalletProvider L E w u = Some p \<and> msg_text m = Some t \<and>
    addr_prefix (drop j t) \<and> (\<forall>k<j. \<not> addr_prefix (drop k t)) \<and>
    truthy_str (extractAmount t) = Some amountStr \<and>
    parseEther L amountStr = Inr val \<and>
    getBalance E (wp_address p) = Inr held \<and> val \<le> held \<and>
    sendTransaction E (NativeTransfer (wp_address p) (take 42 (drop j t)) val) = Inr h \<longrightarrow>
    broadcasts (snd (transferMNT_handler L E m st w)) =
      broadcasts w @ [(NativeTransfer (wp_address p) (take 42 (drop j t)) val, h)] \<and>
    take (Suc (length (replies w))) (replies (snd (transferMNT_handler L E m st w))) =
      replies w @
        [''Procesando transferencia de '' @ amountStr @ '' MNT desde tu wallet personal ('' @
         wp_address p @ '') hacia '' @ take 42 (drop j t) @ ''...'']) \<and>
   (caller_id m st = Some u \<and> userHasWallet E w u \<and>
    initUserWalletProvider L E w u = Some p \<and> text_or_empty m = t \<and>
    addr_prefix (drop j t) \<and> (\<forall>k<j. \<not> addr_prefix (drop k t)) \<and>
    extractTokenTransferInfo t = Some info \<and>
    map_of TOKENS (symbol info) = Some (ERC20Token tsym tname decimals tokenAddress) \<and>
    parseUnits L (amount info) decimals = Inr val \<and>
    read_balanceOf E tokenAddress (wp_address p) = Inr held \<and> val \<le> held \<and>
    writeContract E (TokenTransfer (wp_address p) tokenAddress (take 42 (drop j t)) val) =
      Inr h \<longrightarrow>
    broadcasts (snd (transferERC20_handler L E m st w)) =
      broadcasts w @
        [(TokenTransfer (wp_address p) tokenAddress (take 42 (drop j t)) val, h)] \<and>
    take (Suc (length (replies w))) (replies (snd (transferERC20_handler L E m st w))) =
      replies w @
        [''Procesando transferencia de '' @ amount info @ '' '' @ tsym @
         '' desde tu wallet personal ('' @ wp_address p @ '') hacia '' @
         take 42 (drop j t) @ ''...'']) \<and>
   (caller_id m st = Some u \<and> text_or_empty m = t \<and>
    addr_prefix (drop j t) \<and> (\<forall>k<j. \<not> addr_prefix (drop k t)) \<and>
    initWalletProvider L E = Some q \<and>
    getBalance E (take 42 (drop j t)) = Inr nb \<and>
    read_balanceOf E aishop_address (take 42 (drop j t)) = Inr tb \<and>
    createMemory_fault E = None \<longrightarrow>
    fst (checkBalance_handler L E m st w) \<and>
    replies (snd (checkBalance_handler L E m st w)) =
      replies w @
        [join_nl
           [''Balances en Mantle Sepolia Testnet para '' @ take 42 (drop j t) @ '':'',
            ''MNT: '' @ formatEther L nb,
            ''AISHOP: '' @ formatUnits L tb 18,
            [],
            ''Ver en Explorer: https://sepolia.mantlescan.xyz/address/'' @
            take 42 (drop j t)]] \<and>
    map mr_payload (memories (snd (checkBalance_handler L E m st w))) =
      map mr_payload (memories w) @
        [Balances [(''MNT'', formatEther L nb), (''AISHOP'', formatUnits L tb 18)]
           (take 42 (drop j t))]) \<and>
   (caller_id m st = Some u \<and> text_or_empty m = t \<and>
    addr_prefix (drop j t) \<and> (\<forall>k<j. \<not> addr_prefix (drop k t)) \<and>
    g (take 42 (drop j t)) = getBalance E (take 42 (drop j t)) \<and>
    (\<forall>c. rb c (take 42 (drop j t)) = read_balanceOf E c (take 42 (drop j t))) \<longrightarrow>
    checkBalance_handler L (E\<lparr>getBalance := g, read_balanceOf := rb\<rparr>) m st w =
      checkBalance_handler L E m st w)"
proof (intro conjI impI)
  assume "addr_prefix (drop i t)"
  then show "\<exists>j\<le>i. addr_prefix (drop j t) \<and> (\<forall>k<j. \<not> addr_prefix (drop k t)) \<and>
              extractEthereumWalletAddress t = Some (take 42 (drop j t))"
    by (rule leftmost_general)
next
  show "broadcasts (snd (transferMNT_handler L E m st w)) = broadcasts w \<or>
    (\<exists>t a sender v h. msg_text m = Some t \<and> extractEthereumWalletAddress t = Some a \<and>
       broadcasts (snd (transferMNT_handler L E m st w)) =
         broadcasts w @ [(NativeTransfer sender a v, h)])"
    by (rule transferMNT_target)
next
  show "broadcasts (snd (transferERC20_handler L E m st w)) = broadcasts w \<or>
    (\<exists>a sender c v h. extractEthereumWalletAddress (text_or_empty m) = Some a \<and>
       broadcasts (snd (transferERC20_handler L E m st w)) =
         broadcasts w @ [(TokenTransfer sender c a v, h)])"
    by (rule transferERC20_target)
next
  assume "caller_id m st = Some u \<and> extractEthereumWalletAddress (text_or_empty m) = Some a"
  then show "checkBalance_handler L E m st w = checkBalance_of_address L E m a w"
    using checkBalance_target by blast
next
  assume h: "caller_id m st = Some u \<and> userHasWallet E w u \<and>
    initUserWalletProvider L E w u = Some p \<and> msg_text m = Some t \<and>
    addr_prefix (drop j t) \<and> (\<forall>k<j. \<not> addr_prefix (drop k t)) \<and>
    truthy_str (extractAmount t) = Some amountStr \<and>
    parseEther L amountStr = Inr val \<and>
    getBalance E (wp_address p) = Inr held \<and> val \<le> held \<and>
    sendTransaction E (NativeTransfer (wp_address p) (take 42 (drop j t)) val) = Inr h"
  then have e: "extractEthereumWalletAddress t = Some (take 42 (drop j t))"
    using extract_least by blast
  from h have g: "caller_id m st = Some u" "userHasWallet E w u"
    "initUserWalletProvider L E w u = Some p" "msg_text m = Some t"
    "truthy_str (extractAmount t) = Some amountStr" "parseEther L amountStr = Inr val"
    "getBalance E (wp_address p) = Inr held" "val \<le> held"
    "sendTransaction E (NativeTransfer (wp_address p) (take 42 (drop j t)) val) = Inr h"
    by blast+
  note D = transferMNT_directed [OF g(1-4) e g(5-9)]
  show "broadcasts (snd (transferMNT_handler L E m st w)) =
      broadcasts w @ [(NativeTransfer (wp_address p) (take 42 (drop j t)) val, h)]"
    by (rule D(1))
  show "take (Suc (length (replies w))) (replies (snd (transferMNT_handler L E m st w))) =
      replies w @
        [''Procesando transferencia de '' @ amountStr @ '' MNT desde tu wallet personal ('' @
         wp_address p @ '') hacia '' @ take 42 (drop j t) @ ''...'']"
    using D(2) by (simp only: text_mnt_processing_def)
next
  assume h: "caller_id m st = Some u \<and> userHasWallet E w u \<and>
    initUserWalletProvider L E w u = Some p \<and> text_or_empty m = t \<and>
    addr_prefix (drop j t) \<and> (\<forall>k<j. \<not> addr_prefix (drop k t)) \<and>
    extractTokenTransferInfo t = Some info \<and>
    map_of TOKENS (symbol info) = Some (ERC20Token tsym tname decimals tokenAddress) \<and>
    parseUnits L (amount info) decimals = Inr val \<and>
    read_balanceOf E tokenAddress (wp_address p) = Inr held \<and> val \<le> held \<and>
    writeContract E (TokenTransfer (wp_address p) tokenAddress (take 42 (drop j t)) val) =
      Inr h"
  then have e: "extractEthereumWalletAddress (text_or_empty m) = Some (take 42 (drop j t))"
    using extract_least by blast
  from h have g: "caller_id m st = Some u" "userHasWallet E w u"
    "initUserWalletProvider L E w u = Some p"
    "extractTokenTransferInfo (text_or_empty m) = Some info"
    "map_of TOKENS (symbol info) = Some (ERC20Token tsym tname decimals tokenAddress)"
    "parseUnits L (amount info) decimals = Inr val"
    "read_balanceOf E tokenAddress (wp_address p) = Inr held" "val \<le> held"
    "writeContract E (TokenTransfer (wp_address p) tokenAddress (take 42 (drop j t)) val) =
       Inr h"
    by blast+
  note D = transferERC20_directed [OF g(1-3) e g(4-9)]
  show "broadcasts (snd (transferERC20_handler L E m st w)) =
      broadcasts w @
        [(TokenTransfer (wp_address p) tokenAddress (take 42 (drop j t)) val, h)]"
    by (rule D(1))
  show "take (Suc (length (replies w))) (replies (snd (transferERC20_handler L E m st w))) =
      replies w @
        [''Procesando transferencia de '' @ amount info @ '' '' @ tsym @
         '' desde tu wallet personal ('' @ wp_address p @ '') hacia '' @
         take 42 (drop j t) @ ''...'']"
    using D(2) by (simp only: text_erc20_processing_def)
next
  assume h: "caller_id m st = Some u \<and> text_or_empty m = t \<and>
    addr_prefix (drop j t) \<and> (\<forall>k<j. \<not> addr_prefix (drop k t)) \<and>
    initWalletProvider L E = Some q \<and>
    getBalance E (take 42 (drop j t)) = Inr nb \<and>
    read_balanceOf E aishop_address (take 42 (drop j t)) = Inr tb \<and>
    createMemory_fault E = None"
  then have e: "extractEthereumWalletAddress (text_or_empty m) = Some (take 42 (drop j t))"
    using extract_least by blast
  from h have g: "caller_id m st = Some u" "initWalletProvider L E = Some q"
    "getBalance E (take 42 (drop j t)) = Inr nb"
    "read_balanceOf E aishop_address (take 42 (drop j t)) = Inr tb"
    "createMemory_fault E = None"
    by blast+
  note D = checkBalance_targeted [OF g(1) e g(2-5)]
  show "fst (checkBalance_handler L E m st w)" by (rule D(1))
  show "replies (snd (checkBalance_handler L E m st w)) =
      replies w @
        [join_nl
           [''Balances en Mantle Sepolia Testnet para '' @ take 42 (drop j t) @ '':'',
            ''MNT: '' @ formatEther L nb,
            ''AISHOP: '' @ formatUnits L tb 18,
            [],
            ''Ver en Explorer: https://sepolia.mantlescan.xyz/address/'' @
            take 42 (drop j t)]]"
    using D(2) by (simp only: text_balance_of_address_def)
  show "map mr_payload (memories (snd (checkBalance_handler L E m st w))) =
      map mr_payload (memories w) @
        [Balances [(''MNT'', formatEther L nb), (''AISHOP'', formatUnits L tb 18)]
           (take 42 (drop j t))]"
    by (rule D(3))
next
  assume h: "caller_id m st = Some u \<and> text_or_empty m = t \<and>
    addr_prefix (drop j t) \<and> (\<forall>k<j. \<not> addr_prefix (drop k t)) \<and>
    g (take 42 (drop j t)) = getBalance E (take 42 (drop j t)) \<and>
    (\<forall>c. rb c (take 42 (drop j t)) = read_balanceOf E c (take 42 (drop j t)))"
  then have e: "extractEthereumWalletAddress (text_or_empty m) = Some (take 42 (drop j t))"
    using extract_least by blast
  from h have g: "caller_id m st = Some u"
    "g (take 42 (drop j t)) = getBalance E (take 42 (drop j t))"
    "\<forall>c. rb c (take 42 (drop j t)) = read_balanceOf E c (take 42 (drop j t))"
    by blast+
  show "checkBalance_handler L (E\<lparr>getBalance := g, read_balanceOf := rb\<rparr>) m st w =
      checkBalance_handler L E m st w"
    by (rule checkBalance_frame [where g = g and rb = rb and E = E, OF g(1) e g(2,3)])
qed


lemma two_addresses_facts:
  "addr_prefix (drop 48 two_addresses)"
  "extractEthereumWalletAddress two_addresses = Some sample_recipient"
  by code_simp+

lemma two_addresses_transfer_facts:
  "extractEthereumWalletAddress two_addresses_mnt = Some sample_recipient"
  "truthy_str (extractAmount two_addresses_mnt) = Some ''0.5''"
  "extractEthereumWalletAddress two_addresses_aishop = Some sample_recipient"
  "extractTokenTransferInfo two_addresses_aishop = Some \<lparr>amount = ''25'', symbol = ''AISHOP''\<rparr>"
  by code_simp+

lemma sample_env_funded_facts:
  "cache_get_fault sample_env_funded k = None"
  "getSetting sample_env_funded ''EVM_RPC_URL'' = None"
  "getSetting sample_env_funded ''EVM_PRIVATE_KEY'' = Some sample_key"
  "createMemory_fault sample_env_funded = None"
  "sendTransaction sample_env_funded tx = Inr sample_hash"
  "writeContract sample_env_funded tx = Inr sample_hash"
  "getBalance sample_env_funded sample_address = Inr 1000000000000000000"
  "read_balanceOf sample_env_funded c sample_address = Inr 25000000000000000000"
  "getBalance sample_env_funded sample_recipient = Inr 100000000000000000"
  "read_balanceOf sample_env_funded c sample_recipient = Inr 7000000000000000000"
  by (simp_all add: sample_env_funded_def sample_env_def sample_address_def
      sample_recipient_def)

theorem leftmost_address_witness:
  "(\<exists>j\<le>48. addr_prefix (drop j two_addresses) \<and>
      extractEthereumWalletAddress two_addresses = Some (take 42 (drop j two_addresses))) \<and>
   extractEthereumWalletAddress two_addresses = Some sample_recipient \<and>
   take 42 (drop 48 two_addresses) = ''0x2222222222222222222222222222222222222222'' \<and>
   checkBalance_handler sample_lib sample_env (sample_message two_addresses) None sample_world =
     checkBalance_of_address sample_lib sample_env (sample_message two_addresses)
       sample_recipient sample_world \<and>
   broadcasts (snd (transferMNT_handler sample_lib sample_env_funded
                      (sample_message two_addresses_mnt) None sample_world)) =
     [(NativeTransfer sample_address ''0x1111111111111111111111111111111111111111''
         500000000000000000, sample_hash)] \<and>
   take 1 (replies (snd (transferMNT_handler sample_lib sample_env_funded
                      (sample_message two_addresses_mnt) None sample_world))) =
     [''Procesando transferencia de 0.5 MNT desde tu wallet personal ('' @
      ''0xf39Fd6e51aad88F6F4ce6aB8827279cffFb92266) hacia '' @
      ''0x1111111111111111111111111111111111111111...''] \<and>
   broadcasts (snd (transferERC20_handler sample_lib sample_env_funded
                      (sample_message two_addresses_aishop) None sample_world)) =
     [(TokenTransfer sample_address aishop_address
         ''0x1111111111111111111111111111111111111111'' 25000000000000000000, sample_hash)] \<and>
   take 1 (replies (snd (transferERC20_handler sample_lib sample_env_funded
                      (sample_message two_addresses_aishop) None sample_world))) =
     [''Procesando transferencia de 25 AISHOP desde tu wallet personal ('' @
      ''0xf39Fd6e51aad88F6F4ce6aB8827279cffFb92266) hacia '' @
      ''0x1111111111111111111111111111111111111111...''] \<and>
   fst (checkBalance_handler sample_lib sample_env_funded (sample_message two_addresses) None
          sample_world) \<and>
   replies (snd (checkBalance_handler sample_lib sample_env_funded
                   (sample_message two_addresses) None sample_world)) =
     [join_nl
        [''Balances en Mantle Sepolia Testnet para 0x1111111111111111111111111111111111111111:'',
         ''MNT: 0.1'',
         ''AISHOP: 7'',
         [],
         ''Ver en Explorer: https://sepolia.mantlescan.xyz/address/0x1111111111111111111111111111111111111111'']] \<and>
   map mr_payload (memories (snd (checkBalance_handler sample_lib sample_env_funded
                   (sample_message two_addresses) None sample_world))) =
     [Balances [(''MNT'', ''0.1''), (''AISHOP'', ''7'')]
        ''0x1111111111111111111111111111111111111111''] \<and>
   checkBalance_handler sample_lib
     (sample_env_funded\<lparr>getBalance := (\<lambda>a. Inr 100000000000000000),
                        read_balanceOf := (\<lambda>c a. Inr 7000000000000000000)\<rparr>)
     (sample_message two_addresses) None sample_world =
   checkBalance_handler sample_lib sample_env_funded (sample_message two_addresses) None
     sample_world"
proof -
  let ?p = "\<lparr>wp_address = sample_address, wp_rpcUrl = default_rpc\<rparr>"
  let ?i = "\<lparr>amount = ''25'', symbol = ''AISHOP''\<rparr>"
  let ?E = sample_env_funded
  let ?g = "\<lambda>a :: string. Inr 100000000000000000 :: thrown + int"
  let ?rb = "\<lambda>(c :: string) (a :: string). Inr 7000000000000000000 :: thrown + int"
  have rc: "sample_recipient = ''0x1111111111111111111111111111111111111111''"
    by (simp add: sample_recipient_def)
  have sa: "sample_address = ''0xf39Fd6e51aad88F6F4ce6aB8827279cffFb92266''"
    by (simp add: sample_address_def)
  have w0: "replies sample_world = []" "broadcasts sample_world = []"
    "memories sample_world = []"
    by (simp_all add: sample_world_def empty_world_def)
  have t: "text_or_empty (sample_message two_addresses) = two_addresses"
    "text_or_empty (sample_message two_addresses_aishop) = two_addresses_aishop"
    "msg_text (sample_message two_addresses_mnt) = Some two_addresses_mnt"
    by (simp_all add: sample_message_def text_or_empty_def)
  have e: "extractEthereumWalletAddress (text_or_empty (sample_message two_addresses)) =
      Some sample_recipient"
    by (simp only: t two_addresses_facts)
  have hw: "userHasWallet ?E sample_world ''user-1''"
    by (simp add: sample_hasWallet sample_env_funded_facts)
  have pr: "initUserWalletProvider sample_lib ?E sample_world ''user-1'' = Some ?p"
    by (rule sample_provider [OF sample_env_funded_facts(1,2)])
  have iw: "initWalletProvider sample_lib ?E = Some ?p"
    by (rule sample_initWalletProvider [OF sample_env_funded_facts(3,2)])
  have pa: "wp_address ?p = sample_address" by simp
  have pe: "parseEther sample_lib ''0.5'' = Inr 500000000000000000"
    by (simp add: parseEther_def sample_lib_def)
  have pu: "parseUnits sample_lib (amount ?i) 18 = Inr 25000000000000000000"
    by (simp add: sample_lib_def)
  have tk: "map_of TOKENS (symbol ?i) =
      Some (ERC20Token ''AISHOP'' ''AI Shop Agent'' 18 aishop_address)"
    by (simp add: TOKENS_def TOKENS_AISHOP_def aishop_address_def)
  have gb: "getBalance ?E (wp_address ?p) = Inr 1000000000000000000"
    by (simp only: pa sample_env_funded_facts)
  have rb: "read_balanceOf ?E aishop_address (wp_address ?p) = Inr 25000000000000000000"
    by (simp only: pa sample_env_funded_facts)
  have le1: "(500000000000000000 :: int) \<le> 1000000000000000000" by simp
  have le2: "(25000000000000000000 :: int) \<le> 25000000000000000000" by simp
  have fm: "formatEther sample_lib 100000000000000000 = ''0.1''"
    "formatUnits sample_lib 7000000000000000000 18 = ''7''"
    by (simp_all add: formatEther_def sample_lib_def)
  from two_addresses_facts(2) obtain j0 where
    j0: "addr_prefix (drop j0 two_addresses)" "\<forall>k<j0. \<not> addr_prefix (drop k two_addresses)"
      "sample_recipient = take 42 (drop j0 two_addresses)"
    unfolding extract_leftmost by blast
  note T0 = leftmost_address [where i = 48 and t = two_addresses
      and m = "sample_message two_addresses" and st = None and u = "''user-1''"
      and a = sample_recipient and L = sample_lib and E = sample_env and w = sample_world]
  have a: "\<exists>j\<le>48. addr_prefix (drop j two_addresses) \<and>
      (\<forall>k<j. \<not> addr_prefix (drop k two_addresses)) \<and>
      extractEthereumWalletAddress two_addresses = Some (take 42 (drop j two_addresses))"
    by (rule T0 [THEN conjunct1, THEN mp]) (rule two_addresses_facts)
  have b: "checkBalance_handler sample_lib sample_env (sample_message two_addresses) None
             sample_world =
           checkBalance_of_address sample_lib sample_env (sample_message two_addresses)
             sample_recipient sample_world"
    by (rule T0 [THEN conjunct2, THEN conjunct2, THEN conjunct2, THEN conjunct1, THEN mp])
      (intro conjI sample_caller e)
  have c: "take 42 (drop 48 two_addresses) = ''0x2222222222222222222222222222222222222222''"
    by code_simp
  from a have a': "\<exists>j\<le>48. addr_prefix (drop j two_addresses) \<and>
      extractEthereumWalletAddress two_addresses = Some (take 42 (drop j two_addresses))"
    by blast
  note T3 = leftmost_address [where t = two_addresses
      and m = "sample_message two_addresses" and st = None and u = "''user-1''"
      and L = sample_lib and E = ?E and w = sample_world and j = j0 and q = ?p
      and nb = 100000000000000000 and tb = 7000000000000000000 and g = ?g and rb = ?rb]
  have q1: "getBalance ?E (take 42 (drop j0 two_addresses)) = Inr 100000000000000000"
    "read_balanceOf ?E aishop_address (take 42 (drop j0 two_addresses)) =
       Inr 7000000000000000000"
    by (simp_all only: j0(3) [symmetric] sample_env_funded_facts)
  have d: "fst (checkBalance_handler sample_lib ?E (sample_message two_addresses) None
                  sample_world) \<and>
    replies (snd (checkBalance_handler sample_lib ?E (sample_message two_addresses) None
                    sample_world)) =
      replies sample_world @
        [join_nl
           [''Balances en Mantle Sepolia Testnet para '' @ take 42 (drop j0 two_addresses) @
            '':'',
            ''MNT: '' @ formatEther sample_lib 100000000000000000,
            ''AISHOP: '' @ formatUnits sample_lib 7000000000000000000 18,
            [],
            ''Ver en Explorer: https://sepolia.mantlescan.xyz/address/'' @
            take 42 (drop j0 two_addresses)]] \<and>
    map mr_payload (memories (snd (checkBalance_handler sample_lib ?E
                    (sample_message two_addresses) None sample_world))) =
      map mr_payload (memories sample_world) @
        [Balances [(''MNT'', formatEther sample_lib 100000000000000000),
                   (''AISHOP'', formatUnits sample_lib 7000000000000000000 18)]
           (take 42 (drop j0 two_addresses))]"
    by (rule T3 [THEN conjunct2, THEN conjunct2, THEN conjunct2, THEN conjunct2,
          THEN conjunct2, THEN conjunct2, THEN conjunct1, THEN mp])
      (intro conjI sample_caller t(1) j0(1,2) iw q1 sample_env_funded_facts(4))
  have d1: "fst (checkBalance_handler sample_lib ?E (sample_message two_addresses) None
                  sample_world)"
    by (rule d [THEN conjunct1])
  have d2: "replies (snd (checkBalance_handler sample_lib ?E (sample_message two_addresses)
                    None sample_world)) =
     [join_nl
        [''Balances en Mantle Sepolia Testnet para 0x1111111111111111111111111111111111111111:'',
         ''MNT: 0.1'',
         ''AISHOP: 7'',
         [],
         ''Ver en Explorer: https://sepolia.mantlescan.xyz/address/0x1111111111111111111111111111111111111111'']]"
    using d [THEN conjunct2, THEN conjunct1]
    by (simp only: j0(3) [symmetric] fm w0 rc) simp
  have d3: "map mr_payload (memories (snd (checkBalance_handler sample_lib ?E
                   (sample_message two_addresses) None sample_world))) =
     [Balances [(''MNT'', ''0.1''), (''AISHOP'', ''7'')]
        ''0x1111111111111111111111111111111111111111'']"
    using d [THEN conjunct2, THEN conjunct2]
    by (simp only: j0(3) [symmetric] fm w0 rc) simp
  have q2: "?g (take 42 (drop j0 two_addresses)) =
      getBalance ?E (take 42 (drop j0 two_addresses))"
    "\<forall>c. ?rb c (take 42 (drop j0 two_addresses)) =
      read_balanceOf ?E c (take 42 (drop j0 two_addresses))"
    by (simp_all only: j0(3) [symmetric] sample_env_funded_facts) simp_all
  have f: "checkBalance_handler sample_lib (?E\<lparr>getBalance := ?g, read_balanceOf := ?rb\<rparr>)
     (sample_message two_addresses) None sample_world =
   checkBalance_handler sample_lib ?E (sample_message two_addresses) None sample_world"
    by (rule T3 [THEN conjunct2, THEN conjunct2, THEN conjunct2, THEN conjunct2,
          THEN conjunct2, THEN conjunct2, THEN conjunct2, THEN mp])
      (intro conjI sample_caller t(1) j0(1,2) q2)
  from two_addresses_transfer_facts(1) obtain j1 where
    j1: "addr_prefix (drop j1 two_addresses_mnt)"
      "\<forall>k<j1. \<not> addr_prefix (drop k two_addresses_mnt)"
      "sample_recipient = take 42 (drop j1 two_addresses_mnt)"
    unfolding extract_leftmost by blast
  note T1 = leftmost_address [where t = two_addresses_mnt
      and m = "sample_message two_addresses_mnt" and st = None and u = "''user-1''"
      and L = sample_lib and E = ?E and w = sample_world and j = j1 and p = ?p
      and amountStr = "''0.5''" and val = 500000000000000000
      and held = 1000000000000000000 and h = sample_hash]
  have s1: "sendTransaction ?E
      (NativeTransfer (wp_address ?p) (take 42 (drop j1 two_addresses_mnt))
         500000000000000000) = Inr sample_hash"
    by (rule sample_env_funded_facts)
  have m: "broadcasts (snd (transferMNT_handler sample_lib ?E
                      (sample_message two_addresses_mnt) None sample_world)) =
      broadcasts sample_world @
        [(NativeTransfer (wp_address ?p) (take 42 (drop j1 two_addresses_mnt))
            500000000000000000, sample_hash)] \<and>
    take (Suc (length (replies sample_world)))
      (replies (snd (transferMNT_handler sample_lib ?E
                      (sample_message two_addresses_mnt) None sample_world))) =
      replies sample_world @
        [''Procesando transferencia de '' @ ''0.5'' @ '' MNT desde tu wallet personal ('' @
         wp_address ?p @ '') hacia '' @ take 42 (drop j1 two_addresses_mnt) @ ''...'']"
    by (rule T1 [THEN conjunct2, THEN conjunct2, THEN conjunct2, THEN conjunct2,
          THEN conjunct1, THEN mp])
      (intro conjI sample_caller hw pr t(3) j1(1,2) two_addresses_transfer_facts(2) pe gb
        le1 s1)
  have m1: "broadcasts (snd (transferMNT_handler sample_lib ?E
                      (sample_message two_addresses_mnt) None sample_world)) =
     [(NativeTransfer sample_address ''0x1111111111111111111111111111111111111111''
         500000000000000000, sample_hash)]"
    using m [THEN conjunct1] by (simp only: j1(3) [symmetric] w0 pa rc) simp
  have m2: "take 1 (replies (snd (transferMNT_handler sample_lib ?E
                      (sample_message two_addresses_mnt) None sample_world))) =
     [''Procesando transferencia de 0.5 MNT desde tu wallet personal ('' @
      ''0xf39Fd6e51aad88F6F4ce6aB8827279cffFb92266) hacia '' @
      ''0x1111111111111111111111111111111111111111...'']"
    using m [THEN conjunct2] by (simp only: j1(3) [symmetric] w0 pa rc sa) simp
  from two_addresses_transfer_facts(3) obtain j2 where
    j2: "addr_prefix (drop j2 two_addresses_aishop)"
      "\<forall>k<j2. \<not> addr_prefix (drop k two_addresses_aishop)"
      "sample_recipient = take 42 (drop j2 two_addresses_aishop)"
    unfolding extract_leftmost by blast
  note T2 = leftmost_address [where t = two_addresses_aishop
      and m = "sample_message two_addresses_aishop" and st = None and u = "''user-1''"
      and L = sample_lib and E = ?E and w = sample_world and j = j2 and p = ?p
      and info = ?i and tsym = "''AISHOP''" and tname = "''AI Shop Agent''"
      and decimals = 18 and tokenAddress = aishop_address
      and val = 25000000000000000000 and held = 25000000000000000000 and h = sample_hash]
  have s2: "writeContract ?E
      (TokenTransfer (wp_address ?p) aishop_address
         (take 42 (drop j2 two_addresses_aishop)) 25000000000000000000) = Inr sample_hash"
    by (rule sample_env_funded_facts)
  have n: "broadcasts (snd (transferERC20_handler sample_lib ?E
                      (sample_message two_addresses_aishop) None sample_world)) =
      broadcasts sample_world @
        [(TokenTransfer (wp_address ?p) aishop_address
            (take 42 (drop j2 two_addresses_aishop)) 25000000000000000000, sample_hash)] \<and>
    take (Suc (length (replies sample_world)))
      (replies (snd (transferERC20_handler sample_lib ?E
                      (sample_message two_addresses_aishop) None sample_world))) =
      replies sample_world @
        [''Procesando transferencia de '' @ amount ?i @ '' '' @ ''AISHOP'' @
         '' desde tu wallet personal ('' @ wp_address ?p @ '') hacia '' @
         take 42 (drop j2 two_addresses_aishop) @ ''...'']"
    by (rule T2 [THEN conjunct2, THEN conjunct2, THEN conjunct2, THEN conjunct2,
          THEN conjunct2, THEN conjunct1, THEN mp])
      (intro conjI sample_caller hw pr t(2) j2(1,2) two_addresses_transfer_facts(4) tk pu rb
        le2 s2)
  have n1: "broadcasts (snd (transferERC20_handler sample_lib ?E
                      (sample_message two_addresses_aishop) None sample_world)) =
     [(TokenTransfer sample_address aishop_address
         ''0x1111111111111111111111111111111111111111'' 25000000000000000000, sample_hash)]"
    using n [THEN conjunct1] by (simp only: j2(3) [symmetric] w0 pa rc) simp
  have n2: "take 1 (replies (snd (transferERC20_handler sample_lib ?E
                      (sample_message two_addresses_aishop) None sample_world))) =
     [''Procesando transferencia de 25 AISHOP desde tu wallet personal ('' @
      ''0xf39Fd6e51aad88F6F4ce6aB8827279cffFb92266) hacia '' @
      ''0x1111111111111111111111111111111111111111...'']"
    using n [THEN conjunct2] by (simp only: j2(3) [symmetric] w0 pa rc sa) simp
  from a' two_addresses_facts(2) c b m1 m2 n1 n2 d1 d2 d3 f show ?thesis
    by (intro conjI)
qed

end
